theory Spec2Isabelle
  imports Main "HOL-Library.Char_ord" "HOL-Library.AList"
begin

section \<open>Strings\<close>

text \<open>
  A Python \<^verbatim>\<open>str\<close> is modelled as a \<^typ>\<open>string\<close> whose characters stand for the code
  points below 256 (Latin-1), one \<^typ>\<open>char\<close> per code point, so \<^term>\<open>length\<close> counts what
  Python's \<^verbatim>\<open>len\<close> counts. Texts with code points from 256 on are outside the model.
  The character classes below are those of Python 3 on that range: \<^verbatim>\<open>str.isspace\<close>
  (which is also what \<^verbatim>\<open>\s\<close> and \<^verbatim>\<open>str.strip()\<close> use), decimal digits, and the
  word characters of \<^verbatim>\<open>\w\<close>.
\<close>

definition newline :: char where
  "newline = CHR 0x0A"

definition degree :: char where
  "degree = CHR 0xB0"

definition code :: "char \<Rightarrow> nat" where
  "code c = of_char c"

definition is_space :: "char \<Rightarrow> bool" where
  "is_space c = (let n = code c in
     (9 \<le> n \<and> n \<le> 13) \<or> (28 \<le> n \<and> n \<le> 32) \<or> n = 133 \<or> n = 160)"

definition is_digit :: "char \<Rightarrow> bool" where
  "is_digit c = (let n = code c in 48 \<le> n \<and> n \<le> 57)"

definition is_upper :: "char \<Rightarrow> bool" where
  "is_upper c = (let n = code c in
     (65 \<le> n \<and> n \<le> 90) \<or> (192 \<le> n \<and> n \<le> 222 \<and> n \<noteq> 215))"

definition is_lower :: "char \<Rightarrow> bool" where
  "is_lower c = (let n = code c in
     (97 \<le> n \<and> n \<le> 122) \<or> (224 \<le> n \<and> n \<le> 254 \<and> n \<noteq> 247))"

definition lower_char :: "char \<Rightarrow> char" where
  "lower_char c = (if is_upper c then char_of (code c + 32) else c)"

definition upper_char :: "char \<Rightarrow> char" where
  "upper_char c = (if is_lower c then char_of (code c - 32) else c)"

definition is_word :: "char \<Rightarrow> bool" where
  "is_word c = (let n = code c in
     (48 \<le> n \<and> n \<le> 57) \<or> (65 \<le> n \<and> n \<le> 90) \<or> n = 95 \<or> (97 \<le> n \<and> n \<le> 122) \<or>
     n = 170 \<or> n = 178 \<or> n = 179 \<or> n = 181 \<or> n = 185 \<or> n = 186 \<or> (188 \<le> n \<and> n \<le> 190) \<or>
     (192 \<le> n \<and> n \<le> 214) \<or> (216 \<le> n \<and> n \<le> 246) \<or> (248 \<le> n \<and> n \<le> 255))"

text \<open>\<^verbatim>\<open>s.lower()\<close>\<close>

definition lower :: "string \<Rightarrow> string" where
  "lower s = map lower_char s"

text \<open>\<^verbatim>\<open>s.strip()\<close>: leading and trailing whitespace removed.\<close>

definition lstrip :: "string \<Rightarrow> string" where
  "lstrip s = dropWhile is_space s"

definition rstrip :: "string \<Rightarrow> string" where
  "rstrip s = rev (dropWhile is_space (rev s))"

definition strip :: "string \<Rightarrow> string" where
  "strip s = rstrip (lstrip s)"

text \<open>\<^verbatim>\<open>s.startswith(p)\<close> and the substring test \<^verbatim>\<open>p in s\<close>.\<close>

fun startswith :: "string \<Rightarrow> string \<Rightarrow> bool" where
  "startswith s [] = True"
| "startswith [] (x # p) = False"
| "startswith (c # s) (x # p) = (c = x \<and> startswith s p)"

fun contains :: "string \<Rightarrow> string \<Rightarrow> bool" where
  "contains p [] = (p = [])"
| "contains p (c # s) = (startswith (c # s) p \<or> contains p s)"

text \<open>\<^verbatim>\<open>sep.join(xs)\<close>\<close>

fun join :: "string \<Rightarrow> string list \<Rightarrow> string" where
  "join sep [] = []"
| "join sep [x] = x"
| "join sep (x # y # xs) = x @ sep @ join sep (y # xs)"

text \<open>\<^verbatim>\<open>str(n)\<close> for a non-negative integer.\<close>

definition digit_char :: "nat \<Rightarrow> char" where
  "digit_char d = char_of (48 + d)"

function str_nat :: "nat \<Rightarrow> string" where
  "str_nat n = (if n < 10 then [digit_char n] else str_nat (n div 10) @ [digit_char (n mod 10)])"
  by pat_completeness auto
termination
  by (relation "measure id") auto

text \<open>The exceptions that the modelled code can raise.\<close>

datatype py_exn = TypeError | AttributeError

section \<open>Regular expressions\<close>

text \<open>
  The patterns of the source are values of \<open>rx\<close>, the abstract syntax of the fragment of
  Python's \<^verbatim>\<open>re\<close> that the source uses. \<open>m\<close> is a backtracking matcher: it tries the
  alternatives in the order Python's engine does (left alternative first, greedy
  repetitions longest first, lazy ones shortest first) and hands every end state to a
  continuation, so the first end state the continuation accepts is the match Python finds.
  A state is the character before the position, the rest of the input, and the groups
  captured so far (latest first).
\<close>

datatype cls = Ch char | Rng char char | Dig | NDig | Spc | Wrd

record flags =
  ignorecase :: bool
  dotall :: bool
  multiline :: bool

fun in_cls1 :: "char \<Rightarrow> cls \<Rightarrow> bool" where
  "in_cls1 c (Ch x) = (c = x)"
| "in_cls1 c (Rng a b) = (code a \<le> code c \<and> code c \<le> code b)"
| "in_cls1 c Dig = is_digit c"
| "in_cls1 c NDig = (\<not> is_digit c)"
| "in_cls1 c Spc = is_space c"
| "in_cls1 c Wrd = is_word c"

definition in_cls :: "flags \<Rightarrow> char \<Rightarrow> cls \<Rightarrow> bool" where
  "in_cls f c k =
     (in_cls1 c k \<or> (ignorecase f \<and> (in_cls1 (lower_char c) k \<or> in_cls1 (upper_char c) k)))"

definition in_set :: "flags \<Rightarrow> char \<Rightarrow> cls list \<Rightarrow> bool" where
  "in_set f c ks = list_ex (in_cls f c) ks"

datatype rx =
    Lit string
  | Dot
  | Set "cls list"
  | NSet "cls list"
  | Seq rx rx
  | Alt rx rx
  | Rep bool nat "nat option" rx
  | Grp nat rx
  | Ahead rx
  | Bol
  | Eol
  | EndZ
  | WordB

type_synonym caps = "(nat \<times> string) list"
type_synonym mstate = "char option \<times> string \<times> caps"
type_synonym cont = "mstate \<Rightarrow> mstate option"

fun match_lit :: "flags \<Rightarrow> string \<Rightarrow> char option \<Rightarrow> string \<Rightarrow> (char option \<times> string) option" where
  "match_lit f [] p s = Some (p, s)"
| "match_lit f (x # xs) p [] = None"
| "match_lit f (x # xs) p (c # s) =
     (if c = x \<or> (ignorecase f \<and> lower_char c = lower_char x)
      then match_lit f xs (Some c) s else None)"

definition dec :: "nat option \<Rightarrow> nat option" where
  "dec h = (case h of None \<Rightarrow> None | Some n \<Rightarrow> Some (n - 1))"

text \<open>
  \<open>rep mr g n lo hi\<close> repeats the matcher \<open>mr\<close>: \<open>lo\<close> more mandatory rounds, then
  optional rounds while \<open>hi\<close> allows. An optional round must consume input, so the
  fuel \<open>n\<close>, one more than the length of the input left, is never used up.
\<close>

fun rep :: "(mstate \<Rightarrow> cont \<Rightarrow> mstate option) \<Rightarrow> bool \<Rightarrow> nat \<Rightarrow> nat \<Rightarrow> nat option \<Rightarrow>
    mstate \<Rightarrow> cont \<Rightarrow> mstate option" where
  "rep mr g n (Suc lo) hi st k = mr st (\<lambda>st'. rep mr g n lo (dec hi) st' k)"
| "rep mr g 0 0 hi st k = k st"
| "rep mr g (Suc n) 0 hi st k =
     (if hi = Some 0 then k st
      else if g then
        (case mr st (\<lambda>st'. if length (fst (snd st')) < length (fst (snd st))
                            then rep mr g n 0 (dec hi) st' k else None) of
           Some r \<Rightarrow> Some r
         | None \<Rightarrow> k st)
      else
        (case k st of
           Some r \<Rightarrow> Some r
         | None \<Rightarrow> mr st (\<lambda>st'. if length (fst (snd st')) < length (fst (snd st))
                                 then rep mr g n 0 (dec hi) st' k else None)))"

definition at_boundary :: "char option \<Rightarrow> string \<Rightarrow> bool" where
  "at_boundary p s =
     ((case p of None \<Rightarrow> False | Some c \<Rightarrow> is_word c) \<noteq>
      (case s of [] \<Rightarrow> False | c # _ \<Rightarrow> is_word c))"

primrec m :: "rx \<Rightarrow> flags \<Rightarrow> mstate \<Rightarrow> cont \<Rightarrow> mstate option" where
  "m (Lit xs) = (\<lambda>f st k. case st of (p, s, c) \<Rightarrow>
      (case match_lit f xs p s of None \<Rightarrow> None | Some (p', s') \<Rightarrow> k (p', s', c)))"
| "m Dot = (\<lambda>f st k. case st of (p, s, c) \<Rightarrow>
      (case s of [] \<Rightarrow> None
       | x # s' \<Rightarrow> if dotall f \<or> x \<noteq> newline then k (Some x, s', c) else None))"
| "m (Set ks) = (\<lambda>f st k. case st of (p, s, c) \<Rightarrow>
      (case s of [] \<Rightarrow> None
       | x # s' \<Rightarrow> if in_set f x ks then k (Some x, s', c) else None))"
| "m (NSet ks) = (\<lambda>f st k. case st of (p, s, c) \<Rightarrow>
      (case s of [] \<Rightarrow> None
       | x # s' \<Rightarrow> if \<not> in_set f x ks then k (Some x, s', c) else None))"
| "m (Seq a b) = (\<lambda>f st k. m a f st (\<lambda>st'. m b f st' k))"
| "m (Alt a b) = (\<lambda>f st k. case m a f st k of Some r \<Rightarrow> Some r | None \<Rightarrow> m b f st k)"
| "m (Rep g lo hi r) = (\<lambda>f st k. rep (m r f) g (Suc (length (fst (snd st)))) lo hi st k)"
| "m (Grp n r) = (\<lambda>f st k. case st of (p, s, c) \<Rightarrow>
      m r f (p, s, c) (\<lambda>st'. case st' of (p', s', c') \<Rightarrow>
        k (p', s', (n, take (length s - length s') s) # c')))"
| "m (Ahead r) = (\<lambda>f st k. case st of (p, s, c) \<Rightarrow>
      (case m r f (p, s, c) Some of None \<Rightarrow> None | Some (p', s', c') \<Rightarrow> k (p, s, c')))"
| "m Bol = (\<lambda>f st k. case st of (p, s, c) \<Rightarrow>
      if p = None \<or> (multiline f \<and> p = Some newline) then k st else None)"
| "m Eol = (\<lambda>f st k. case st of (p, s, c) \<Rightarrow>
      if s = [] \<or> s = [newline] \<or> (multiline f \<and> startswith s [newline]) then k st else None)"
| "m EndZ = (\<lambda>f st k. case st of (p, s, c) \<Rightarrow> if s = [] then k st else None)"
| "m WordB = (\<lambda>f st k. case st of (p, s, c) \<Rightarrow> if at_boundary p s then k st else None)"

text \<open>Concatenation and alternation of several patterns; the usual quantifiers.\<close>

definition seq :: "rx list \<Rightarrow> rx" where
  "seq rs = foldr Seq rs (Lit [])"

definition alt :: "rx list \<Rightarrow> rx" where
  "alt rs = foldr Alt (butlast rs) (last rs)"

abbreviation star :: "rx \<Rightarrow> rx" where
  "star r \<equiv> Rep True 0 None r"

abbreviation plus1 :: "rx \<Rightarrow> rx" where
  "plus1 r \<equiv> Rep True 1 None r"

abbreviation lazy :: "rx \<Rightarrow> rx" where
  "lazy r \<equiv> Rep False 0 None r"

abbreviation opt :: "rx \<Rightarrow> rx" where
  "opt r \<equiv> Rep True 0 (Some 1) r"

abbreviation chr :: "char \<Rightarrow> rx" where
  "chr c \<equiv> Lit [c]"

text \<open>
  A match object: where the match starts (the character before it and the input from
  there), the character before its end, the input after it, and the captured groups.
\<close>

record match =
  m_before :: "char option"
  m_start :: string
  m_last :: "char option"
  m_end :: string
  m_caps :: caps

text \<open>\<^verbatim>\<open>re.search\<close>: the first match at the leftmost position that has one.\<close>

fun search_from :: "flags \<Rightarrow> rx \<Rightarrow> char option \<Rightarrow> string \<Rightarrow> match option" where
  "search_from f r p [] =
     (case m r f (p, [], []) Some of
        Some (p', s', c) \<Rightarrow>
          Some \<lparr>m_before = p, m_start = [], m_last = p', m_end = s', m_caps = c\<rparr>
      | None \<Rightarrow> None)"
| "search_from f r p (x # xs) =
     (case m r f (p, x # xs, []) Some of
        Some (p', s', c) \<Rightarrow>
          Some \<lparr>m_before = p, m_start = x # xs, m_last = p', m_end = s', m_caps = c\<rparr>
      | None \<Rightarrow> search_from f r (Some x) xs)"

definition re_search :: "rx \<Rightarrow> string \<Rightarrow> flags \<Rightarrow> match option" where
  "re_search r text f = search_from f r None text"

text \<open>
  \<^verbatim>\<open>match.group(0)\<close> and \<^verbatim>\<open>match.group(n)\<close>; the latter is \<open>None\<close> where Python
  returns \<^verbatim>\<open>None\<close> (the group took no part in the match).
\<close>

definition group0 :: "match \<Rightarrow> string" where
  "group0 mt = take (length (m_start mt) - length (m_end mt)) (m_start mt)"

definition group :: "match \<Rightarrow> nat \<Rightarrow> string option" where
  "group mt n = map_of (m_caps mt) n"

definition no_flags :: flags where
  "no_flags = \<lparr>ignorecase = False, dotall = False, multiline = False\<rparr>"

definition DOTALL :: flags where
  "DOTALL = \<lparr>ignorecase = False, dotall = True, multiline = False\<rparr>"

definition IGNORECASE :: flags where
  "IGNORECASE = \<lparr>ignorecase = True, dotall = False, multiline = False\<rparr>"

definition IGNORECASE_DOTALL :: flags where
  "IGNORECASE_DOTALL = \<lparr>ignorecase = True, dotall = True, multiline = False\<rparr>"

section \<open>The local extractor (sds_extractor.py)\<close>

subsection \<open>Searching, \<^verbatim>\<open>re.findall\<close>, \<^verbatim>\<open>re.sub\<close>\<close>

definition found :: "rx \<Rightarrow> string \<Rightarrow> flags \<Rightarrow> bool" where
  "found r text f = (re_search r text f \<noteq> None)"

text \<open>
  \<^verbatim>\<open>re.finditer\<close>: the successive matches, each search starting where the match before
  ended (one character further after an empty match). The comparisons of lengths hold
  for every match, since a match ends inside the input it started in; they are written
  out so that the recursion is seen to stop.
\<close>

function find_all :: "flags \<Rightarrow> rx \<Rightarrow> char option \<Rightarrow> string \<Rightarrow> match list" where
  "find_all f r p s =
     (case search_from f r p s of
        None \<Rightarrow> []
      | Some mt \<Rightarrow>
          mt # (if length (m_end mt) < length (m_start mt) \<and> length (m_start mt) \<le> length s
                then find_all f r (m_last mt) (m_end mt)
                else (case m_start mt of
                        [] \<Rightarrow> []
                      | x # xs \<Rightarrow> if length xs < length s then find_all f r (Some x) xs else [])))"
  by pat_completeness auto
termination
  by (relation "measure (\<lambda>(f, r, p, s). length s)") auto

declare find_all.simps [simp del]

text \<open>
  \<^verbatim>\<open>re.findall\<close> for a pattern with exactly one group (the list of what the group
  captured, the empty string where it took no part) and for a pattern without groups.
\<close>

definition findall1 :: "rx \<Rightarrow> string \<Rightarrow> flags \<Rightarrow> string list" where
  "findall1 r text f =
     map (\<lambda>mt. case group mt 1 of None \<Rightarrow> [] | Some g \<Rightarrow> g) (find_all f r None text)"

text \<open>\<^verbatim>\<open>re.sub(pattern, repl, s)\<close> for a replacement without group references.\<close>

function sub_from :: "flags \<Rightarrow> rx \<Rightarrow> string \<Rightarrow> char option \<Rightarrow> string \<Rightarrow> string" where
  "sub_from f r repl p s =
     (case search_from f r p s of
        None \<Rightarrow> s
      | Some mt \<Rightarrow>
          take (length s - length (m_start mt)) s @ repl @
          (if length (m_end mt) < length (m_start mt) \<and> length (m_start mt) \<le> length s
           then sub_from f r repl (m_last mt) (m_end mt)
           else (case m_start mt of
                   [] \<Rightarrow> []
                 | x # xs \<Rightarrow>
                     if length xs < length s then x # sub_from f r repl (Some x) xs else x # xs)))"
  by pat_completeness auto
termination
  by (relation "measure (\<lambda>(f, r, repl, p, s). length s)") auto

declare sub_from.simps [simp del]

definition re_sub :: "rx \<Rightarrow> string \<Rightarrow> string \<Rightarrow> flags \<Rightarrow> string" where
  "re_sub r repl s f = sub_from f r repl None s"

text \<open>\<^verbatim>\<open>re.sub(r'\s+', ' ', s)\<close>\<close>

definition collapse_ws :: "string \<Rightarrow> string" where
  "collapse_ws s = re_sub (plus1 (Set [Spc])) '' '' s no_flags"

text \<open>Sequencing of computations that may raise.\<close>

definition bindE :: "py_exn + 'a \<Rightarrow> ('a \<Rightarrow> py_exn + 'b) \<Rightarrow> py_exn + 'b" where
  "bindE x g = (case x of Inl e \<Rightarrow> Inl e | Inr v \<Rightarrow> g v)"

text \<open>
  \<^verbatim>\<open>match.group(1).strip()\<close>: on a group that took no part in the match, \<^verbatim>\<open>group(1)\<close>
  is \<^verbatim>\<open>None\<close> and \<^verbatim>\<open>.strip()\<close> raises.
\<close>

definition group_strip :: "match \<Rightarrow> nat \<Rightarrow> py_exn + string" where
  "group_strip mt n = (case group mt n of None \<Rightarrow> Inl AttributeError | Some g \<Rightarrow> Inr (strip g))"

text \<open>A dictionary from strings to strings, in insertion order.\<close>

type_synonym sdict = "(string \<times> string) list"

text \<open>\<^verbatim>\<open>d.get(k, "")\<close>\<close>

definition get_or_empty :: "sdict \<Rightarrow> string \<Rightarrow> string" where
  "get_or_empty d k = (case map_of d k of None \<Rightarrow> [] | Some v \<Rightarrow> v)"

text \<open>
  The order in which Python iterates over \<^verbatim>\<open>set(xs)\<close> depends on the hash seed of the
  process. The functions that join a set take that order as a parameter \<open>set_iter\<close>:
  \<open>set_iter xs\<close> lists the distinct elements of \<open>xs\<close> in the order of iteration.
\<close>

type_synonym set_order = "string list \<Rightarrow> string list"

subsection \<open>\<^verbatim>\<open>extract_with_patterns\<close>\<close>

text \<open>
  A pattern of a pattern list. \<open>Company name r\<close> stands for a pattern whose source text
  is one of the eleven company patterns that \<^verbatim>\<open>extract_with_patterns\<close> treats
  specially; \<open>name\<close> is what the function computes from the pattern text by its
  \<^verbatim>\<open>replace\<close> calls. \<open>has_group n r\<close> says that the pattern has a group \<open>n\<close>, so that
  \<^verbatim>\<open>group(n)\<close> does not raise \<^verbatim>\<open>IndexError\<close>.
\<close>

datatype pat = P rx | Company string rx

primrec has_group :: "nat \<Rightarrow> rx \<Rightarrow> bool" where
  "has_group n (Lit xs) = False"
| "has_group n Dot = False"
| "has_group n (Set ks) = False"
| "has_group n (NSet ks) = False"
| "has_group n (Seq a b) = (has_group n a \<or> has_group n b)"
| "has_group n (Alt a b) = (has_group n a \<or> has_group n b)"
| "has_group n (Rep g lo hi r) = has_group n r"
| "has_group n (Grp j r) = (j = n \<or> has_group n r)"
| "has_group n (Ahead r) = has_group n r"
| "has_group n Bol = False"
| "has_group n Eol = False"
| "has_group n EndZ = False"
| "has_group n WordB = False"

fun extract_with_patterns :: "string \<Rightarrow> pat list \<Rightarrow> py_exn + string" where
  "extract_with_patterns text [] = Inr []"
| "extract_with_patterns text (Company name r # patterns) =
     (case re_search r text IGNORECASE_DOTALL of
        Some matches \<Rightarrow> Inr name
      | None \<Rightarrow> extract_with_patterns text patterns)"
| "extract_with_patterns text (P r # patterns) =
     (case re_search r text IGNORECASE_DOTALL of
        Some matches \<Rightarrow>
          (if has_group 1 r then group_strip matches 1 else Inr (strip (group0 matches)))
      | None \<Rightarrow> extract_with_patterns text patterns)"

subsection \<open>\<^verbatim>\<open>extract_pattern_based\<close>\<close>

definition field_mapping :: "(string \<times> string) list" where
  "field_mapping =
     [(''Supplier Information'', ''Supplier/Manufacturer''),
      (''Hazard Classification'', ''Hazards''),
      (''Physical Hazard'', ''Physical Hazards''),
      (''CAS Number'', ''Description''),
      (''Chemical Identification'', ''of the substance or mixture''),
      (''Hazardous Substance'', ''or mixture and uses advised against''),
      (''Dangerous Goods Cl'', ''Dangerous Goods Class''),
      (''Environmental Hazards'', ''Hazards''),
      (''Regulatory Compliance Information'', ''Hazards''),
      (''Hazard Statement'', ''Health Hazards'')]"

definition default_values :: "(string \<times> string) list" where
  "default_values =
     [(''SDS Available'', []),
      (''Identification of the substance/mixture and of the company/undertaking'', []),
      (''Hazardous Substance'', []),
      (''or mixture and uses advised against'', []),
      (''Location'', []),
      (''Quantity'', []),
      (''Issue Date'', [])]"

definition map_field :: "string \<times> string \<Rightarrow> sdict \<Rightarrow> sdict" where
  "map_field om data_dict =
     (case om of (old_field, new_field) \<Rightarrow>
        (case map_of data_dict old_field of
           None \<Rightarrow> data_dict
         | Some v \<Rightarrow> if v \<noteq> [] then AList.update new_field v data_dict else data_dict))"

definition set_default :: "string \<times> string \<Rightarrow> sdict \<Rightarrow> sdict" where
  "set_default fd data_dict =
     (case fd of (field, default_value) \<Rightarrow>
        (case map_of data_dict field of
           None \<Rightarrow> AList.update field default_value data_dict
         | Some v \<Rightarrow> if v = [] then AList.update field default_value data_dict else data_dict))"

definition apply_field_mappings :: "sdict \<Rightarrow> sdict" where
  "apply_field_mappings data_dict = fold set_default default_values (fold map_field field_mapping data_dict)"

text \<open>
  \<^verbatim>\<open>[Ss]kin\s+(?:irritation|corrosion|sensitization)[^,\n]*?[(\s](?:Category|Cat\.?)[)\s]*(\d[A-Z]?)\<close>

  \<^verbatim>\<open>[Ee]ye\s+(?:irritation|damage)[^,\n]*?[(\s](?:Category|Cat\.?)[)\s]*(\d[A-Z]?)\<close>

  \<^verbatim>\<open>[Rr]eproductive\s+[Tt]oxicity[^,\n]*?[(\s](?:Category|Cat\.?)[)\s]*(\d[A-Z]?)\<close>

  \<^verbatim>\<open>(?:STOT|[Ss]pecific\s+[Tt]arget\s+[Oo]rgan\s+[Tt]oxicity)[^,\n]*?[(\s](?:Category|Cat\.?)[)\s]*(\d[A-Z]?)\<close>

  \<^verbatim>\<open>[Aa]cute\s+[Tt]oxicity[^,\n]*?[(\s](?:Category|Cat\.?)[)\s]*(\d[A-Z]?)\<close>

  \<^verbatim>\<open>[Ss]kin\s+[Cc]orrosion[^,\n]*?[(\s](?:Category|Cat\.?)[)\s]*(\d[A-Z]?)\<close>

  \<^verbatim>\<open>[Rr]espiratory\s+[Ss]ensitization[^,\n]*?[(\s](?:Category|Cat\.?)[)\s]*(\d[A-Z]?)\<close>

  \<^verbatim>\<open>[Ee]ye\s+[Ii]rrit\.(?:\s+|\s*-\s*|\s*|\.)(\d+[A-Z]?)\<close>

  \<^verbatim>\<open>[Ss]kin\s+[Ii]rrit\.(?:\s+|\s*-\s*|\s*|\.)(\d+[A-Z]?)\<close>

  \<^verbatim>\<open>[Ss]kin\s+[Cc]orr\.(?:\s+|\s*-\s*|\s*|\.)(\d+[A-Z]?)\<close>

  \<^verbatim>\<open>[Aa]cute\s+[Tt]ox\.(?:\s+|\s*-\s*|\s*|\.)(\d+[A-Z]?)\<close>

  \<^verbatim>\<open>STOT\s+SE(?:\s+|\s*-\s*|\s*|\.)(\d+[A-Z]?)\<close>

  \<^verbatim>\<open>STOT\s+RE(?:\s+|\s*-\s*|\s*|\.)(\d+[A-Z]?)\<close>

  \<^verbatim>\<open>[Cc]arc\.(?:\s+|\s*-\s*|\s*|\.)(\d+[A-Z]?)\<close>

  \<^verbatim>\<open>[Aa]sp\.\s+[Tt]ox\.(?:\s+|\s*-\s*|\s*|\.)(\d+[A-Z]?)\<close>

  \<^verbatim>\<open>[Rr]esp\.\s+[Ss]ens\.(?:\s+|\s*-\s*|\s*|\.)(\d+[A-Z]?)\<close>

  \<^verbatim>\<open>[Ss]kin\s+[Ss]ens\.(?:\s+|\s*-\s*|\s*|\.)(\d+[A-Z]?)\<close>

  \<^verbatim>\<open>[Ff]lam\.\s+[Ll]iq\.(?:\s+|\s*-\s*|\s*|\.)(\d+[A-Z]?)\<close>

  \<^verbatim>\<open>[Rr]epr\.(?:\s+|\s*-\s*|\s*|\.)(\d+[A-Z]?)\<close>

  \<^verbatim>\<open>[Mm]uta\.(?:\s+|\s*-\s*|\s*|\.)(\d+[A-Z]?)\<close>

  \<^verbatim>\<open>(?:skin|eye|repro|reproductive|toxicity|respir|acute|damage|irritation|sens)[^,\n]{0,50}?(?:Cat\.|Category)[^,\n]{0,20}?(\d[A-Z]?)\<close>

  \<^verbatim>\<open>[Hh]uman health(?:[^(]*?)\(?[^\d]*(\d[A-Z]?)\)?\<close>

  \<^verbatim>\<open>[Hh]ealth(?:[^(]*?)\(?[^\d]*(\d[A-Z]?)\)?\<close>

  \<^verbatim>\<open>[Hh]ealth [Ee]ffects[^:]*?(?:Category|Cat\.?)[^,\n]*?(\d[A-Z]?)\<close>

  \<^verbatim>\<open>EU[^:]*?[Cc]lass(?:[^(]*?)\(?[^\d]*(\d[A-Z]?)\)?\<close>

  \<^verbatim>\<open>CLP[^:]*?[Cc]lass(?:[^(]*?)\(?[^\d]*(\d[A-Z]?)\)?\<close>

  \<^verbatim>\<open>(?:Category|Cat\.?)\s*(\d[A-Z]?)[^,\n]{0,100}?(?:toxic|health|irritation|corrosion|sensitization|damage)\<close>

  \<^verbatim>\<open>(?:toxic|health|irritation|corrosion|sensitization|damage)[^,\n]{0,100}?(?:Category|Cat\.?)\s*(\d[A-Z]?)\<close>

  \<^verbatim>\<open>(?:SECTION\s+2|2\.)[^A-Z]{0,500}?(?:Category|Cat\.?)\s*(\d[A-Z]?)\<close>
\<close>

definition health_category_patterns :: "pat list" where
  "health_category_patterns =
     [P (seq [Set [Ch (CHR ''S''), Ch (CHR ''s'')], Lit ''kin'', plus1 (Set [Spc]),
         alt [Lit ''irritation'', Lit ''corrosion'', Lit ''sensitization''],
         lazy (NSet [Ch (CHR '',''), Ch newline]), Set [Ch (CHR ''(''), Spc],
         alt [Lit ''Category'', seq [Lit ''Cat'', opt (Lit ''.'')]], star (Set [Ch (CHR '')''),
         Spc]), Grp 1 (seq [Set [Dig], opt (Set [Rng (CHR ''A'') (CHR ''Z'')])])]),
      P (seq [Set [Ch (CHR ''E''), Ch (CHR ''e'')], Lit ''ye'', plus1 (Set [Spc]),
          alt [Lit ''irritation'', Lit ''damage''], lazy (NSet [Ch (CHR '',''), Ch newline]),
          Set [Ch (CHR ''(''), Spc], alt [Lit ''Category'', seq [Lit ''Cat'', opt (Lit ''.'')]],
          star (Set [Ch (CHR '')''), Spc]), Grp 1 (seq [Set [Dig],
          opt (Set [Rng (CHR ''A'') (CHR ''Z'')])])]),
      P (seq [Set [Ch (CHR ''R''), Ch (CHR ''r'')], Lit ''eproductive'', plus1 (Set [Spc]),
          Set [Ch (CHR ''T''), Ch (CHR ''t'')], Lit ''oxicity'', lazy (NSet [Ch (CHR '',''),
          Ch newline]), Set [Ch (CHR ''(''), Spc], alt [Lit ''Category'', seq [Lit ''Cat'',
          opt (Lit ''.'')]], star (Set [Ch (CHR '')''), Spc]), Grp 1 (seq [Set [Dig],
          opt (Set [Rng (CHR ''A'') (CHR ''Z'')])])]),
      P (seq [alt [Lit ''STOT'', seq [Set [Ch (CHR ''S''), Ch (CHR ''s'')], Lit ''pecific'',
          plus1 (Set [Spc]), Set [Ch (CHR ''T''), Ch (CHR ''t'')], Lit ''arget'',
          plus1 (Set [Spc]), Set [Ch (CHR ''O''), Ch (CHR ''o'')], Lit ''rgan'', plus1 (Set [Spc]),
          Set [Ch (CHR ''T''), Ch (CHR ''t'')], Lit ''oxicity'']], lazy (NSet [Ch (CHR '',''),
          Ch newline]), Set [Ch (CHR ''(''), Spc], alt [Lit ''Category'', seq [Lit ''Cat'',
          opt (Lit ''.'')]], star (Set [Ch (CHR '')''), Spc]), Grp 1 (seq [Set [Dig],
          opt (Set [Rng (CHR ''A'') (CHR ''Z'')])])]),
      P (seq [Set [Ch (CHR ''A''), Ch (CHR ''a'')], Lit ''cute'', plus1 (Set [Spc]),
          Set [Ch (CHR ''T''), Ch (CHR ''t'')], Lit ''oxicity'', lazy (NSet [Ch (CHR '',''),
          Ch newline]), Set [Ch (CHR ''(''), Spc], alt [Lit ''Category'', seq [Lit ''Cat'',
          opt (Lit ''.'')]], star (Set [Ch (CHR '')''), Spc]), Grp 1 (seq [Set [Dig],
          opt (Set [Rng (CHR ''A'') (CHR ''Z'')])])]),
      P (seq [Set [Ch (CHR ''S''), Ch (CHR ''s'')], Lit ''kin'', plus1 (Set [Spc]),
          Set [Ch (CHR ''C''), Ch (CHR ''c'')], Lit ''orrosion'', lazy (NSet [Ch (CHR '',''),
          Ch newline]), Set [Ch (CHR ''(''), Spc], alt [Lit ''Category'', seq [Lit ''Cat'',
          opt (Lit ''.'')]], star (Set [Ch (CHR '')''), Spc]), Grp 1 (seq [Set [Dig],
          opt (Set [Rng (CHR ''A'') (CHR ''Z'')])])]),
      P (seq [Set [Ch (CHR ''R''), Ch (CHR ''r'')], Lit ''espiratory'', plus1 (Set [Spc]),
          Set [Ch (CHR ''S''), Ch (CHR ''s'')], Lit ''ensitization'', lazy (NSet [Ch (CHR '',''),
          Ch newline]), Set [Ch (CHR ''(''), Spc], alt [Lit ''Category'', seq [Lit ''Cat'',
          opt (Lit ''.'')]], star (Set [Ch (CHR '')''), Spc]), Grp 1 (seq [Set [Dig],
          opt (Set [Rng (CHR ''A'') (CHR ''Z'')])])]),
      P (seq [Set [Ch (CHR ''E''), Ch (CHR ''e'')], Lit ''ye'', plus1 (Set [Spc]),
          Set [Ch (CHR ''I''), Ch (CHR ''i'')], Lit ''rrit.'', alt [plus1 (Set [Spc]),
          seq [star (Set [Spc]), Lit ''-'', star (Set [Spc])], star (Set [Spc]), Lit ''.''],
          Grp 1 (seq [plus1 (Set [Dig]), opt (Set [Rng (CHR ''A'') (CHR ''Z'')])])]),
      P (seq [Set [Ch (CHR ''S''), Ch (CHR ''s'')], Lit ''kin'', plus1 (Set [Spc]),
          Set [Ch (CHR ''I''), Ch (CHR ''i'')], Lit ''rrit.'', alt [plus1 (Set [Spc]),
          seq [star (Set [Spc]), Lit ''-'', star (Set [Spc])], star (Set [Spc]), Lit ''.''],
          Grp 1 (seq [plus1 (Set [Dig]), opt (Set [Rng (CHR ''A'') (CHR ''Z'')])])]),
      P (seq [Set [Ch (CHR ''S''), Ch (CHR ''s'')], Lit ''kin'', plus1 (Set [Spc]),
          Set [Ch (CHR ''C''), Ch (CHR ''c'')], Lit ''orr.'', alt [plus1 (Set [Spc]),
          seq [star (Set [Spc]), Lit ''-'', star (Set [Spc])], star (Set [Spc]), Lit ''.''],
          Grp 1 (seq [plus1 (Set [Dig]), opt (Set [Rng (CHR ''A'') (CHR ''Z'')])])]),
      P (seq [Set [Ch (CHR ''A''), Ch (CHR ''a'')], Lit ''cute'', plus1 (Set [Spc]),
          Set [Ch (CHR ''T''), Ch (CHR ''t'')], Lit ''ox.'', alt [plus1 (Set [Spc]),
          seq [star (Set [Spc]), Lit ''-'', star (Set [Spc])], star (Set [Spc]), Lit ''.''],
          Grp 1 (seq [plus1 (Set [Dig]), opt (Set [Rng (CHR ''A'') (CHR ''Z'')])])]),
      P (seq [Lit ''STOT'', plus1 (Set [Spc]), Lit ''SE'', alt [plus1 (Set [Spc]),
          seq [star (Set [Spc]), Lit ''-'', star (Set [Spc])], star (Set [Spc]), Lit ''.''],
          Grp 1 (seq [plus1 (Set [Dig]), opt (Set [Rng (CHR ''A'') (CHR ''Z'')])])]),
      P (seq [Lit ''STOT'', plus1 (Set [Spc]), Lit ''RE'', alt [plus1 (Set [Spc]),
          seq [star (Set [Spc]), Lit ''-'', star (Set [Spc])], star (Set [Spc]), Lit ''.''],
          Grp 1 (seq [plus1 (Set [Dig]), opt (Set [Rng (CHR ''A'') (CHR ''Z'')])])]),
      P (seq [Set [Ch (CHR ''C''), Ch (CHR ''c'')], Lit ''arc.'', alt [plus1 (Set [Spc]),
          seq [star (Set [Spc]), Lit ''-'', star (Set [Spc])], star (Set [Spc]), Lit ''.''],
          Grp 1 (seq [plus1 (Set [Dig]), opt (Set [Rng (CHR ''A'') (CHR ''Z'')])])]),
      P (seq [Set [Ch (CHR ''A''), Ch (CHR ''a'')], Lit ''sp.'', plus1 (Set [Spc]),
          Set [Ch (CHR ''T''), Ch (CHR ''t'')], Lit ''ox.'', alt [plus1 (Set [Spc]),
          seq [star (Set [Spc]), Lit ''-'', star (Set [Spc])], star (Set [Spc]), Lit ''.''],
          Grp 1 (seq [plus1 (Set [Dig]), opt (Set [Rng (CHR ''A'') (CHR ''Z'')])])]),
      P (seq [Set [Ch (CHR ''R''), Ch (CHR ''r'')], Lit ''esp.'', plus1 (Set [Spc]),
          Set [Ch (CHR ''S''), Ch (CHR ''s'')], Lit ''ens.'', alt [plus1 (Set [Spc]),
          seq [star (Set [Spc]), Lit ''-'', star (Set [Spc])], star (Set [Spc]), Lit ''.''],
          Grp 1 (seq [plus1 (Set [Dig]), opt (Set [Rng (CHR ''A'') (CHR ''Z'')])])]),
      P (seq [Set [Ch (CHR ''S''), Ch (CHR ''s'')], Lit ''kin'', plus1 (Set [Spc]),
          Set [Ch (CHR ''S''), Ch (CHR ''s'')], Lit ''ens.'', alt [plus1 (Set [Spc]),
          seq [star (Set [Spc]), Lit ''-'', star (Set [Spc])], star (Set [Spc]), Lit ''.''],
          Grp 1 (seq [plus1 (Set [Dig]), opt (Set [Rng (CHR ''A'') (CHR ''Z'')])])]),
      P (seq [Set [Ch (CHR ''F''), Ch (CHR ''f'')], Lit ''lam.'', plus1 (Set [Spc]),
          Set [Ch (CHR ''L''), Ch (CHR ''l'')], Lit ''iq.'', alt [plus1 (Set [Spc]),
          seq [star (Set [Spc]), Lit ''-'', star (Set [Spc])], star (Set [Spc]), Lit ''.''],
          Grp 1 (seq [plus1 (Set [Dig]), opt (Set [Rng (CHR ''A'') (CHR ''Z'')])])]),
      P (seq [Set [Ch (CHR ''R''), Ch (CHR ''r'')], Lit ''epr.'', alt [plus1 (Set [Spc]),
          seq [star (Set [Spc]), Lit ''-'', star (Set [Spc])], star (Set [Spc]), Lit ''.''],
          Grp 1 (seq [plus1 (Set [Dig]), opt (Set [Rng (CHR ''A'') (CHR ''Z'')])])]),
      P (seq [Set [Ch (CHR ''M''), Ch (CHR ''m'')], Lit ''uta.'', alt [plus1 (Set [Spc]),
          seq [star (Set [Spc]), Lit ''-'', star (Set [Spc])], star (Set [Spc]), Lit ''.''],
          Grp 1 (seq [plus1 (Set [Dig]), opt (Set [Rng (CHR ''A'') (CHR ''Z'')])])]),
      P (seq [alt [Lit ''skin'', Lit ''eye'', Lit ''repro'', Lit ''reproductive'',
          Lit ''toxicity'', Lit ''respir'', Lit ''acute'', Lit ''damage'', Lit ''irritation'',
          Lit ''sens''], Rep False 0 (Some 50) (NSet [Ch (CHR '',''), Ch newline]),
          alt [Lit ''Cat.'', Lit ''Category''], Rep False 0 (Some 20) (NSet [Ch (CHR '',''),
          Ch newline]), Grp 1 (seq [Set [Dig], opt (Set [Rng (CHR ''A'') (CHR ''Z'')])])]),
      P (seq [Set [Ch (CHR ''H''), Ch (CHR ''h'')], Lit ''uman health'',
          lazy (NSet [Ch (CHR ''('')]), opt (Lit ''(''), star (NSet [Dig]), Grp 1 (seq [Set [Dig],
          opt (Set [Rng (CHR ''A'') (CHR ''Z'')])]), opt (Lit '')'')]),
      P (seq [Set [Ch (CHR ''H''), Ch (CHR ''h'')], Lit ''ealth'', lazy (NSet [Ch (CHR ''('')]),
          opt (Lit ''(''), star (NSet [Dig]), Grp 1 (seq [Set [Dig],
          opt (Set [Rng (CHR ''A'') (CHR ''Z'')])]), opt (Lit '')'')]),
      P (seq [Set [Ch (CHR ''H''), Ch (CHR ''h'')], Lit ''ealth '', Set [Ch (CHR ''E''),
          Ch (CHR ''e'')], Lit ''ffects'', lazy (NSet [Ch (CHR '':'')]), alt [Lit ''Category'',
          seq [Lit ''Cat'', opt (Lit ''.'')]], lazy (NSet [Ch (CHR '',''), Ch newline]),
          Grp 1 (seq [Set [Dig], opt (Set [Rng (CHR ''A'') (CHR ''Z'')])])]),
      P (seq [Lit ''EU'', lazy (NSet [Ch (CHR '':'')]), Set [Ch (CHR ''C''), Ch (CHR ''c'')],
          Lit ''lass'', lazy (NSet [Ch (CHR ''('')]), opt (Lit ''(''), star (NSet [Dig]),
          Grp 1 (seq [Set [Dig], opt (Set [Rng (CHR ''A'') (CHR ''Z'')])]), opt (Lit '')'')]),
      P (seq [Lit ''CLP'', lazy (NSet [Ch (CHR '':'')]), Set [Ch (CHR ''C''), Ch (CHR ''c'')],
          Lit ''lass'', lazy (NSet [Ch (CHR ''('')]), opt (Lit ''(''), star (NSet [Dig]),
          Grp 1 (seq [Set [Dig], opt (Set [Rng (CHR ''A'') (CHR ''Z'')])]), opt (Lit '')'')]),
      P (seq [alt [Lit ''Category'', seq [Lit ''Cat'', opt (Lit ''.'')]], star (Set [Spc]),
          Grp 1 (seq [Set [Dig], opt (Set [Rng (CHR ''A'') (CHR ''Z'')])]),
          Rep False 0 (Some 100) (NSet [Ch (CHR '',''), Ch newline]), alt [Lit ''toxic'',
          Lit ''health'', Lit ''irritation'', Lit ''corrosion'', Lit ''sensitization'',
          Lit ''damage'']]),
      P (seq [alt [Lit ''toxic'', Lit ''health'', Lit ''irritation'', Lit ''corrosion'',
          Lit ''sensitization'', Lit ''damage''], Rep False 0 (Some 100) (NSet [Ch (CHR '',''),
          Ch newline]), alt [Lit ''Category'', seq [Lit ''Cat'', opt (Lit ''.'')]],
          star (Set [Spc]), Grp 1 (seq [Set [Dig], opt (Set [Rng (CHR ''A'') (CHR ''Z'')])])]),
      P (seq [alt [seq [Lit ''SECTION'', plus1 (Set [Spc]), Lit ''2''], Lit ''2.''],
          Rep False 0 (Some 500) (NSet [Rng (CHR ''A'') (CHR ''Z'')]), alt [Lit ''Category'',
          seq [Lit ''Cat'', opt (Lit ''.'')]], star (Set [Spc]), Grp 1 (seq [Set [Dig],
          opt (Set [Rng (CHR ''A'') (CHR ''Z'')])])])]"

text \<open>
  The fallback of the health category: the categories mentioned in section 2, without
  duplicates, joined in the order in which Python iterates over the set.
\<close>

definition section_2_rx :: rx where
  "section_2_rx = (seq [Lit ''SECTION'', plus1 (Set [Spc]), Lit ''2'', plus1 (Set [Ch (CHR '':''),
      Ch (CHR ''.''), Spc]), lazy Dot, Lit [newline], Grp 1 (lazy Dot),
      Ahead (alt [seq [Lit ''SECTION'', plus1 (Set [Spc]), Lit ''3''], Eol])])"

definition category_rx :: rx where
  "category_rx = (seq [alt [Lit ''Category'', seq [Lit ''Cat'', opt (Lit ''.'')]],
      star (Set [Spc]), Grp 1 (seq [Set [Dig], opt (Set [Rng (CHR ''A'') (CHR ''Z'')])])])"

definition health_context_rx :: rx where
  "health_context_rx =
     (seq [alt [Lit ''skin'', Lit ''eye'', Lit ''repro'', Lit ''reproductive'', Lit ''toxicity'',
         Lit ''respir'', Lit ''acute'', Lit ''damage'', Lit ''irritation''],
         lazy (NSet [Ch (CHR '',''), Ch newline]), alt [Lit ''Category'', seq [Lit ''Cat'',
         opt (Lit ''.'')]], lazy (NSet [Ch (CHR '',''), Ch newline]), Grp 1 (seq [Set [Dig],
         opt (Set [Rng (CHR ''A'') (CHR ''Z'')])])])"

definition health_category :: "set_order \<Rightarrow> string \<Rightarrow> py_exn + string" where
  "health_category set_iter text =
     bindE (extract_with_patterns text health_category_patterns) (\<lambda>health_cat.
       if health_cat \<noteq> [] then Inr health_cat
       else
         (case re_search section_2_rx text IGNORECASE_DOTALL of
            None \<Rightarrow> Inr health_cat
          | Some section_2_match \<Rightarrow>
              (case group section_2_match 1 of
                 None \<Rightarrow> Inl TypeError
               | Some section_2_content \<Rightarrow>
                   (let category_matches =
                          findall1 category_rx section_2_content IGNORECASE @
                          findall1 health_context_rx section_2_content IGNORECASE
                    in if category_matches \<noteq> []
                       then Inr (join '', '' (set_iter category_matches))
                       else Inr health_cat))))"

text \<open>
  \<^verbatim>\<open>(?:Flammable|Explosive|Oxidizing)[^,\n]{0,50}?(?:Category|Cat\.?)\s*(\d[A-Z]?)\<close>

  \<^verbatim>\<open>(?:Category|Cat\.?)\s*(\d[A-Z]?)[^,\n]{0,50}?(?:flammable|explosive|reactive|oxidizing|oxidising|pyrophoric|self[\s-]heating|corrosive|gas|liquid|solid)\<close>

  \<^verbatim>\<open>[Pp]hysical [Hh]azards?[^,\n]{0,50}?(?:Category|Cat\.?)\s*(\d[A-Z]?)\<close>

  \<^verbatim>\<open>[Ff]lam\.\s+(?:Liq\.|Gas\.|Sol\.)[^,\n]{0,20}?(\d+[A-Z]?)\<close>

  \<^verbatim>\<open>[Ee]xpl\.[^,\n]{0,20}?(\d+[A-Z]?)\<close>

  \<^verbatim>\<open>[Oo]x(?:id)?\.\s+(?:Gas\.|Liq\.|Sol\.)[^,\n]{0,20}?(\d+[A-Z]?)\<close>

  \<^verbatim>\<open>[Pp]ress\.\s+[Gg]as[^,\n]{0,20}?(\d+[A-Z]?)\<close>

  \<^verbatim>\<open>[Ss]elf[\s-][Rr]eact\.[^,\n]{0,20}?(\d+[A-Z]?)\<close>

  \<^verbatim>\<open>[Pp]yr\.\s+(?:Liq\.|Sol\.)[^,\n]{0,20}?(\d+[A-Z]?)\<close>

  \<^verbatim>\<open>[Ss]elf[\s-][Hh]eat\.[^,\n]{0,20}?(\d+[A-Z]?)\<close>

  \<^verbatim>\<open>[Mm]et\.\s+[Cc]orr\.[^,\n]{0,20}?(\d+[A-Z]?)\<close>

  \<^verbatim>\<open>(?:fire|explosion|reactivity|stability|decomposition)[^,\n]{0,50}?(?:Category|Cat\.?)\s*(\d[A-Z]?)\<close>

  \<^verbatim>\<open>(?:GHS|CLP|EU)[^A-Z]{0,100}?physical[^A-Z]{0,100}?(?:Category|Cat\.?)\s*(\d[A-Z]?)\<close>

  \<^verbatim>\<open>(?:SECTION\s+9|9\.)[^A-Z]{0,500}?(?:Category|Cat\.?)\s*(\d[A-Z]?)\<close>

  \<^verbatim>\<open>(?:physical|flammable|explosive|oxidizing|oxidising|self-heating|pyrophoric|corrosive)[^,\n]{0,100}?(?:Category|Cat\.?)\s*(\d[A-Z]?)\<close>
\<close>

definition physical_category_patterns :: "pat list" where
  "physical_category_patterns =
     [P (seq [alt [Lit ''Flammable'', Lit ''Explosive'', Lit ''Oxidizing''],
         Rep False 0 (Some 50) (NSet [Ch (CHR '',''), Ch newline]), alt [Lit ''Category'',
         seq [Lit ''Cat'', opt (Lit ''.'')]], star (Set [Spc]), Grp 1 (seq [Set [Dig],
         opt (Set [Rng (CHR ''A'') (CHR ''Z'')])])]),
      P (seq [alt [Lit ''Category'', seq [Lit ''Cat'', opt (Lit ''.'')]], star (Set [Spc]),
          Grp 1 (seq [Set [Dig], opt (Set [Rng (CHR ''A'') (CHR ''Z'')])]),
          Rep False 0 (Some 50) (NSet [Ch (CHR '',''), Ch newline]), alt [Lit ''flammable'',
          Lit ''explosive'', Lit ''reactive'', Lit ''oxidizing'', Lit ''oxidising'',
          Lit ''pyrophoric'', seq [Lit ''self'', Set [Spc, Ch (CHR ''-'')], Lit ''heating''],
          Lit ''corrosive'', Lit ''gas'', Lit ''liquid'', Lit ''solid'']]),
      P (seq [Set [Ch (CHR ''P''), Ch (CHR ''p'')], Lit ''hysical '', Set [Ch (CHR ''H''),
          Ch (CHR ''h'')], Lit ''azard'', opt (Lit ''s''),
          Rep False 0 (Some 50) (NSet [Ch (CHR '',''), Ch newline]), alt [Lit ''Category'',
          seq [Lit ''Cat'', opt (Lit ''.'')]], star (Set [Spc]), Grp 1 (seq [Set [Dig],
          opt (Set [Rng (CHR ''A'') (CHR ''Z'')])])]),
      P (seq [Set [Ch (CHR ''F''), Ch (CHR ''f'')], Lit ''lam.'', plus1 (Set [Spc]),
          alt [Lit ''Liq.'', Lit ''Gas.'', Lit ''Sol.''],
          Rep False 0 (Some 20) (NSet [Ch (CHR '',''), Ch newline]), Grp 1 (seq [plus1 (Set [Dig]),
          opt (Set [Rng (CHR ''A'') (CHR ''Z'')])])]),
      P (seq [Set [Ch (CHR ''E''), Ch (CHR ''e'')], Lit ''xpl.'',
          Rep False 0 (Some 20) (NSet [Ch (CHR '',''), Ch newline]), Grp 1 (seq [plus1 (Set [Dig]),
          opt (Set [Rng (CHR ''A'') (CHR ''Z'')])])]),
      P (seq [Set [Ch (CHR ''O''), Ch (CHR ''o'')], Lit ''x'', opt (Lit ''id''), Lit ''.'',
          plus1 (Set [Spc]), alt [Lit ''Gas.'', Lit ''Liq.'', Lit ''Sol.''],
          Rep False 0 (Some 20) (NSet [Ch (CHR '',''), Ch newline]), Grp 1 (seq [plus1 (Set [Dig]),
          opt (Set [Rng (CHR ''A'') (CHR ''Z'')])])]),
      P (seq [Set [Ch (CHR ''P''), Ch (CHR ''p'')], Lit ''ress.'', plus1 (Set [Spc]),
          Set [Ch (CHR ''G''), Ch (CHR ''g'')], Lit ''as'',
          Rep False 0 (Some 20) (NSet [Ch (CHR '',''), Ch newline]), Grp 1 (seq [plus1 (Set [Dig]),
          opt (Set [Rng (CHR ''A'') (CHR ''Z'')])])]),
      P (seq [Set [Ch (CHR ''S''), Ch (CHR ''s'')], Lit ''elf'', Set [Spc, Ch (CHR ''-'')],
          Set [Ch (CHR ''R''), Ch (CHR ''r'')], Lit ''eact.'',
          Rep False 0 (Some 20) (NSet [Ch (CHR '',''), Ch newline]), Grp 1 (seq [plus1 (Set [Dig]),
          opt (Set [Rng (CHR ''A'') (CHR ''Z'')])])]),
      P (seq [Set [Ch (CHR ''P''), Ch (CHR ''p'')], Lit ''yr.'', plus1 (Set [Spc]),
          alt [Lit ''Liq.'', Lit ''Sol.''], Rep False 0 (Some 20) (NSet [Ch (CHR '',''),
          Ch newline]), Grp 1 (seq [plus1 (Set [Dig]), opt (Set [Rng (CHR ''A'') (CHR ''Z'')])])]),
      P (seq [Set [Ch (CHR ''S''), Ch (CHR ''s'')], Lit ''elf'', Set [Spc, Ch (CHR ''-'')],
          Set [Ch (CHR ''H''), Ch (CHR ''h'')], Lit ''eat.'',
          Rep False 0 (Some 20) (NSet [Ch (CHR '',''), Ch newline]), Grp 1 (seq [plus1 (Set [Dig]),
          opt (Set [Rng (CHR ''A'') (CHR ''Z'')])])]),
      P (seq [Set [Ch (CHR ''M''), Ch (CHR ''m'')], Lit ''et.'', plus1 (Set [Spc]),
          Set [Ch (CHR ''C''), Ch (CHR ''c'')], Lit ''orr.'',
          Rep False 0 (Some 20) (NSet [Ch (CHR '',''), Ch newline]), Grp 1 (seq [plus1 (Set [Dig]),
          opt (Set [Rng (CHR ''A'') (CHR ''Z'')])])]),
      P (seq [alt [Lit ''fire'', Lit ''explosion'', Lit ''reactivity'', Lit ''stability'',
          Lit ''decomposition''], Rep False 0 (Some 50) (NSet [Ch (CHR '',''), Ch newline]),
          alt [Lit ''Category'', seq [Lit ''Cat'', opt (Lit ''.'')]], star (Set [Spc]),
          Grp 1 (seq [Set [Dig], opt (Set [Rng (CHR ''A'') (CHR ''Z'')])])]),
      P (seq [alt [Lit ''GHS'', Lit ''CLP'', Lit ''EU''],
          Rep False 0 (Some 100) (NSet [Rng (CHR ''A'') (CHR ''Z'')]), Lit ''physical'',
          Rep False 0 (Some 100) (NSet [Rng (CHR ''A'') (CHR ''Z'')]), alt [Lit ''Category'',
          seq [Lit ''Cat'', opt (Lit ''.'')]], star (Set [Spc]), Grp 1 (seq [Set [Dig],
          opt (Set [Rng (CHR ''A'') (CHR ''Z'')])])]),
      P (seq [alt [seq [Lit ''SECTION'', plus1 (Set [Spc]), Lit ''9''], Lit ''9.''],
          Rep False 0 (Some 500) (NSet [Rng (CHR ''A'') (CHR ''Z'')]), alt [Lit ''Category'',
          seq [Lit ''Cat'', opt (Lit ''.'')]], star (Set [Spc]), Grp 1 (seq [Set [Dig],
          opt (Set [Rng (CHR ''A'') (CHR ''Z'')])])]),
      P (seq [alt [Lit ''physical'', Lit ''flammable'', Lit ''explosive'', Lit ''oxidizing'',
          Lit ''oxidising'', Lit ''self-heating'', Lit ''pyrophoric'', Lit ''corrosive''],
          Rep False 0 (Some 100) (NSet [Ch (CHR '',''), Ch newline]), alt [Lit ''Category'',
          seq [Lit ''Cat'', opt (Lit ''.'')]], star (Set [Spc]), Grp 1 (seq [Set [Dig],
          opt (Set [Rng (CHR ''A'') (CHR ''Z'')])])])]"

text \<open>
  \<^verbatim>\<open>Hazard statement(?:s)?[:\s]+(.*?)(?:\n\s*[A-Z]|\n\n|Precautionary)\<close>

  \<^verbatim>\<open>H-statement(?:s)?[:\s]+(.*?)(?:\n\s*[A-Z]|\n\n)\<close>

  \<^verbatim>\<open>(?:H\d{3})[^:]*?:[^:]*?(.*?)(?:\n\s*[A-Z]|\n\n)\<close>

  \<^verbatim>\<open>H\d{3}(?:\+\d{3})*\s+([^.\n]*)\<close>
\<close>

definition hazard_stmt_patterns :: "pat list" where
  "hazard_stmt_patterns =
     [P (seq [Lit ''Hazard statement'', opt (Lit ''s''), plus1 (Set [Ch (CHR '':''), Spc]),
         Grp 1 (lazy Dot), alt [seq [Lit [newline], star (Set [Spc]),
         Set [Rng (CHR ''A'') (CHR ''Z'')]], Lit [newline, newline], Lit ''Precautionary'']]),
      P (seq [Lit ''H-statement'', opt (Lit ''s''), plus1 (Set [Ch (CHR '':''), Spc]),
          Grp 1 (lazy Dot), alt [seq [Lit [newline], star (Set [Spc]),
          Set [Rng (CHR ''A'') (CHR ''Z'')]], Lit [newline, newline]]]),
      P (seq [seq [Lit ''H'', Rep True 3 (Some 3) (Set [Dig])], lazy (NSet [Ch (CHR '':'')]),
          Lit '':'', lazy (NSet [Ch (CHR '':'')]), Grp 1 (lazy Dot), alt [seq [Lit [newline],
          star (Set [Spc]), Set [Rng (CHR ''A'') (CHR ''Z'')]], Lit [newline, newline]]]),
      P (seq [Lit ''H'', Rep True 3 (Some 3) (Set [Dig]), star (seq [Lit ''+'',
          Rep True 3 (Some 3) (Set [Dig])]), plus1 (Set [Spc]), Grp 1 (star (NSet [Ch (CHR ''.''),
          Ch newline]))])]"

definition h_code_rx :: rx where
  "h_code_rx = (Grp 1 (seq [Lit ''H'', Rep True 3 (Some 3) (Set [Dig]), star (seq [Lit ''+'',
      Rep True 3 (Some 3) (Set [Dig])])]))"

definition hazard_mapping :: "(string \<times> string) list" where
  "hazard_mapping =
     [(''H315'', ''Causes skin irritation''),
      (''H319'', ''Causes serious eye irritation''),
      (''H335'', ''May cause respiratory irritation''),
      (''H360'', ''May damage fertility or the unborn child''),
      (''H360F'', ''May damage fertility''),
      (''H360D'', ''May damage the unborn child''),
      (''H360FD'', ''May damage fertility. May damage the unborn child'')]"

text \<open>\<^verbatim>\<open>code.split('+')[0]\<close>\<close>

definition base_code :: "string \<Rightarrow> string" where
  "base_code c = takeWhile (\<lambda>x. x \<noteq> CHR ''+'') c"

definition hazard_descriptions :: "string \<Rightarrow> string list" where
  "hazard_descriptions text =
     concat (map (\<lambda>c. case map_of hazard_mapping (base_code c) of
                          None \<Rightarrow> []
                        | Some d \<Rightarrow> [c @ '': '' @ d])
                 (findall1 h_code_rx text no_flags))"

text \<open>The value that \<^verbatim>\<open>data['Hazard Statement']\<close> has after line 262.\<close>

definition hazard_statement :: "set_order \<Rightarrow> string \<Rightarrow> py_exn + string" where
  "hazard_statement set_iter text =
     bindE (extract_with_patterns text hazard_stmt_patterns) (\<lambda>hazard_stmt0.
       (let h_codes = findall1 h_code_rx text no_flags;
            hazard_stmt = (if hazard_stmt0 = [] \<and> h_codes \<noteq> []
                           then join '', '' (set_iter h_codes) else hazard_stmt0)
        in if hazard_descriptions text \<noteq> [] \<and> hazard_stmt = []
           then Inr (join ''; '' (hazard_descriptions text))
           else Inr hazard_stmt))"

text \<open>The test for 1-Methyl-2-pyrrolidone, searched with \<^verbatim>\<open>re.IGNORECASE\<close>.\<close>

definition nmp_rx :: rx where
  "nmp_rx = (alt [Lit ''1-Methyl-2-pyrrolidone'', Lit ''Methyl-2-pyrrolidinone'', seq [Lit ''NMP'',
      WordB], Lit ''872-50-4''])"

definition is_nmp :: "string \<Rightarrow> bool" where
  "is_nmp text = found nmp_rx text IGNORECASE"

text \<open>The fixed phrase for 1-Methyl-2-pyrrolidone (also used by ai_extractor.py).\<close>

definition nmp_health_hazards :: string where
  "nmp_health_hazards =
     ''Reproductive Toxicity; Skin irritation; Eye irritation; '' @
     ''Specific target organ toxicity, single exposure, Respiratory tract irritation''"

definition stot_single :: string where
  "stot_single = ''Specific target organ toxicity, single exposure''"

definition hazard_components :: "string \<Rightarrow> string list" where
  "hazard_components text =
     (let c1 = (if found (alt [Lit ''H360'', Lit ''H361'', seq [Set [Ch (CHR ''R''),
         Ch (CHR ''r'')], Lit ''epr.'', star (Set [Spc]), plus1 (Set [Dig])],
         seq [Set [Ch (CHR ''R''), Ch (CHR ''r'')], Lit ''eproductive'', plus1 (Set [Spc]),
         Set [Ch (CHR ''T''), Ch (CHR ''t'')], Lit ''oxicity'']]) text IGNORECASE
                then [''Reproductive Toxicity''] else []);
          c2 = c1 @ (if found (alt [Lit ''H315'', seq [Set [Ch (CHR ''S''), Ch (CHR ''s'')],
              Lit ''kin'', star (Set [Spc]), Set [Ch (CHR ''I''), Ch (CHR ''i'')], Lit ''rrit.'',
              star (Set [Spc]), plus1 (Set [Dig])]]) text IGNORECASE
                then [''Skin irritation''] else []);
          c3 = c2 @ (if found (alt [Lit ''H319'', Lit ''H320'', seq [Set [Ch (CHR ''E''),
              Ch (CHR ''e'')], Lit ''ye'', star (Set [Spc]), Set [Ch (CHR ''I''), Ch (CHR ''i'')],
              Lit ''rrit.'', star (Set [Spc]), plus1 (Set [Dig])]]) text IGNORECASE
                then [''Eye irritation''] else []);
          c4 = c3 @ (if found (alt [Lit ''H335'', Lit ''H336'', Lit ''H370'', Lit ''H371'',
              seq [Lit ''STOT'', star (Set [Spc]), Lit ''SE'', star (Set [Spc]),
              plus1 (Set [Dig])], seq [Set [Ch (CHR ''S''), Ch (CHR ''s'')], Lit ''pecific'',
              plus1 (Set [Spc]), Set [Ch (CHR ''T''), Ch (CHR ''t'')], Lit ''arget'',
              plus1 (Set [Spc]), Set [Ch (CHR ''O''), Ch (CHR ''o'')], Lit ''rgan'',
              plus1 (Set [Spc]), Set [Ch (CHR ''T''), Ch (CHR ''t'')], Lit ''oxicity'', star Dot,
              Set [Ch (CHR ''S''), Ch (CHR ''s'')], Lit ''ingle'']]) text IGNORECASE
                then (if found (alt [Lit ''H335'', seq [Set [Ch (CHR ''R''), Ch (CHR ''r'')],
                    Lit ''espiratory'']]) text IGNORECASE
                      then [stot_single @ '', Respiratory tract irritation'']
                      else [stot_single])
                else []);
          c5 = c4 @ (if found (alt [Lit ''H372'', Lit ''H373'', seq [Lit ''STOT'',
              star (Set [Spc]), Lit ''RE'', star (Set [Spc]), plus1 (Set [Dig])],
              seq [Set [Ch (CHR ''S''), Ch (CHR ''s'')], Lit ''pecific'', plus1 (Set [Spc]),
              Set [Ch (CHR ''T''), Ch (CHR ''t'')], Lit ''arget'', plus1 (Set [Spc]),
              Set [Ch (CHR ''O''), Ch (CHR ''o'')], Lit ''rgan'', plus1 (Set [Spc]),
              Set [Ch (CHR ''T''), Ch (CHR ''t'')], Lit ''oxicity'', star Dot, Set [Ch (CHR ''R''),
              Ch (CHR ''r'')], Lit ''epeated'']]) text IGNORECASE
                then [''Specific target organ toxicity, repeated exposure''] else [])
      in c5 @ (if found (alt [Lit ''H335'', seq [Set [Ch (CHR ''R''), Ch (CHR ''r'')],
          Lit ''espiratory'', plus1 (Set [Spc]), Set [Ch (CHR ''T''), Ch (CHR ''t'')],
          Lit ''ract'', plus1 (Set [Spc]), Set [Ch (CHR ''I''), Ch (CHR ''i'')],
          Lit ''rritation'']]) text IGNORECASE \<and>
                  \<not> list_ex (contains ''Respiratory'') c5
               then [''Respiratory tract irritation''] else []))"

definition health_hazards :: "string \<Rightarrow> string" where
  "health_hazards text =
     (if is_nmp text then nmp_health_hazards else join ''; '' (hazard_components text))"

definition physical_components :: "string \<Rightarrow> string list" where
  "physical_components text =
     (if found (alt [seq [Lit ''H22'', Set [Rng (CHR ''4'') (CHR ''6'')]],
         seq [Set [Ch (CHR ''F''), Ch (CHR ''f'')], Lit ''lam.'', star (Set [Spc]),
         Set [Ch (CHR ''L''), Ch (CHR ''l'')], Lit ''iq.'', star (Set [Spc]), plus1 (Set [Dig])],
         seq [Set [Ch (CHR ''F''), Ch (CHR ''f'')], Lit ''lammable'', plus1 (Set [Spc]),
         Set [Ch (CHR ''L''), Ch (CHR ''l'')], Lit ''iquid'']]) text IGNORECASE
      then [''Flammable liquid''] else []) @
     (if found (alt [Lit ''H228'', seq [Set [Ch (CHR ''F''), Ch (CHR ''f'')], Lit ''lam.'',
         star (Set [Spc]), Set [Ch (CHR ''S''), Ch (CHR ''s'')], Lit ''ol.'', star (Set [Spc]),
         plus1 (Set [Dig])], seq [Set [Ch (CHR ''F''), Ch (CHR ''f'')], Lit ''lammable'',
         plus1 (Set [Spc]), Set [Ch (CHR ''S''), Ch (CHR ''s'')], Lit ''olid'']]) text IGNORECASE
      then [''Flammable solid''] else []) @
     (if found (alt [seq [Lit ''H24'', Set [Rng (CHR ''0'') (CHR ''2'')]],
         seq [Set [Ch (CHR ''S''), Ch (CHR ''s'')], Lit ''elf'', star (Set [Spc]), Lit ''-'',
         star (Set [Spc]), Set [Ch (CHR ''R''), Ch (CHR ''r'')], Lit ''eact.'', star (Set [Spc]),
         plus1 (Set [Dig])], seq [Set [Ch (CHR ''S''), Ch (CHR ''s'')], Lit ''elf'',
         star (Set [Spc]), Lit ''-'', star (Set [Spc]), Set [Ch (CHR ''R''), Ch (CHR ''r'')],
         Lit ''eactive'']]) text IGNORECASE
      then [''Self-reactive''] else []) @
     (if found (alt [Lit ''H250'', seq [Set [Ch (CHR ''P''), Ch (CHR ''p'')], Lit ''yr.'',
         star (Set [Spc]), plus1 (Set [Dig])], seq [Set [Ch (CHR ''P''), Ch (CHR ''p'')],
         Lit ''yrophoric'']]) text IGNORECASE
      then [''Pyrophoric''] else []) @
     (if found (alt [seq [Lit ''H25'', Set [Rng (CHR ''1'') (CHR ''2'')]],
         seq [Set [Ch (CHR ''S''), Ch (CHR ''s'')], Lit ''elf'', star (Set [Spc]), Lit ''-'',
         star (Set [Spc]), Set [Ch (CHR ''H''), Ch (CHR ''h'')], Lit ''eat.'', star (Set [Spc]),
         plus1 (Set [Dig])], seq [Set [Ch (CHR ''S''), Ch (CHR ''s'')], Lit ''elf'',
         star (Set [Spc]), Lit ''-'', star (Set [Spc]), Set [Ch (CHR ''H''), Ch (CHR ''h'')],
         Lit ''eating'']]) text IGNORECASE
      then [''Self-heating''] else []) @
     (if found (alt [seq [Lit ''H26'', Set [Rng (CHR ''0'') (CHR ''1'')]],
         seq [Set [Ch (CHR ''W''), Ch (CHR ''w'')], Lit ''ater'', star (Set [Spc]), Lit ''-'',
         star (Set [Spc]), Set [Ch (CHR ''R''), Ch (CHR ''r'')], Lit ''eact.'', star (Set [Spc]),
         plus1 (Set [Dig])], seq [Set [Ch (CHR ''E''), Ch (CHR ''e'')], Lit ''mit'',
         opt (Set [Ch (CHR ''s'')]), plus1 (Set [Spc]), Set [Ch (CHR ''F''), Ch (CHR ''f'')],
         Lit ''lammable'', plus1 (Set [Spc]), Set [Ch (CHR ''G''), Ch (CHR ''g'')], Lit ''as'',
         opt (Lit ''es'')]]) text IGNORECASE
      then [''In contact with water emits flammable gases''] else []) @
     (if found (alt [seq [Lit ''H27'', Set [Rng (CHR ''1'') (CHR ''2'')]],
         seq [Set [Ch (CHR ''O''), Ch (CHR ''o'')], Lit ''x.'', star (Set [Spc]),
         Set [Ch (CHR ''L''), Ch (CHR ''l'')], Lit ''iq.'', star (Set [Spc]), plus1 (Set [Dig])],
         seq [Set [Ch (CHR ''O''), Ch (CHR ''o'')], Lit ''x.'', star (Set [Spc]),
         Set [Ch (CHR ''S''), Ch (CHR ''s'')], Lit ''ol.'', star (Set [Spc]), plus1 (Set [Dig])],
         seq [Set [Ch (CHR ''O''), Ch (CHR ''o'')], Lit ''xidiz'', alt [Lit ''ing'',
         Lit ''er'']]]) text IGNORECASE
      then [''Oxidizing''] else []) @
     (if found (alt [seq [Lit ''H24'', Set [Rng (CHR ''0'') (CHR ''2'')]],
         seq [Set [Ch (CHR ''O''), Ch (CHR ''o'')], Lit ''rg.'', star (Set [Spc]),
         Set [Ch (CHR ''P''), Ch (CHR ''p'')], Lit ''erox.'', star (Set [Spc]), plus1 (Set [Dig])],
         seq [Set [Ch (CHR ''O''), Ch (CHR ''o'')], Lit ''rganic'', plus1 (Set [Spc]),
         Set [Ch (CHR ''P''), Ch (CHR ''p'')], Lit ''eroxide'']]) text IGNORECASE
      then [''Organic peroxide''] else []) @
     (if found (alt [Lit ''H290'', seq [Set [Ch (CHR ''M''), Ch (CHR ''m'')], Lit ''et.'',
         star (Set [Spc]), Set [Ch (CHR ''C''), Ch (CHR ''c'')], Lit ''orr.'', star (Set [Spc]),
         plus1 (Set [Dig])], seq [Set [Ch (CHR ''C''), Ch (CHR ''c'')], Lit ''orrosive'',
         plus1 (Set [Spc]), Lit ''to'', plus1 (Set [Spc]), Lit ''metal'']]) text IGNORECASE
      then [''Corrosive to metals''] else [])"

definition physical_hazards :: "string \<Rightarrow> string" where
  "physical_hazards text = join ''; '' (physical_components text)"

text \<open>
  \<^verbatim>\<open>Flash[- ]?point[^:]*?:\s*([^,\n]*?\<degree>C[^,\n]*)\<close>

  \<^verbatim>\<open>Flash[- ]?point[^:]*?:\s*([^,\n]*?C[^,\n]*)\<close>

  \<^verbatim>\<open>Flash[- ]?point[^:]*?:\s*([^,\n]*?Celsius[^,\n]*)\<close>

  \<^verbatim>\<open>Flash[- ]?point[^:]*?:\s*([^,\n]*)\<close>
\<close>

definition flash_point_patterns :: "pat list" where
  "flash_point_patterns =
     [P (seq [Lit ''Flash'', opt (Set [Ch (CHR ''-''), Ch (CHR '' '')]), Lit ''point'',
         lazy (NSet [Ch (CHR '':'')]), Lit '':'', star (Set [Spc]),
         Grp 1 (seq [lazy (NSet [Ch (CHR '',''), Ch newline]), Lit ([degree] @ ''C''),
         star (NSet [Ch (CHR '',''), Ch newline])])]),
      P (seq [Lit ''Flash'', opt (Set [Ch (CHR ''-''), Ch (CHR '' '')]), Lit ''point'',
          lazy (NSet [Ch (CHR '':'')]), Lit '':'', star (Set [Spc]),
          Grp 1 (seq [lazy (NSet [Ch (CHR '',''), Ch newline]), Lit ''C'',
          star (NSet [Ch (CHR '',''), Ch newline])])]),
      P (seq [Lit ''Flash'', opt (Set [Ch (CHR ''-''), Ch (CHR '' '')]), Lit ''point'',
          lazy (NSet [Ch (CHR '':'')]), Lit '':'', star (Set [Spc]),
          Grp 1 (seq [lazy (NSet [Ch (CHR '',''), Ch newline]), Lit ''Celsius'',
          star (NSet [Ch (CHR '',''), Ch newline])])]),
      P (seq [Lit ''Flash'', opt (Set [Ch (CHR ''-''), Ch (CHR '' '')]), Lit ''point'',
          lazy (NSet [Ch (CHR '':'')]), Lit '':'', star (Set [Spc]),
          Grp 1 (star (NSet [Ch (CHR '',''), Ch newline]))])]"

text \<open>
  \<^verbatim>\<open>Appearance[^:]*?:\s*([^,\n]*)\<close>

  \<^verbatim>\<open>Physical [Ss]tate[^:]*?:\s*([^,\n]*)\<close>

  \<^verbatim>\<open>Form[^:]*?:\s*([^,\n]*)\<close>

  \<^verbatim>\<open>Color[^:]*?:\s*([^,\n]*)\<close>
\<close>

definition appearance_patterns :: "pat list" where
  "appearance_patterns =
     [P (seq [Lit ''Appearance'', lazy (NSet [Ch (CHR '':'')]), Lit '':'', star (Set [Spc]),
         Grp 1 (star (NSet [Ch (CHR '',''), Ch newline]))]),
      P (seq [Lit ''Physical '', Set [Ch (CHR ''S''), Ch (CHR ''s'')], Lit ''tate'',
          lazy (NSet [Ch (CHR '':'')]), Lit '':'', star (Set [Spc]),
          Grp 1 (star (NSet [Ch (CHR '',''), Ch newline]))]),
      P (seq [Lit ''Form'', lazy (NSet [Ch (CHR '':'')]), Lit '':'', star (Set [Spc]),
          Grp 1 (star (NSet [Ch (CHR '',''), Ch newline]))]),
      P (seq [Lit ''Color'', lazy (NSet [Ch (CHR '':'')]), Lit '':'', star (Set [Spc]),
          Grp 1 (star (NSet [Ch (CHR '',''), Ch newline]))])]"

text \<open>
  \<^verbatim>\<open>[Oo]dou?r[^:]*?:\s*([^,\n\d\<degree>]*\w+)\<close>

  \<^verbatim>\<open>[Ss]mell[^:]*?:\s*([^,\n\d\<degree>]*\w+)\<close>
\<close>

definition odor_patterns :: "pat list" where
  "odor_patterns =
     [P (seq [Set [Ch (CHR ''O''), Ch (CHR ''o'')], Lit ''do'', opt (Lit ''u''), Lit ''r'',
         lazy (NSet [Ch (CHR '':'')]), Lit '':'', star (Set [Spc]),
         Grp 1 (seq [star (NSet [Ch (CHR '',''), Ch newline, Dig, Ch degree]),
         plus1 (Set [Wrd])])]),
      P (seq [Set [Ch (CHR ''S''), Ch (CHR ''s'')], Lit ''mell'', lazy (NSet [Ch (CHR '':'')]),
          Lit '':'', star (Set [Spc]), Grp 1 (seq [star (NSet [Ch (CHR '',''), Ch newline, Dig,
          Ch degree]), plus1 (Set [Wrd])])])]"

definition smell_words :: "string list" where
  "smell_words =
     [''amine'', ''ammonia'', ''fishy'', ''pungent'', ''sweet'', ''sour'',
      ''acrid'', ''aromatic'', ''odorless'', ''odourless'', ''characteristic'']"

text \<open>\<^verbatim>\<open>re.search(rf'\b{word}\b', text, re.IGNORECASE)\<close> for a word of letters.\<close>

definition word_rx :: "string \<Rightarrow> rx" where
  "word_rx word = seq [WordB, Lit word, WordB]"

definition smell_descriptors_rx :: rx where
  "smell_descriptors_rx = (seq [Set [Ch (CHR ''O''), Ch (CHR ''o'')], Lit ''do'', opt (Lit ''u''),
      Lit ''r'', lazy (NSet [Ch (CHR '':'')]), Lit '':'', star (Set [Spc]),
      Grp 1 (plus1 (Set [Rng (CHR ''a'') (CHR ''z''), Rng (CHR ''A'') (CHR ''Z''), Spc,
      Ch (CHR '','')])), NSet [Rng (CHR ''a'') (CHR ''z''), Rng (CHR ''A'') (CHR ''Z'')]])"

definition odour :: "string \<Rightarrow> py_exn + string" where
  "odour text =
     (if is_nmp text then Inr ''amine''
      else
        bindE (extract_with_patterns text odor_patterns) (\<lambda>odor.
          if found (seq [plus1 (Set [Dig]), star (Set [Spc]), Set [Ch degree,
              Ch (CHR ''C'')]]) odor no_flags \<or> found (seq [Bol, star (Set [Spc]),
              plus1 (Set [Dig]), star (Set [Spc]), Eol]) odor no_flags
          then
            (case re_search smell_descriptors_rx text no_flags of
               Some smell_descriptors \<Rightarrow> group_strip smell_descriptors 1
             | None \<Rightarrow>
                 (case filter (\<lambda>word. found (word_rx word) text IGNORECASE) smell_words of
                    [] \<Rightarrow> Inr odor
                  | word # _ \<Rightarrow> Inr word))
          else Inr odor))"

text \<open>
  \<^verbatim>\<open>[Cc]olou?r[^:]*?:\s*([^,\n]*)\<close>

  \<^verbatim>\<open>[Cc]olou?r\s+(?:appearance)?[^:]*?:\s*([^,\n]*)\<close>
\<close>

definition color_patterns :: "pat list" where
  "color_patterns =
     [P (seq [Set [Ch (CHR ''C''), Ch (CHR ''c'')], Lit ''olo'', opt (Lit ''u''), Lit ''r'',
         lazy (NSet [Ch (CHR '':'')]), Lit '':'', star (Set [Spc]),
         Grp 1 (star (NSet [Ch (CHR '',''), Ch newline]))]),
      P (seq [Set [Ch (CHR ''C''), Ch (CHR ''c'')], Lit ''olo'', opt (Lit ''u''), Lit ''r'',
          plus1 (Set [Spc]), opt (Lit ''appearance''), lazy (NSet [Ch (CHR '':'')]), Lit '':'',
          star (Set [Spc]), Grp 1 (star (NSet [Ch (CHR '',''), Ch newline]))])]"

text \<open>
  \<^verbatim>\<open>[Pp]acking [Gg]roup[^:]*?:\s*([^,\n]*)\<close>

  \<^verbatim>\<open>[Pp]ackaging [Gg]roup[^:]*?:\s*([^,\n]*)\<close>

  \<^verbatim>\<open>UN [Pp]acking [Gg]roup[^:]*?:\s*([^,\n]*)\<close>

  \<^verbatim>\<open>[Pp]acking [Gg]roup\s+([^,\n]*)\<close>
\<close>

definition packing_group_patterns :: "pat list" where
  "packing_group_patterns =
     [P (seq [Set [Ch (CHR ''P''), Ch (CHR ''p'')], Lit ''acking '', Set [Ch (CHR ''G''),
         Ch (CHR ''g'')], Lit ''roup'', lazy (NSet [Ch (CHR '':'')]), Lit '':'', star (Set [Spc]),
         Grp 1 (star (NSet [Ch (CHR '',''), Ch newline]))]),
      P (seq [Set [Ch (CHR ''P''), Ch (CHR ''p'')], Lit ''ackaging '', Set [Ch (CHR ''G''),
          Ch (CHR ''g'')], Lit ''roup'', lazy (NSet [Ch (CHR '':'')]), Lit '':'', star (Set [Spc]),
          Grp 1 (star (NSet [Ch (CHR '',''), Ch newline]))]),
      P (seq [Lit ''UN '', Set [Ch (CHR ''P''), Ch (CHR ''p'')], Lit ''acking '',
          Set [Ch (CHR ''G''), Ch (CHR ''g'')], Lit ''roup'', lazy (NSet [Ch (CHR '':'')]),
          Lit '':'', star (Set [Spc]), Grp 1 (star (NSet [Ch (CHR '',''), Ch newline]))]),
      P (seq [Set [Ch (CHR ''P''), Ch (CHR ''p'')], Lit ''acking '', Set [Ch (CHR ''G''),
          Ch (CHR ''g'')], Lit ''roup'', plus1 (Set [Spc]), Grp 1 (star (NSet [Ch (CHR '',''),
          Ch newline]))])]"

text \<open>
  \<^verbatim>\<open>[Dd]angerous [Gg]oods[^:]*?[Cc]lass[^:]*?:\s*([^,\n]*)\<close>

  \<^verbatim>\<open>[Tt]ransport [Hh]azard [Cc]lass(?:\s?\((?:es|es)\))?[^:]*?:\s*([^,\n]*)\<close>

  \<^verbatim>\<open>[Hh]azard [Cc]lass[^:]*?:\s*([^,\n]*)\<close>

  \<^verbatim>\<open>ADR/RID[^:]*?:\s*([^,\n]*)\<close>

  \<^verbatim>\<open>IMDG[^:]*?[Cc]lass[^:]*?:\s*([^,\n]*)\<close>

  \<^verbatim>\<open>IATA[^:]*?[Cc]lass[^:]*?:\s*([^,\n]*)\<close>
\<close>

definition dangerous_goods_patterns :: "pat list" where
  "dangerous_goods_patterns =
     [P (seq [Set [Ch (CHR ''D''), Ch (CHR ''d'')], Lit ''angerous '', Set [Ch (CHR ''G''),
         Ch (CHR ''g'')], Lit ''oods'', lazy (NSet [Ch (CHR '':'')]), Set [Ch (CHR ''C''),
         Ch (CHR ''c'')], Lit ''lass'', lazy (NSet [Ch (CHR '':'')]), Lit '':'', star (Set [Spc]),
         Grp 1 (star (NSet [Ch (CHR '',''), Ch newline]))]),
      P (seq [Set [Ch (CHR ''T''), Ch (CHR ''t'')], Lit ''ransport '', Set [Ch (CHR ''H''),
          Ch (CHR ''h'')], Lit ''azard '', Set [Ch (CHR ''C''), Ch (CHR ''c'')], Lit ''lass'',
          opt (seq [opt (Set [Spc]), Lit ''('', alt [Lit ''es'', Lit ''es''], Lit '')'']),
          lazy (NSet [Ch (CHR '':'')]), Lit '':'', star (Set [Spc]),
          Grp 1 (star (NSet [Ch (CHR '',''), Ch newline]))]),
      P (seq [Set [Ch (CHR ''H''), Ch (CHR ''h'')], Lit ''azard '', Set [Ch (CHR ''C''),
          Ch (CHR ''c'')], Lit ''lass'', lazy (NSet [Ch (CHR '':'')]), Lit '':'', star (Set [Spc]),
          Grp 1 (star (NSet [Ch (CHR '',''), Ch newline]))]),
      P (seq [Lit ''ADR/RID'', lazy (NSet [Ch (CHR '':'')]), Lit '':'', star (Set [Spc]),
          Grp 1 (star (NSet [Ch (CHR '',''), Ch newline]))]),
      P (seq [Lit ''IMDG'', lazy (NSet [Ch (CHR '':'')]), Set [Ch (CHR ''C''), Ch (CHR ''c'')],
          Lit ''lass'', lazy (NSet [Ch (CHR '':'')]), Lit '':'', star (Set [Spc]),
          Grp 1 (star (NSet [Ch (CHR '',''), Ch newline]))]),
      P (seq [Lit ''IATA'', lazy (NSet [Ch (CHR '':'')]), Set [Ch (CHR ''C''), Ch (CHR ''c'')],
          Lit ''lass'', lazy (NSet [Ch (CHR '':'')]), Lit '':'', star (Set [Spc]),
          Grp 1 (star (NSet [Ch (CHR '',''), Ch newline]))])]"

text \<open>
  \<^verbatim>\<open>[Ss]torage[^:]*?:\s*([^,\n]*\n[^,\n]*)\<close>

  \<^verbatim>\<open>[Ss]torage conditions[^:]*?:\s*([^,\n]*)\<close>

  \<^verbatim>\<open>[Ss]torage precautions[^:]*?:\s*([^,\n]*)\<close>

  \<^verbatim>\<open>[Ss]torage requirements[^:]*?:\s*([^,\n]*)\<close>
\<close>

definition storage_patterns :: "pat list" where
  "storage_patterns =
     [P (seq [Set [Ch (CHR ''S''), Ch (CHR ''s'')], Lit ''torage'', lazy (NSet [Ch (CHR '':'')]),
         Lit '':'', star (Set [Spc]), Grp 1 (seq [star (NSet [Ch (CHR '',''), Ch newline]),
         Lit [newline], star (NSet [Ch (CHR '',''), Ch newline])])]),
      P (seq [Set [Ch (CHR ''S''), Ch (CHR ''s'')], Lit ''torage conditions'',
          lazy (NSet [Ch (CHR '':'')]), Lit '':'', star (Set [Spc]),
          Grp 1 (star (NSet [Ch (CHR '',''), Ch newline]))]),
      P (seq [Set [Ch (CHR ''S''), Ch (CHR ''s'')], Lit ''torage precautions'',
          lazy (NSet [Ch (CHR '':'')]), Lit '':'', star (Set [Spc]),
          Grp 1 (star (NSet [Ch (CHR '',''), Ch newline]))]),
      P (seq [Set [Ch (CHR ''S''), Ch (CHR ''s'')], Lit ''torage requirements'',
          lazy (NSet [Ch (CHR '':'')]), Lit '':'', star (Set [Spc]),
          Grp 1 (star (NSet [Ch (CHR '',''), Ch newline]))])]"

text \<open>
  \<^verbatim>\<open>Product\s+name\s*[:\n](.*?)(?:\n\s*[A-Z]|\n\n)\<close>

  \<^verbatim>\<open>Product\s+identifier\s*[:\n](.*?)(?:\n\s*[A-Z]|\n\n)\<close>

  \<^verbatim>\<open>Name\s+[:\n](.*?)(?:\n\s*[A-Z]|\n\n)\<close>

  \<^verbatim>\<open>(?:SECTION\s+1)[^,]*?[Pp]roduct[^:]*?:\s*(.*?)(?:\n\s*[A-Z]|\n\n)\<close>

  \<^verbatim>\<open>Product[:\s]+(.*?)(?:\n\s*[A-Z]|\n\n)\<close>

  \<^verbatim>\<open>Trade\s+name\s*[:\n](.*?)(?:\n\s*[A-Z]|\n\n)\<close>

  \<^verbatim>\<open>Chemical\s+name\s*[:\n](.*?)(?:\n\s*[A-Z]|\n\n)\<close>

  \<^verbatim>\<open>Material\s+name\s*[:\n](.*?)(?:\n\s*[A-Z]|\n\n)\<close>

  \<^verbatim>\<open>\n\s*(?:[A-Z][A-Z\s]+)\s*\n\<close>

  \<^verbatim>\<open>^.{1,500}?(?:[A-Z][A-Z0-9\s]{3,30})\<close>
\<close>

definition product_patterns :: "pat list" where
  "product_patterns =
     [P (seq [Lit ''Product'', plus1 (Set [Spc]), Lit ''name'', star (Set [Spc]),
         Set [Ch (CHR '':''), Ch newline], Grp 1 (lazy Dot), alt [seq [Lit [newline],
         star (Set [Spc]), Set [Rng (CHR ''A'') (CHR ''Z'')]], Lit [newline, newline]]]),
      P (seq [Lit ''Product'', plus1 (Set [Spc]), Lit ''identifier'', star (Set [Spc]),
          Set [Ch (CHR '':''), Ch newline], Grp 1 (lazy Dot), alt [seq [Lit [newline],
          star (Set [Spc]), Set [Rng (CHR ''A'') (CHR ''Z'')]], Lit [newline, newline]]]),
      P (seq [Lit ''Name'', plus1 (Set [Spc]), Set [Ch (CHR '':''), Ch newline], Grp 1 (lazy Dot),
          alt [seq [Lit [newline], star (Set [Spc]), Set [Rng (CHR ''A'') (CHR ''Z'')]],
          Lit [newline, newline]]]),
      P (seq [seq [Lit ''SECTION'', plus1 (Set [Spc]), Lit ''1''], lazy (NSet [Ch (CHR '','')]),
          Set [Ch (CHR ''P''), Ch (CHR ''p'')], Lit ''roduct'', lazy (NSet [Ch (CHR '':'')]),
          Lit '':'', star (Set [Spc]), Grp 1 (lazy Dot), alt [seq [Lit [newline], star (Set [Spc]),
          Set [Rng (CHR ''A'') (CHR ''Z'')]], Lit [newline, newline]]]),
      P (seq [Lit ''Product'', plus1 (Set [Ch (CHR '':''), Spc]), Grp 1 (lazy Dot),
          alt [seq [Lit [newline], star (Set [Spc]), Set [Rng (CHR ''A'') (CHR ''Z'')]],
          Lit [newline, newline]]]),
      P (seq [Lit ''Trade'', plus1 (Set [Spc]), Lit ''name'', star (Set [Spc]),
          Set [Ch (CHR '':''), Ch newline], Grp 1 (lazy Dot), alt [seq [Lit [newline],
          star (Set [Spc]), Set [Rng (CHR ''A'') (CHR ''Z'')]], Lit [newline, newline]]]),
      P (seq [Lit ''Chemical'', plus1 (Set [Spc]), Lit ''name'', star (Set [Spc]),
          Set [Ch (CHR '':''), Ch newline], Grp 1 (lazy Dot), alt [seq [Lit [newline],
          star (Set [Spc]), Set [Rng (CHR ''A'') (CHR ''Z'')]], Lit [newline, newline]]]),
      P (seq [Lit ''Material'', plus1 (Set [Spc]), Lit ''name'', star (Set [Spc]),
          Set [Ch (CHR '':''), Ch newline], Grp 1 (lazy Dot), alt [seq [Lit [newline],
          star (Set [Spc]), Set [Rng (CHR ''A'') (CHR ''Z'')]], Lit [newline, newline]]]),
      P (seq [Lit [newline], star (Set [Spc]), seq [Set [Rng (CHR ''A'') (CHR ''Z'')],
          plus1 (Set [Rng (CHR ''A'') (CHR ''Z''), Spc])], star (Set [Spc]), Lit [newline]]),
      P (seq [Bol, Rep False 1 (Some 500) Dot, seq [Set [Rng (CHR ''A'') (CHR ''Z'')],
          Rep True 3 (Some 30) (Set [Rng (CHR ''A'') (CHR ''Z''), Rng (CHR ''0'') (CHR ''9''),
          Spc])]])]"

text \<open>
  \<^verbatim>\<open>CAS(?:[\s-]*No\.?|[-\s]*Number)[:\s]*([\d\-]+)\<close>

  \<^verbatim>\<open>CAS[:\s]*([\d\-]+)\<close>

  \<^verbatim>\<open>(?:CAS|CASNO|CAS-No)[^a-zA-Z0-9]*(\d{1,7}-\d{2}-\d{1})\<close>

  \<^verbatim>\<open>(?:Chemical\s+Abstract\s+Number)[^a-zA-Z0-9]*(\d{1,7}-\d{2}-\d{1})\<close>

  \<^verbatim>\<open>(?:\D|^)(\d{1,7}-\d{2}-\d{1})(?:\D|$)\<close>
\<close>

definition cas_patterns :: "pat list" where
  "cas_patterns =
     [P (seq [Lit ''CAS'', alt [seq [star (Set [Spc, Ch (CHR ''-'')]), Lit ''No'',
         opt (Lit ''.'')], seq [star (Set [Ch (CHR ''-''), Spc]), Lit ''Number'']],
         star (Set [Ch (CHR '':''), Spc]), Grp 1 (plus1 (Set [Dig, Ch (CHR ''-'')]))]),
      P (seq [Lit ''CAS'', star (Set [Ch (CHR '':''), Spc]), Grp 1 (plus1 (Set [Dig,
          Ch (CHR ''-'')]))]),
      P (seq [alt [Lit ''CAS'', Lit ''CASNO'', Lit ''CAS-No''],
          star (NSet [Rng (CHR ''a'') (CHR ''z''), Rng (CHR ''A'') (CHR ''Z''),
          Rng (CHR ''0'') (CHR ''9'')]), Grp 1 (seq [Rep True 1 (Some 7) (Set [Dig]), Lit ''-'',
          Rep True 2 (Some 2) (Set [Dig]), Lit ''-'', Rep True 1 (Some 1) (Set [Dig])])]),
      P (seq [seq [Lit ''Chemical'', plus1 (Set [Spc]), Lit ''Abstract'', plus1 (Set [Spc]),
          Lit ''Number''], star (NSet [Rng (CHR ''a'') (CHR ''z''), Rng (CHR ''A'') (CHR ''Z''),
          Rng (CHR ''0'') (CHR ''9'')]), Grp 1 (seq [Rep True 1 (Some 7) (Set [Dig]), Lit ''-'',
          Rep True 2 (Some 2) (Set [Dig]), Lit ''-'', Rep True 1 (Some 1) (Set [Dig])])]),
      P (seq [alt [Set [NDig], Bol], Grp 1 (seq [Rep True 1 (Some 7) (Set [Dig]), Lit ''-'',
          Rep True 2 (Some 2) (Set [Dig]), Lit ''-'', Rep True 1 (Some 1) (Set [Dig])]),
          alt [Set [NDig], Eol]])]"

text \<open>
  \<^verbatim>\<open>Chemical(?:\s+name|\s+identification)[:\s]+(.*?)(?:\n\s*[A-Z]|\n\n)\<close>

  \<^verbatim>\<open>Substance(?:\s+name)?[:\s]+(.*?)(?:\n\s*[A-Z]|\n\n)\<close>

  \<^verbatim>\<open>Formula[:\s]+(.*?)(?:\n\s*[A-Z]|\n\n)\<close>

  \<^verbatim>\<open>Identification[:\s]+(.*?)(?:\n\s*[A-Z]|\n\n)\<close>

  \<^verbatim>\<open>IUPAC\s+Name[:\s]+(.*?)(?:\n\s*[A-Z]|\n\n)\<close>

  \<^verbatim>\<open>Molecular\s+formula[:\s]+(.*?)(?:\n\s*[A-Z]|\n\n)\<close>

  \<^verbatim>\<open>EC[- ]?Number[:\s]+(.*?)(?:\n\s*[A-Z]|\n\n)\<close>

  \<^verbatim>\<open>(?:Composition|Components)[:\s]+(.*?)(?:\n\s*[A-Z]|\n\n)\<close>

  \<^verbatim>\<open>(?:[A-Z][a-z]?\d*){2,}\<close>

  \<^verbatim>\<open>(?:SECTION\s+3|3\.)[^A-Z]*?([A-Za-z0-9].*?)(?:\n\s*[A-Z]|\n\n)\<close>
\<close>

definition chem_id_patterns :: "pat list" where
  "chem_id_patterns =
     [P (seq [Lit ''Chemical'', alt [seq [plus1 (Set [Spc]), Lit ''name''], seq [plus1 (Set [Spc]),
         Lit ''identification'']], plus1 (Set [Ch (CHR '':''), Spc]), Grp 1 (lazy Dot),
         alt [seq [Lit [newline], star (Set [Spc]), Set [Rng (CHR ''A'') (CHR ''Z'')]],
         Lit [newline, newline]]]),
      P (seq [Lit ''Substance'', opt (seq [plus1 (Set [Spc]), Lit ''name'']),
          plus1 (Set [Ch (CHR '':''), Spc]), Grp 1 (lazy Dot), alt [seq [Lit [newline],
          star (Set [Spc]), Set [Rng (CHR ''A'') (CHR ''Z'')]], Lit [newline, newline]]]),
      P (seq [Lit ''Formula'', plus1 (Set [Ch (CHR '':''), Spc]), Grp 1 (lazy Dot),
          alt [seq [Lit [newline], star (Set [Spc]), Set [Rng (CHR ''A'') (CHR ''Z'')]],
          Lit [newline, newline]]]),
      P (seq [Lit ''Identification'', plus1 (Set [Ch (CHR '':''), Spc]), Grp 1 (lazy Dot),
          alt [seq [Lit [newline], star (Set [Spc]), Set [Rng (CHR ''A'') (CHR ''Z'')]],
          Lit [newline, newline]]]),
      P (seq [Lit ''IUPAC'', plus1 (Set [Spc]), Lit ''Name'', plus1 (Set [Ch (CHR '':''), Spc]),
          Grp 1 (lazy Dot), alt [seq [Lit [newline], star (Set [Spc]),
          Set [Rng (CHR ''A'') (CHR ''Z'')]], Lit [newline, newline]]]),
      P (seq [Lit ''Molecular'', plus1 (Set [Spc]), Lit ''formula'', plus1 (Set [Ch (CHR '':''),
          Spc]), Grp 1 (lazy Dot), alt [seq [Lit [newline], star (Set [Spc]),
          Set [Rng (CHR ''A'') (CHR ''Z'')]], Lit [newline, newline]]]),
      P (seq [Lit ''EC'', opt (Set [Ch (CHR ''-''), Ch (CHR '' '')]), Lit ''Number'',
          plus1 (Set [Ch (CHR '':''), Spc]), Grp 1 (lazy Dot), alt [seq [Lit [newline],
          star (Set [Spc]), Set [Rng (CHR ''A'') (CHR ''Z'')]], Lit [newline, newline]]]),
      P (seq [alt [Lit ''Composition'', Lit ''Components''], plus1 (Set [Ch (CHR '':''), Spc]),
          Grp 1 (lazy Dot), alt [seq [Lit [newline], star (Set [Spc]),
          Set [Rng (CHR ''A'') (CHR ''Z'')]], Lit [newline, newline]]]),
      P (Rep True 2 None (seq [Set [Rng (CHR ''A'') (CHR ''Z'')],
          opt (Set [Rng (CHR ''a'') (CHR ''z'')]), star (Set [Dig])])),
      P (seq [alt [seq [Lit ''SECTION'', plus1 (Set [Spc]), Lit ''3''], Lit ''3.''],
          lazy (NSet [Rng (CHR ''A'') (CHR ''Z'')]), Grp 1 (seq [Set [Rng (CHR ''A'') (CHR ''Z''),
          Rng (CHR ''a'') (CHR ''z''), Rng (CHR ''0'') (CHR ''9'')], lazy Dot]),
          alt [seq [Lit [newline], star (Set [Spc]), Set [Rng (CHR ''A'') (CHR ''Z'')]],
          Lit [newline, newline]]])]"

text \<open>
  \<^verbatim>\<open>Precautionary\s+[Ss]tatements?[:\s]+(.*?)(?:\n\s*[A-Z]|\n\n|SECTION)\<close>

  \<^verbatim>\<open>P[- ]?statements?[:\s]+(.*?)(?:\n\s*[A-Z]|\n\n)\<close>

  \<^verbatim>\<open>Prevention[:\s]+(.*?)(?:\n\s*[A-Z]|\n\n)\<close>

  \<^verbatim>\<open>Response[:\s]+(.*?)(?:\n\s*[A-Z]|\n\n)\<close>

  \<^verbatim>\<open>Storage[:\s]+(.*?)(?:\n\s*[A-Z]|\n\n)\<close>

  \<^verbatim>\<open>Disposal[:\s]+(.*?)(?:\n\s*[A-Z]|\n\n)\<close>

  \<^verbatim>\<open>((?:P\d{3}[^:,;]*?)[,;\n]){1,}\<close>

  \<^verbatim>\<open>(?:SECTION\s+7|7\.)[^A-Z]*?([^:]*?storage[^:]*?)(?:\n\s*[A-Z]|\n\n)\<close>

  \<^verbatim>\<open>(?:SECTION\s+7|7\.)[^A-Z]*?([^:]*?handling[^:]*?)(?:\n\s*[A-Z]|\n\n)\<close>
\<close>

definition precautionary_patterns :: "pat list" where
  "precautionary_patterns =
     [P (seq [Lit ''Precautionary'', plus1 (Set [Spc]), Set [Ch (CHR ''S''), Ch (CHR ''s'')],
         Lit ''tatement'', opt (Lit ''s''), plus1 (Set [Ch (CHR '':''), Spc]), Grp 1 (lazy Dot),
         alt [seq [Lit [newline], star (Set [Spc]), Set [Rng (CHR ''A'') (CHR ''Z'')]],
         Lit [newline, newline], Lit ''SECTION'']]),
      P (seq [Lit ''P'', opt (Set [Ch (CHR ''-''), Ch (CHR '' '')]), Lit ''statement'',
          opt (Lit ''s''), plus1 (Set [Ch (CHR '':''), Spc]), Grp 1 (lazy Dot),
          alt [seq [Lit [newline], star (Set [Spc]), Set [Rng (CHR ''A'') (CHR ''Z'')]],
          Lit [newline, newline]]]),
      P (seq [Lit ''Prevention'', plus1 (Set [Ch (CHR '':''), Spc]), Grp 1 (lazy Dot),
          alt [seq [Lit [newline], star (Set [Spc]), Set [Rng (CHR ''A'') (CHR ''Z'')]],
          Lit [newline, newline]]]),
      P (seq [Lit ''Response'', plus1 (Set [Ch (CHR '':''), Spc]), Grp 1 (lazy Dot),
          alt [seq [Lit [newline], star (Set [Spc]), Set [Rng (CHR ''A'') (CHR ''Z'')]],
          Lit [newline, newline]]]),
      P (seq [Lit ''Storage'', plus1 (Set [Ch (CHR '':''), Spc]), Grp 1 (lazy Dot),
          alt [seq [Lit [newline], star (Set [Spc]), Set [Rng (CHR ''A'') (CHR ''Z'')]],
          Lit [newline, newline]]]),
      P (seq [Lit ''Disposal'', plus1 (Set [Ch (CHR '':''), Spc]), Grp 1 (lazy Dot),
          alt [seq [Lit [newline], star (Set [Spc]), Set [Rng (CHR ''A'') (CHR ''Z'')]],
          Lit [newline, newline]]]),
      P (plus1 (Grp 1 (seq [seq [Lit ''P'', Rep True 3 (Some 3) (Set [Dig]),
          lazy (NSet [Ch (CHR '':''), Ch (CHR '',''), Ch (CHR '';'')])], Set [Ch (CHR '',''),
          Ch (CHR '';''), Ch newline]]))),
      P (seq [alt [seq [Lit ''SECTION'', plus1 (Set [Spc]), Lit ''7''], Lit ''7.''],
          lazy (NSet [Rng (CHR ''A'') (CHR ''Z'')]), Grp 1 (seq [lazy (NSet [Ch (CHR '':'')]),
          Lit ''storage'', lazy (NSet [Ch (CHR '':'')])]), alt [seq [Lit [newline],
          star (Set [Spc]), Set [Rng (CHR ''A'') (CHR ''Z'')]], Lit [newline, newline]]]),
      P (seq [alt [seq [Lit ''SECTION'', plus1 (Set [Spc]), Lit ''7''], Lit ''7.''],
          lazy (NSet [Rng (CHR ''A'') (CHR ''Z'')]), Grp 1 (seq [lazy (NSet [Ch (CHR '':'')]),
          Lit ''handling'', lazy (NSet [Ch (CHR '':'')])]), alt [seq [Lit [newline],
          star (Set [Spc]), Set [Rng (CHR ''A'') (CHR ''Z'')]], Lit [newline, newline]]])]"

text \<open>
  \<^verbatim>\<open>(?:SECTION\s+4[:\.\s]*|4\.?\s+)(?:First[- ]aid\s+measures)(.*?)(?:SECTION\s+5|5\.)\<close>

  \<^verbatim>\<open>First[- ]aid\s+measures[:\s]+(.*?)(?:\n\s*[A-Z]|\n\n|SECTION)\<close>

  \<^verbatim>\<open>First\s+aid[:\s]+(.*?)(?:\n\s*[A-Z]|\n\n|SECTION)\<close>

  \<^verbatim>\<open>If\s+inhaled[:\s]+(.*?)(?:\n\s*[A-Z]|\n\n)\<close>

  \<^verbatim>\<open>In\s+case\s+of\s+skin\s+contact[:\s]+(.*?)(?:\n\s*[A-Z]|\n\n)\<close>

  \<^verbatim>\<open>In\s+case\s+of\s+eye\s+contact[:\s]+(.*?)(?:\n\s*[A-Z]|\n\n)\<close>

  \<^verbatim>\<open>If\s+swallowed[:\s]+(.*?)(?:\n\s*[A-Z]|\n\n)\<close>

  \<^verbatim>\<open>(?:SECTION\s+4|4\.)[^A-Z]{10,500}\<close>
\<close>

definition first_aid_patterns :: "pat list" where
  "first_aid_patterns =
     [P (seq [alt [seq [Lit ''SECTION'', plus1 (Set [Spc]), Lit ''4'', star (Set [Ch (CHR '':''),
         Ch (CHR ''.''), Spc])], seq [Lit ''4'', opt (Lit ''.''), plus1 (Set [Spc])]],
         seq [Lit ''First'', Set [Ch (CHR ''-''), Ch (CHR '' '')], Lit ''aid'', plus1 (Set [Spc]),
         Lit ''measures''], Grp 1 (lazy Dot), alt [seq [Lit ''SECTION'', plus1 (Set [Spc]),
         Lit ''5''], Lit ''5.'']]),
      P (seq [Lit ''First'', Set [Ch (CHR ''-''), Ch (CHR '' '')], Lit ''aid'', plus1 (Set [Spc]),
          Lit ''measures'', plus1 (Set [Ch (CHR '':''), Spc]), Grp 1 (lazy Dot),
          alt [seq [Lit [newline], star (Set [Spc]), Set [Rng (CHR ''A'') (CHR ''Z'')]],
          Lit [newline, newline], Lit ''SECTION'']]),
      P (seq [Lit ''First'', plus1 (Set [Spc]), Lit ''aid'', plus1 (Set [Ch (CHR '':''), Spc]),
          Grp 1 (lazy Dot), alt [seq [Lit [newline], star (Set [Spc]),
          Set [Rng (CHR ''A'') (CHR ''Z'')]], Lit [newline, newline], Lit ''SECTION'']]),
      P (seq [Lit ''If'', plus1 (Set [Spc]), Lit ''inhaled'', plus1 (Set [Ch (CHR '':''), Spc]),
          Grp 1 (lazy Dot), alt [seq [Lit [newline], star (Set [Spc]),
          Set [Rng (CHR ''A'') (CHR ''Z'')]], Lit [newline, newline]]]),
      P (seq [Lit ''In'', plus1 (Set [Spc]), Lit ''case'', plus1 (Set [Spc]), Lit ''of'',
          plus1 (Set [Spc]), Lit ''skin'', plus1 (Set [Spc]), Lit ''contact'',
          plus1 (Set [Ch (CHR '':''), Spc]), Grp 1 (lazy Dot), alt [seq [Lit [newline],
          star (Set [Spc]), Set [Rng (CHR ''A'') (CHR ''Z'')]], Lit [newline, newline]]]),
      P (seq [Lit ''In'', plus1 (Set [Spc]), Lit ''case'', plus1 (Set [Spc]), Lit ''of'',
          plus1 (Set [Spc]), Lit ''eye'', plus1 (Set [Spc]), Lit ''contact'',
          plus1 (Set [Ch (CHR '':''), Spc]), Grp 1 (lazy Dot), alt [seq [Lit [newline],
          star (Set [Spc]), Set [Rng (CHR ''A'') (CHR ''Z'')]], Lit [newline, newline]]]),
      P (seq [Lit ''If'', plus1 (Set [Spc]), Lit ''swallowed'', plus1 (Set [Ch (CHR '':''), Spc]),
          Grp 1 (lazy Dot), alt [seq [Lit [newline], star (Set [Spc]),
          Set [Rng (CHR ''A'') (CHR ''Z'')]], Lit [newline, newline]]]),
      P (seq [alt [seq [Lit ''SECTION'', plus1 (Set [Spc]), Lit ''4''], Lit ''4.''],
          Rep True 10 (Some 500) (NSet [Rng (CHR ''A'') (CHR ''Z'')])])]"

text \<open>
  \<^verbatim>\<open>(?:SECTION\s+5[:\.\s]*|5\.?\s+)(?:Fire[\s-]?fighting\s+measures)(.*?)(?:SECTION\s+6|6\.)\<close>

  \<^verbatim>\<open>Fire[\s-]?fighting\s+measures[:\s]+(.*?)(?:\n\s*[A-Z]|\n\n|SECTION)\<close>

  \<^verbatim>\<open>Suitable\s+extinguishing\s+(?:media|agents)[:\s]+(.*?)(?:\n\s*[A-Z]|\n\n)\<close>

  \<^verbatim>\<open>Extinguishing\s+media[:\s]+(.*?)(?:\n\s*[A-Z]|\n\n)\<close>

  \<^verbatim>\<open>Special\s+(?:hazards|dangers)[:\s]+(.*?)(?:\n\s*[A-Z]|\n\n)\<close>

  \<^verbatim>\<open>Special\s+protective\s+equipment[:\s]+(.*?)(?:\n\s*[A-Z]|\n\n)\<close>

  \<^verbatim>\<open>Advice\s+for\s+firefighters[:\s]+(.*?)(?:\n\s*[A-Z]|\n\n)\<close>

  \<^verbatim>\<open>(?:SECTION\s+5|5\.)[^A-Z]{10,500}\<close>
\<close>

definition firefighting_patterns :: "pat list" where
  "firefighting_patterns =
     [P (seq [alt [seq [Lit ''SECTION'', plus1 (Set [Spc]), Lit ''5'', star (Set [Ch (CHR '':''),
         Ch (CHR ''.''), Spc])], seq [Lit ''5'', opt (Lit ''.''), plus1 (Set [Spc])]],
         seq [Lit ''Fire'', opt (Set [Spc, Ch (CHR ''-'')]), Lit ''fighting'', plus1 (Set [Spc]),
         Lit ''measures''], Grp 1 (lazy Dot), alt [seq [Lit ''SECTION'', plus1 (Set [Spc]),
         Lit ''6''], Lit ''6.'']]),
      P (seq [Lit ''Fire'', opt (Set [Spc, Ch (CHR ''-'')]), Lit ''fighting'', plus1 (Set [Spc]),
          Lit ''measures'', plus1 (Set [Ch (CHR '':''), Spc]), Grp 1 (lazy Dot),
          alt [seq [Lit [newline], star (Set [Spc]), Set [Rng (CHR ''A'') (CHR ''Z'')]],
          Lit [newline, newline], Lit ''SECTION'']]),
      P (seq [Lit ''Suitable'', plus1 (Set [Spc]), Lit ''extinguishing'', plus1 (Set [Spc]),
          alt [Lit ''media'', Lit ''agents''], plus1 (Set [Ch (CHR '':''), Spc]), Grp 1 (lazy Dot),
          alt [seq [Lit [newline], star (Set [Spc]), Set [Rng (CHR ''A'') (CHR ''Z'')]],
          Lit [newline, newline]]]),
      P (seq [Lit ''Extinguishing'', plus1 (Set [Spc]), Lit ''media'', plus1 (Set [Ch (CHR '':''),
          Spc]), Grp 1 (lazy Dot), alt [seq [Lit [newline], star (Set [Spc]),
          Set [Rng (CHR ''A'') (CHR ''Z'')]], Lit [newline, newline]]]),
      P (seq [Lit ''Special'', plus1 (Set [Spc]), alt [Lit ''hazards'', Lit ''dangers''],
          plus1 (Set [Ch (CHR '':''), Spc]), Grp 1 (lazy Dot), alt [seq [Lit [newline],
          star (Set [Spc]), Set [Rng (CHR ''A'') (CHR ''Z'')]], Lit [newline, newline]]]),
      P (seq [Lit ''Special'', plus1 (Set [Spc]), Lit ''protective'', plus1 (Set [Spc]),
          Lit ''equipment'', plus1 (Set [Ch (CHR '':''), Spc]), Grp 1 (lazy Dot),
          alt [seq [Lit [newline], star (Set [Spc]), Set [Rng (CHR ''A'') (CHR ''Z'')]],
          Lit [newline, newline]]]),
      P (seq [Lit ''Advice'', plus1 (Set [Spc]), Lit ''for'', plus1 (Set [Spc]),
          Lit ''firefighters'', plus1 (Set [Ch (CHR '':''), Spc]), Grp 1 (lazy Dot),
          alt [seq [Lit [newline], star (Set [Spc]), Set [Rng (CHR ''A'') (CHR ''Z'')]],
          Lit [newline, newline]]]),
      P (seq [alt [seq [Lit ''SECTION'', plus1 (Set [Spc]), Lit ''5''], Lit ''5.''],
          Rep True 10 (Some 500) (NSet [Rng (CHR ''A'') (CHR ''Z'')])])]"

text \<open>
  \<^verbatim>\<open>(?:^|[\s\n])Sigma[\- ]Aldrich(?:[\s\n]|$)\<close>

  \<^verbatim>\<open>(?:^|[\s\n])Sigma[\- ]Aldrich\s+[^\n,;]{0,30}\<close>

  \<^verbatim>\<open>(?:^|[\s\n])Merck(?:[\s\n]|$)\<close>

  \<^verbatim>\<open>(?:^|[\s\n])Merck\s+Life\s+Science(?:[\s\n]|$)\<close>

  \<^verbatim>\<open>(?:^|[\s\n])MilliporeSigma(?:[\s\n]|$)\<close>

  \<^verbatim>\<open>(?:^|[\s\n])Fisher\s+Scientific(?:[\s\n]|$)\<close>

  \<^verbatim>\<open>Company(?:\s+name)?[\s:]*?[:]*[\s:]*([^\n,;]{5,60})\<close>

  \<^verbatim>\<open>Supplier(?:\s+name)?[\s:]*?[:]*[\s:]*([^\n,;]{5,60})\<close>

  \<^verbatim>\<open>Manufacturer(?:\s+name)?[\s:]*?[:]*[\s:]*([^\n,;]{5,60})\<close>

  \<^verbatim>\<open>(?:SECTION\s+1|1\.)[^A-Z]*?Company\s*:(?:\s|\n)*([^\n,;]{5,60})\<close>

  \<^verbatim>\<open>(?:SECTION\s+1|1\.)[^A-Z]*?Supplier\s*:(?:\s|\n)*([^\n,;]{5,60})\<close>

  \<^verbatim>\<open>(?:SECTION\s+1|1\.)[^A-Z]*?Manufacturer\s*:(?:\s|\n)*([^\n,;]{5,60})\<close>

  \<^verbatim>\<open>SIGMA-ALDRICH\<close>

  \<^verbatim>\<open>ALDRICH\<close>

  \<^verbatim>\<open>SIGMA\<close>

  \<^verbatim>\<open>FLUKA\<close>

  \<^verbatim>\<open>SUPELCO\<close>

  \<^verbatim>\<open>MERCK\<close>

  \<^verbatim>\<open>Details of the supplier[^:]*?:(?:\s|\n)*([A-Z][^\n,;:]{3,60})\<close>

  \<^verbatim>\<open>Details of the supplier[^:]*?:(?:\s|\n)*(?:[^A-Za-z\n]*?)([A-Z][a-zA-Z0-9\s,\.\-&]{3,60})\<close>

  \<^verbatim>\<open>([A-Z][a-zA-Z\s\.,]+(?:Limited|GmbH|Inc|LLC|Co|Company|Corp|Corporation)(?:[^\n]{0,60}?))\<close>

  \<^verbatim>\<open>SUPPLIER DETAILS[\s:]*[\n]*([^\n,;:]{5,60})\<close>

  \<^verbatim>\<open>^(?:[^\n]{0,100}?)([A-Z][a-zA-Z0-9\s,\.\-&]{3,60})(?:[^\n]{0,100}?)SAFETY DATA SHEET\<close>
\<close>

definition supplier_patterns :: "pat list" where
  "supplier_patterns =
     [Company ''Sigma-Aldrich'' (seq [alt [Bol, Set [Spc, Ch newline]], Lit ''Sigma'',
         Set [Ch (CHR ''-''), Ch (CHR '' '')], Lit ''Aldrich'', alt [Set [Spc, Ch newline], Eol]]),
      P (seq [alt [Bol, Set [Spc, Ch newline]], Lit ''Sigma'', Set [Ch (CHR ''-''),
          Ch (CHR '' '')], Lit ''Aldrich'', plus1 (Set [Spc]),
          Rep True 0 (Some 30) (NSet [Ch newline, Ch (CHR '',''), Ch (CHR '';'')])]),
      Company ''Merck'' (seq [alt [Bol, Set [Spc, Ch newline]], Lit ''Merck'', alt [Set [Spc,
          Ch newline], Eol]]),
      Company (''Merck'' @ [CHR 0x5C] @ ''s+Life'' @ [CHR 0x5C] @ ''s+Science'') (seq [alt [Bol,
          Set [Spc, Ch newline]], Lit ''Merck'', plus1 (Set [Spc]), Lit ''Life'',
          plus1 (Set [Spc]), Lit ''Science'', alt [Set [Spc, Ch newline], Eol]]),
      Company ''MilliporeSigma'' (seq [alt [Bol, Set [Spc, Ch newline]], Lit ''MilliporeSigma'',
          alt [Set [Spc, Ch newline], Eol]]),
      Company (''Fisher'' @ [CHR 0x5C] @ ''s+Scientific'') (seq [alt [Bol, Set [Spc, Ch newline]],
          Lit ''Fisher'', plus1 (Set [Spc]), Lit ''Scientific'', alt [Set [Spc, Ch newline], Eol]]),
      P (seq [Lit ''Company'', opt (seq [plus1 (Set [Spc]), Lit ''name'']), lazy (Set [Spc,
          Ch (CHR '':'')]), star (Set [Ch (CHR '':'')]), star (Set [Spc, Ch (CHR '':'')]),
          Grp 1 (Rep True 5 (Some 60) (NSet [Ch newline, Ch (CHR '',''), Ch (CHR '';'')]))]),
      P (seq [Lit ''Supplier'', opt (seq [plus1 (Set [Spc]), Lit ''name'']), lazy (Set [Spc,
          Ch (CHR '':'')]), star (Set [Ch (CHR '':'')]), star (Set [Spc, Ch (CHR '':'')]),
          Grp 1 (Rep True 5 (Some 60) (NSet [Ch newline, Ch (CHR '',''), Ch (CHR '';'')]))]),
      P (seq [Lit ''Manufacturer'', opt (seq [plus1 (Set [Spc]), Lit ''name'']), lazy (Set [Spc,
          Ch (CHR '':'')]), star (Set [Ch (CHR '':'')]), star (Set [Spc, Ch (CHR '':'')]),
          Grp 1 (Rep True 5 (Some 60) (NSet [Ch newline, Ch (CHR '',''), Ch (CHR '';'')]))]),
      P (seq [alt [seq [Lit ''SECTION'', plus1 (Set [Spc]), Lit ''1''], Lit ''1.''],
          lazy (NSet [Rng (CHR ''A'') (CHR ''Z'')]), Lit ''Company'', star (Set [Spc]), Lit '':'',
          star (alt [Set [Spc], Lit [newline]]), Grp 1 (Rep True 5 (Some 60) (NSet [Ch newline,
          Ch (CHR '',''), Ch (CHR '';'')]))]),
      P (seq [alt [seq [Lit ''SECTION'', plus1 (Set [Spc]), Lit ''1''], Lit ''1.''],
          lazy (NSet [Rng (CHR ''A'') (CHR ''Z'')]), Lit ''Supplier'', star (Set [Spc]), Lit '':'',
          star (alt [Set [Spc], Lit [newline]]), Grp 1 (Rep True 5 (Some 60) (NSet [Ch newline,
          Ch (CHR '',''), Ch (CHR '';'')]))]),
      P (seq [alt [seq [Lit ''SECTION'', plus1 (Set [Spc]), Lit ''1''], Lit ''1.''],
          lazy (NSet [Rng (CHR ''A'') (CHR ''Z'')]), Lit ''Manufacturer'', star (Set [Spc]),
          Lit '':'', star (alt [Set [Spc], Lit [newline]]),
          Grp 1 (Rep True 5 (Some 60) (NSet [Ch newline, Ch (CHR '',''), Ch (CHR '';'')]))]),
      Company ''SIGMA-ALDRICH'' (Lit ''SIGMA-ALDRICH''),
      Company ''ALDRICH'' (Lit ''ALDRICH''),
      Company ''SIGMA'' (Lit ''SIGMA''),
      Company ''FLUKA'' (Lit ''FLUKA''),
      Company ''SUPELCO'' (Lit ''SUPELCO''),
      Company ''MERCK'' (Lit ''MERCK''),
      P (seq [Lit ''Details of the supplier'', lazy (NSet [Ch (CHR '':'')]), Lit '':'',
          star (alt [Set [Spc], Lit [newline]]), Grp 1 (seq [Set [Rng (CHR ''A'') (CHR ''Z'')],
          Rep True 3 (Some 60) (NSet [Ch newline, Ch (CHR '',''), Ch (CHR '';''),
          Ch (CHR '':'')])])]),
      P (seq [Lit ''Details of the supplier'', lazy (NSet [Ch (CHR '':'')]), Lit '':'',
          star (alt [Set [Spc], Lit [newline]]), lazy (NSet [Rng (CHR ''A'') (CHR ''Z''),
          Rng (CHR ''a'') (CHR ''z''), Ch newline]), Grp 1 (seq [Set [Rng (CHR ''A'') (CHR ''Z'')],
          Rep True 3 (Some 60) (Set [Rng (CHR ''a'') (CHR ''z''), Rng (CHR ''A'') (CHR ''Z''),
          Rng (CHR ''0'') (CHR ''9''), Spc, Ch (CHR '',''), Ch (CHR ''.''), Ch (CHR ''-''),
          Ch (CHR ''&'')])])]),
      P (Grp 1 (seq [Set [Rng (CHR ''A'') (CHR ''Z'')], plus1 (Set [Rng (CHR ''a'') (CHR ''z''),
          Rng (CHR ''A'') (CHR ''Z''), Spc, Ch (CHR ''.''), Ch (CHR '','')]), alt [Lit ''Limited'',
          Lit ''GmbH'', Lit ''Inc'', Lit ''LLC'', Lit ''Co'', Lit ''Company'', Lit ''Corp'',
          Lit ''Corporation''], Rep False 0 (Some 60) (NSet [Ch newline])])),
      P (seq [Lit ''SUPPLIER DETAILS'', star (Set [Spc, Ch (CHR '':'')]), star (Set [Ch newline]),
          Grp 1 (Rep True 5 (Some 60) (NSet [Ch newline, Ch (CHR '',''), Ch (CHR '';''),
          Ch (CHR '':'')]))]),
      P (seq [Bol, Rep False 0 (Some 100) (NSet [Ch newline]),
          Grp 1 (seq [Set [Rng (CHR ''A'') (CHR ''Z'')],
          Rep True 3 (Some 60) (Set [Rng (CHR ''a'') (CHR ''z''), Rng (CHR ''A'') (CHR ''Z''),
          Rng (CHR ''0'') (CHR ''9''), Spc, Ch (CHR '',''), Ch (CHR ''.''), Ch (CHR ''-''),
          Ch (CHR ''&'')])]), Rep False 0 (Some 100) (NSet [Ch newline]),
          Lit ''SAFETY DATA SHEET''])]"

text \<open>
  \<^verbatim>\<open>Environmental\s+[Hh]azards?[:\s]+(.*?)(?:\n\s*[A-Z]|\n\n|SECTION)\<close>

  \<^verbatim>\<open>Hazards? to the environment[:\s]+(.*?)(?:\n\s*[A-Z]|\n\n)\<close>

  \<^verbatim>\<open>Ecological\s+information[:\s]+(.*?)(?:\n\s*[A-Z]|\n\n|SECTION)\<close>

  \<^verbatim>\<open>(?:SECTION\s+12|12\.)[^A-Z]*?(.*?)(?:SECTION\s+13|13\.)\<close>

  \<^verbatim>\<open>Ecotoxicity[:\s]+(.*?)(?:\n\s*[A-Z]|\n\n)\<close>

  \<^verbatim>\<open>Aquatic\s+toxicity[:\s]+(.*?)(?:\n\s*[A-Z]|\n\n)\<close>

  \<^verbatim>\<open>Biodegradability[:\s]+(.*?)(?:\n\s*[A-Z]|\n\n)\<close>

  \<^verbatim>\<open>Bioaccumulation[:\s]+(.*?)(?:\n\s*[A-Z]|\n\n)\<close>

  \<^verbatim>\<open>Effects\s+on\s+environment[:\s]+(.*?)(?:\n\s*[A-Z]|\n\n)\<close>
\<close>

definition env_patterns :: "pat list" where
  "env_patterns =
     [P (seq [Lit ''Environmental'', plus1 (Set [Spc]), Set [Ch (CHR ''H''), Ch (CHR ''h'')],
         Lit ''azard'', opt (Lit ''s''), plus1 (Set [Ch (CHR '':''), Spc]), Grp 1 (lazy Dot),
         alt [seq [Lit [newline], star (Set [Spc]), Set [Rng (CHR ''A'') (CHR ''Z'')]],
         Lit [newline, newline], Lit ''SECTION'']]),
      P (seq [Lit ''Hazard'', opt (Lit ''s''), Lit '' to the environment'',
          plus1 (Set [Ch (CHR '':''), Spc]), Grp 1 (lazy Dot), alt [seq [Lit [newline],
          star (Set [Spc]), Set [Rng (CHR ''A'') (CHR ''Z'')]], Lit [newline, newline]]]),
      P (seq [Lit ''Ecological'', plus1 (Set [Spc]), Lit ''information'',
          plus1 (Set [Ch (CHR '':''), Spc]), Grp 1 (lazy Dot), alt [seq [Lit [newline],
          star (Set [Spc]), Set [Rng (CHR ''A'') (CHR ''Z'')]], Lit [newline, newline],
          Lit ''SECTION'']]),
      P (seq [alt [seq [Lit ''SECTION'', plus1 (Set [Spc]), Lit ''12''], Lit ''12.''],
          lazy (NSet [Rng (CHR ''A'') (CHR ''Z'')]), Grp 1 (lazy Dot), alt [seq [Lit ''SECTION'',
          plus1 (Set [Spc]), Lit ''13''], Lit ''13.'']]),
      P (seq [Lit ''Ecotoxicity'', plus1 (Set [Ch (CHR '':''), Spc]), Grp 1 (lazy Dot),
          alt [seq [Lit [newline], star (Set [Spc]), Set [Rng (CHR ''A'') (CHR ''Z'')]],
          Lit [newline, newline]]]),
      P (seq [Lit ''Aquatic'', plus1 (Set [Spc]), Lit ''toxicity'', plus1 (Set [Ch (CHR '':''),
          Spc]), Grp 1 (lazy Dot), alt [seq [Lit [newline], star (Set [Spc]),
          Set [Rng (CHR ''A'') (CHR ''Z'')]], Lit [newline, newline]]]),
      P (seq [Lit ''Biodegradability'', plus1 (Set [Ch (CHR '':''), Spc]), Grp 1 (lazy Dot),
          alt [seq [Lit [newline], star (Set [Spc]), Set [Rng (CHR ''A'') (CHR ''Z'')]],
          Lit [newline, newline]]]),
      P (seq [Lit ''Bioaccumulation'', plus1 (Set [Ch (CHR '':''), Spc]), Grp 1 (lazy Dot),
          alt [seq [Lit [newline], star (Set [Spc]), Set [Rng (CHR ''A'') (CHR ''Z'')]],
          Lit [newline, newline]]]),
      P (seq [Lit ''Effects'', plus1 (Set [Spc]), Lit ''on'', plus1 (Set [Spc]),
          Lit ''environment'', plus1 (Set [Ch (CHR '':''), Spc]), Grp 1 (lazy Dot),
          alt [seq [Lit [newline], star (Set [Spc]), Set [Rng (CHR ''A'') (CHR ''Z'')]],
          Lit [newline, newline]]])]"

text \<open>
  \<^verbatim>\<open>Regulatory(?:\s+information|\s+compliance)[:\s]+(.*?)(?:\n\s*[A-Z]|\n\n|SECTION)\<close>

  \<^verbatim>\<open>(?:SECTION\s+15|15\.)[^A-Z]*?(.*?)(?:SECTION\s+16|16\.)\<close>

  \<^verbatim>\<open>Safety[,\s]+health\s+and\s+environmental\s+regulations[:\s]+(.*?)(?:\n\s*[A-Z]|\n\n)\<close>

  \<^verbatim>\<open>REACH[:\s]+(.*?)(?:\n\s*[A-Z]|\n\n)\<close>

  \<^verbatim>\<open>TSCA[:\s]+(.*?)(?:\n\s*[A-Z]|\n\n)\<close>

  \<^verbatim>\<open>OSHA[:\s]+(.*?)(?:\n\s*[A-Z]|\n\n)\<close>

  \<^verbatim>\<open>EU[:\s]+(.*?)(?:\n\s*[A-Z]|\n\n)\<close>

  \<^verbatim>\<open>International\s+regulations[:\s]+(.*?)(?:\n\s*[A-Z]|\n\n)\<close>

  \<^verbatim>\<open>Chemical\s+safety\s+assessment[:\s]+(.*?)(?:\n\s*[A-Z]|\n\n)\<close>
\<close>

definition reg_patterns :: "pat list" where
  "reg_patterns =
     [P (seq [Lit ''Regulatory'', alt [seq [plus1 (Set [Spc]), Lit ''information''],
         seq [plus1 (Set [Spc]), Lit ''compliance'']], plus1 (Set [Ch (CHR '':''), Spc]),
         Grp 1 (lazy Dot), alt [seq [Lit [newline], star (Set [Spc]),
         Set [Rng (CHR ''A'') (CHR ''Z'')]], Lit [newline, newline], Lit ''SECTION'']]),
      P (seq [alt [seq [Lit ''SECTION'', plus1 (Set [Spc]), Lit ''15''], Lit ''15.''],
          lazy (NSet [Rng (CHR ''A'') (CHR ''Z'')]), Grp 1 (lazy Dot), alt [seq [Lit ''SECTION'',
          plus1 (Set [Spc]), Lit ''16''], Lit ''16.'']]),
      P (seq [Lit ''Safety'', plus1 (Set [Ch (CHR '',''), Spc]), Lit ''health'', plus1 (Set [Spc]),
          Lit ''and'', plus1 (Set [Spc]), Lit ''environmental'', plus1 (Set [Spc]),
          Lit ''regulations'', plus1 (Set [Ch (CHR '':''), Spc]), Grp 1 (lazy Dot),
          alt [seq [Lit [newline], star (Set [Spc]), Set [Rng (CHR ''A'') (CHR ''Z'')]],
          Lit [newline, newline]]]),
      P (seq [Lit ''REACH'', plus1 (Set [Ch (CHR '':''), Spc]), Grp 1 (lazy Dot),
          alt [seq [Lit [newline], star (Set [Spc]), Set [Rng (CHR ''A'') (CHR ''Z'')]],
          Lit [newline, newline]]]),
      P (seq [Lit ''TSCA'', plus1 (Set [Ch (CHR '':''), Spc]), Grp 1 (lazy Dot),
          alt [seq [Lit [newline], star (Set [Spc]), Set [Rng (CHR ''A'') (CHR ''Z'')]],
          Lit [newline, newline]]]),
      P (seq [Lit ''OSHA'', plus1 (Set [Ch (CHR '':''), Spc]), Grp 1 (lazy Dot),
          alt [seq [Lit [newline], star (Set [Spc]), Set [Rng (CHR ''A'') (CHR ''Z'')]],
          Lit [newline, newline]]]),
      P (seq [Lit ''EU'', plus1 (Set [Ch (CHR '':''), Spc]), Grp 1 (lazy Dot),
          alt [seq [Lit [newline], star (Set [Spc]), Set [Rng (CHR ''A'') (CHR ''Z'')]],
          Lit [newline, newline]]]),
      P (seq [Lit ''International'', plus1 (Set [Spc]), Lit ''regulations'',
          plus1 (Set [Ch (CHR '':''), Spc]), Grp 1 (lazy Dot), alt [seq [Lit [newline],
          star (Set [Spc]), Set [Rng (CHR ''A'') (CHR ''Z'')]], Lit [newline, newline]]]),
      P (seq [Lit ''Chemical'', plus1 (Set [Spc]), Lit ''safety'', plus1 (Set [Spc]),
          Lit ''assessment'', plus1 (Set [Ch (CHR '':''), Spc]), Grp 1 (lazy Dot),
          alt [seq [Lit [newline], star (Set [Spc]), Set [Rng (CHR ''A'') (CHR ''Z'')]],
          Lit [newline, newline]]])]"

text \<open>
  The function assigns the fields in this order; each value is computed from the text
  alone, and the first computation that raises ends the function.
\<close>

definition extract_pattern_based :: "set_order \<Rightarrow> string \<Rightarrow> py_exn + sdict" where
  "extract_pattern_based set_iter text =
     bindE (health_category set_iter text) (\<lambda>health_cat.
     bindE (extract_with_patterns text physical_category_patterns) (\<lambda>physical_cat.
     bindE (hazard_statement set_iter text) (\<lambda>hazard_stmt.
     bindE (extract_with_patterns text flash_point_patterns) (\<lambda>flash_point.
     bindE (extract_with_patterns text appearance_patterns) (\<lambda>appearance.
     bindE (odour text) (\<lambda>odor.
     bindE (extract_with_patterns text color_patterns) (\<lambda>colour.
     bindE (extract_with_patterns text packing_group_patterns) (\<lambda>packing_group.
     bindE (extract_with_patterns text dangerous_goods_patterns) (\<lambda>dangerous_goods.
     bindE (extract_with_patterns text storage_patterns) (\<lambda>storage.
     bindE (extract_with_patterns text product_patterns) (\<lambda>product_name.
     bindE (extract_with_patterns text cas_patterns) (\<lambda>cas_number.
     bindE (extract_with_patterns text chem_id_patterns) (\<lambda>chem_id.
     bindE (extract_with_patterns text precautionary_patterns) (\<lambda>precautionary.
     bindE (extract_with_patterns text first_aid_patterns) (\<lambda>first_aid.
     bindE (extract_with_patterns text firefighting_patterns) (\<lambda>firefighting.
     bindE (extract_with_patterns text supplier_patterns) (\<lambda>supplier.
     bindE (extract_with_patterns text env_patterns) (\<lambda>env_hazards.
     bindE (extract_with_patterns text reg_patterns) (\<lambda>regulatory.
       Inr (apply_field_mappings
         [(''Health Category'', health_cat),
          (''Physical Category'', physical_cat),
          (''Hazard Statement'', hazard_stmt),
          (''Health Hazards'', health_hazards text),
          (''Physical Hazards'', physical_hazards text),
          (''Flash Point (Deg C)'', flash_point),
          (''Appearance'', appearance),
          (''Odour'', odor),
          (''Colour'', colour),
          (''Issue Date'', []),
          (''SDS Available'', []),
          (''Packing Group'', packing_group),
          (''Dangerous Goods Class'', dangerous_goods),
          (''Storage Use'', storage),
          (''Product Name'', product_name),
          (''CAS Number'', cas_number),
          (''Chemical Identification'', chem_id),
          (''Precautionary Statements'', precautionary),
          (''First Aid Measures'', first_aid),
          (''Firefighting Measures'', firefighting),
          (''Supplier Information'', supplier),
          (''Supplier/Manufacturer'', supplier),
          (''Environmental Hazards'', env_hazards),
          (''Regulatory Compliance Information'', regulatory)]))))))))))))))))))))"

subsection \<open>\<^verbatim>\<open>get_sections\<close>\<close>

text \<open>The section pattern, used with \<^verbatim>\<open>re.IGNORECASE | re.DOTALL | re.MULTILINE\<close>.\<close>

definition section_pattern :: rx where
  "section_pattern =
     (seq [alt [seq [Lit ''SECTION'', plus1 (Set [Spc])], Bol],
         Grp 1 (Rep True 1 (Some 2) (Set [Dig])), alt [seq [Set [Ch (CHR '':''), Ch (CHR ''.'')],
         star (Set [Spc])], plus1 (Set [Spc])], Grp 2 (plus1 (NSet [Ch newline])), Lit [newline],
         Grp 3 (lazy Dot), Ahead (alt [seq [alt [seq [Lit ''SECTION'', plus1 (Set [Spc])], Bol],
         Grp 4 (Rep True 1 (Some 2) (Set [Dig])), alt [seq [Set [Ch (CHR '':''), Ch (CHR ''.'')],
         star (Set [Spc])], plus1 (Set [Spc])]], Eol])])"

definition IGNORECASE_DOTALL_MULTILINE :: flags where
  "IGNORECASE_DOTALL_MULTILINE = \<lparr>ignorecase = True, dotall = True, multiline = True\<rparr>"

text \<open>A section: its title and its content.\<close>

record sds_section =
  sec_title :: string
  sec_content :: string

type_synonym sections = "(string \<times> sds_section) list"

definition add_section :: "match \<Rightarrow> sections \<Rightarrow> py_exn + sections" where
  "add_section mt secs =
     (case group mt 1 of
        None \<Rightarrow> Inl TypeError
      | Some section_num \<Rightarrow>
          bindE (group_strip mt 2) (\<lambda>section_title.
          bindE (group_strip mt 3) (\<lambda>section_content.
            Inr (AList.update section_num
                   \<lparr>sec_title = section_title,
                       sec_content = section_content\<rparr> secs))))"

fun add_sections :: "match list \<Rightarrow> sections \<Rightarrow> py_exn + sections" where
  "add_sections [] secs = Inr secs"
| "add_sections (mt # mts) secs = bindE (add_section mt secs) (add_sections mts)"

definition get_sections :: "string \<Rightarrow> py_exn + sections" where
  "get_sections text =
     add_sections (find_all IGNORECASE_DOTALL_MULTILINE section_pattern None text) []"

subsection \<open>The parsers of single sections\<close>

text \<open>\<^verbatim>\<open>s[:497] + "..."\<close> when \<^verbatim>\<open>len(s) > 500\<close>, and the same with 200.\<close>

definition truncate_to :: "nat \<Rightarrow> string \<Rightarrow> string" where
  "truncate_to n s = (if length s > n then take (n - 3) s @ ''...'' else s)"

definition clean_section_content :: "string \<Rightarrow> string" where
  "clean_section_content content = truncate_to 500 (strip (collapse_ws content))"

definition composition_patterns :: "pat list" where
  "composition_patterns =
     [P ((seq [Lit ''Chemical'', alt [seq [plus1 (Set [Spc]), Lit ''name''],
         seq [plus1 (Set [Spc]), Lit ''identification'']], plus1 (Set [Ch (CHR '':''), Spc]),
         Grp 1 (lazy Dot), alt [Lit [newline], Eol]])),
      P ((seq [Lit ''Substance'', opt (seq [plus1 (Set [Spc]), Lit ''name'']),
          plus1 (Set [Ch (CHR '':''), Spc]), Grp 1 (lazy Dot), alt [Lit [newline], Eol]])),
      P ((seq [Lit ''Formula'', plus1 (Set [Ch (CHR '':''), Spc]), Grp 1 (lazy Dot),
          alt [Lit [newline], Eol]]))]"

definition extract_composition_info :: "string \<Rightarrow> py_exn + string" where
  "extract_composition_info section_content =
     bindE (extract_with_patterns section_content composition_patterns) (\<lambda>chem_id.
       if chem_id = [] then
         (let cleaned = re_sub (seq [alt [Lit ''CAS'', Lit ''EC'', Lit ''Index''], star (Set [Spc,
             Ch (CHR ''-'')]), Lit ''No'', opt (Lit ''.''), lazy Dot, alt [Lit [newline],
             Eol]]) [] section_content no_flags
          in Inr (truncate_to 200 (strip (collapse_ws cleaned))))
       else Inr chem_id)"

definition classification_patterns :: "pat list" where
  "classification_patterns =
     [P ((seq [Lit ''Classification'', plus1 (Set [Ch (CHR '':''), Spc]), Grp 1 (lazy Dot),
         alt [seq [Lit [newline], star (Set [Spc]), Set [Rng (CHR ''A'') (CHR ''Z'')]],
         Lit [newline, newline]]])),
      P ((seq [Lit ''Hazard'', alt [seq [plus1 (Set [Spc]), Lit ''Classification''],
          seq [plus1 (Set [Spc]), Lit ''class'']], plus1 (Set [Ch (CHR '':''), Spc]),
          Grp 1 (lazy Dot), alt [seq [Lit [newline], star (Set [Spc]),
          Set [Rng (CHR ''A'') (CHR ''Z'')]], Lit [newline, newline], Lit ''Precautionary'']])),
      P ((seq [alt [Lit ''GHS'', Lit ''CLP''], plus1 (Set [Spc]), Lit ''Classification'',
          plus1 (Set [Ch (CHR '':''), Spc]), Grp 1 (lazy Dot), alt [seq [Lit [newline],
          star (Set [Spc]), Set [Rng (CHR ''A'') (CHR ''Z'')]], Lit [newline, newline]]]))]"

definition extract_hazard_classification :: "string \<Rightarrow> py_exn + string" where
  "extract_hazard_classification section_content =
     bindE (extract_with_patterns section_content classification_patterns) (\<lambda>hazard_class.
       (let h_statements = findall1 (seq [Lit ''H'', Rep True 3 (Some 3) (Set [Dig]),
           star (seq [Set [Ch (CHR ''+'')], Rep True 3 (Some 3) (Set [Dig])]),
           plus1 (Set [Ch (CHR '':''), Spc]), Grp 1 (lazy Dot), alt [Lit [newline],
           Eol]]) section_content no_flags
        in if hazard_class = [] \<and> h_statements \<noteq> []
           then Inr (join '', '' h_statements)
           else Inr hazard_class))"

definition storage_rx :: rx where
  "storage_rx = (seq [Lit ''Storage'', plus1 (Set [Ch (CHR '':''), Spc]), Grp 1 (lazy Dot),
      alt [seq [Lit [newline], star (Set [Spc]), Set [Rng (CHR ''A'') (CHR ''Z'')]], Lit [newline,
      newline], Eol]])"

definition handling_rx :: rx where
  "handling_rx = (seq [Lit ''Handling'', plus1 (Set [Ch (CHR '':''), Spc]), Grp 1 (lazy Dot),
      alt [seq [Lit [newline], star (Set [Spc]), Set [Rng (CHR ''A'') (CHR ''Z'')]], Lit [newline,
      newline], Eol]])"

definition extract_precautionary_statements :: "string \<Rightarrow> py_exn + string" where
  "extract_precautionary_statements section_content =
     (let p_statements = findall1 (seq [Lit ''P'', Rep True 3 (Some 3) (Set [Dig]),
         star (seq [Set [Ch (CHR ''+'')], Rep True 3 (Some 3) (Set [Dig])]),
         plus1 (Set [Ch (CHR '':''), Spc]), Grp 1 (lazy Dot), alt [Lit [newline],
         Eol]]) section_content no_flags
      in if p_statements \<noteq> [] then Inr (join '', '' p_statements)
         else
           bindE (case re_search storage_rx section_content IGNORECASE of
                    None \<Rightarrow> Inr []
                  | Some storage_match \<Rightarrow>
                      bindE (group_strip storage_match 1) (\<lambda>g. Inr [''Storage: '' @ g])) (\<lambda>r1.
           bindE (case re_search handling_rx section_content IGNORECASE of
                    None \<Rightarrow> Inr []
                  | Some handling_match \<Rightarrow>
                      bindE (group_strip handling_match 1) (\<lambda>g. Inr [''Handling: '' @ g])) (\<lambda>r2.
             Inr (join '' '' (r1 @ r2)))))"

definition address_rx :: rx where
  "address_rx = (seq [Lit ''Address'', plus1 (Set [Ch (CHR '':''), Spc]), Grp 1 (lazy Dot),
      alt [seq [Lit [newline], star (Set [Spc]), Set [Rng (CHR ''A'') (CHR ''Z'')]], Lit [newline,
      newline], Eol]])"

definition company_rx :: rx where
  "company_rx = (seq [Lit ''Company'', plus1 (Set [Ch (CHR '':''), Spc]), Grp 1 (lazy Dot),
      alt [seq [Lit [newline], star (Set [Spc]), Set [Rng (CHR ''A'') (CHR ''Z'')]], Lit [newline,
      newline], Eol]])"

definition phone_rx :: rx where
  "phone_rx = (seq [alt [Lit ''Phone'', Lit ''Tel''], plus1 (Set [Ch (CHR '':''), Spc]),
      Grp 1 (lazy Dot), alt [Lit [newline], Eol]])"

text \<open>
  The three searches come first; the groups are read afterwards, company first.
\<close>

definition extract_supplier_info :: "string \<Rightarrow> py_exn + string" where
  "extract_supplier_info section_content =
     (let address_match = re_search address_rx section_content IGNORECASE;
          company_match = re_search company_rx section_content IGNORECASE;
          phone_match = re_search phone_rx section_content IGNORECASE
      in
        bindE (case company_match of None \<Rightarrow> Inr [] | Some mt \<Rightarrow>
                 bindE (group_strip mt 1) (\<lambda>g. Inr [g])) (\<lambda>r1.
        bindE (case address_match of None \<Rightarrow> Inr [] | Some mt \<Rightarrow>
                 bindE (group_strip mt 1) (\<lambda>g. Inr [g])) (\<lambda>r2.
        bindE (case phone_match of None \<Rightarrow> Inr [] | Some mt \<Rightarrow>
                 bindE (group_strip mt 1) (\<lambda>g. Inr [''Phone: '' @ g])) (\<lambda>r3.
          Inr (join '', '' (r1 @ r2 @ r3))))))"

text \<open>
  \<^verbatim>\<open>rf'{category}[^\n]*?:([^\n]*)'\<close> and
  \<^verbatim>\<open>rf'{category}[^\n]*?:(.*?)(?=\n\s*[A-Z][a-z]+\s*:|\Z)'\<close>; the categories consist of letters
  and spaces, which stand for themselves in a pattern.
\<close>

definition category_line_rx :: "string \<Rightarrow> rx" where
  "category_line_rx category = Seq (Lit category) ((seq [lazy (NSet [Ch newline]), Lit '':'',
      Grp 1 (star (NSet [Ch newline]))]))"

definition category_extended_rx :: "string \<Rightarrow> rx" where
  "category_extended_rx category = Seq (Lit category) ((seq [lazy (NSet [Ch newline]), Lit '':'',
      Grp 1 (lazy Dot), Ahead (alt [seq [Lit [newline], star (Set [Spc]),
      Set [Rng (CHR ''A'') (CHR ''Z'')], plus1 (Set [Rng (CHR ''a'') (CHR ''z'')]),
      star (Set [Spc]), Lit '':''], EndZ])]))"

definition first_aid_categories :: "string list" where
  "first_aid_categories = [''Inhalation'', ''Skin contact'', ''Eye contact'', ''Ingestion'']"

definition first_aid_measure :: "string \<Rightarrow> string \<Rightarrow> py_exn + (string \<times> string) list" where
  "first_aid_measure section_content category =
     (case re_search (category_line_rx category) section_content IGNORECASE of
        None \<Rightarrow> Inr []
      | Some mt \<Rightarrow>
          bindE (group_strip mt 1) (\<lambda>line.
            (case re_search (category_extended_rx category) section_content IGNORECASE_DOTALL of
               None \<Rightarrow> Inr [(category, line)]
             | Some extended_match \<Rightarrow>
                 bindE (group_strip extended_match 1) (\<lambda>ext. Inr [(category, ext)]))))"

text \<open>Running a list of computations in order, up to the first that raises.\<close>

fun collect :: "(py_exn + 'a list) list \<Rightarrow> py_exn + 'a list" where
  "collect [] = Inr []"
| "collect (x # xs) = bindE x (\<lambda>v. bindE (collect xs) (\<lambda>vs. Inr (v @ vs)))"

text \<open>\<^verbatim>\<open>re.findall(r'([^\n]+)', section_content)\<close>\<close>

definition paragraphs_of :: "string \<Rightarrow> string list" where
  "paragraphs_of section_content = findall1 (Grp 1 (plus1 (NSet [Ch newline]))) section_content no_flags"

definition format_entries :: "(string \<times> string) list \<Rightarrow> string" where
  "format_entries entries = concat (map (\<lambda>(name,
      text). name @ '': '' @ text @ [newline]) entries)"

definition extract_first_aid_measures :: "string \<Rightarrow> py_exn + string" where
  "extract_first_aid_measures section_content =
     bindE (collect (map (first_aid_measure section_content) first_aid_categories)) (\<lambda>measures.
       (let first_aid_measures =
              (if measures \<noteq> [] then format_entries measures
               else
                 (case paragraphs_of section_content of
                    [] \<Rightarrow> []
                  | p0 # ps \<Rightarrow>
                      (let start_idx = (if found (Lit ''first aid'') p0 IGNORECASE then 1 else 0)
                       in join [newline] (take 3 (drop start_idx (p0 # ps))))))
        in Inr (strip (truncate_to 500 (collapse_ws first_aid_measures)))))"

text \<open>
  The four subsections of the firefighting parser, searched with \<^verbatim>\<open>re.DOTALL\<close>; the
  text is group 2 where the pattern has two groups, group 1 otherwise.
\<close>

definition firefighting_sections :: "(string \<times> rx \<times> nat) list" where
  "firefighting_sections =
     [(''Extinguishing media'',
       (seq [Grp 1 (alt [seq [Set [Ch (CHR ''S''), Ch (CHR ''s'')], Lit ''uitable''],
           seq [Set [Ch (CHR ''R''), Ch (CHR ''r'')], Lit ''ecommended'']]), plus1 (Set [Spc]),
           Set [Ch (CHR ''E''), Ch (CHR ''e'')], Lit ''xtinguishing'', plus1 (Set [Spc]),
           Set [Ch (CHR ''M''), Ch (CHR ''m'')], Lit ''edia'', opt (Lit '':''), star (Set [Spc]),
           Grp 2 (lazy Dot), Ahead (alt [seq [Lit [newline], star (Set [Spc]),
           Set [Rng (CHR ''A'') (CHR ''Z'')]], Eol])]), 2),
      (''Special hazards'',
       (seq [Grp 1 (alt [seq [Set [Ch (CHR ''S''), Ch (CHR ''s'')], Lit ''pecial''],
           seq [Set [Ch (CHR ''U''), Ch (CHR ''u'')], Lit ''nusual'']]), plus1 (Set [Spc]),
           Set [Ch (CHR ''H''), Ch (CHR ''h'')], Lit ''azards'', opt (Lit '':''), star (Set [Spc]),
           Grp 2 (lazy Dot), Ahead (alt [seq [Lit [newline], star (Set [Spc]),
           Set [Rng (CHR ''A'') (CHR ''Z'')]], Eol])]), 2),
      (''Advice for firefighters'',
       (seq [Grp 1 (alt [seq [Set [Ch (CHR ''A''), Ch (CHR ''a'')], Lit ''dvice''],
           seq [Set [Ch (CHR ''P''), Ch (CHR ''p'')], Lit ''rotection'']]), plus1 (Set [Spc]),
           Lit ''for'', plus1 (Set [Spc]), Set [Ch (CHR ''F''), Ch (CHR ''f'')],
           Lit ''irefighters'', opt (Lit '':''), star (Set [Spc]), Grp 2 (lazy Dot),
           Ahead (alt [seq [Lit [newline], star (Set [Spc]), Set [Rng (CHR ''A'') (CHR ''Z'')]],
           Eol])]), 2),
      (''Hazardous combustion'',
       (seq [Set [Ch (CHR ''H''), Ch (CHR ''h'')], Lit ''azardous'', plus1 (Set [Spc]),
           Set [Ch (CHR ''C''), Ch (CHR ''c'')], Lit ''ombustion'', plus1 (Set [Spc]),
           Set [Ch (CHR ''P''), Ch (CHR ''p'')], Lit ''roducts'', opt (Lit '':''),
           star (Set [Spc]), Grp 1 (lazy Dot), Ahead (alt [seq [Lit [newline], star (Set [Spc]),
           Set [Rng (CHR ''A'') (CHR ''Z'')]], Eol])]), 1)]"

definition firefighting_section :: "string \<Rightarrow> string \<times> rx \<times> nat \<Rightarrow> py_exn + (string \<times> string) list" where
  "firefighting_section section_content entry =
     (case entry of (name, pattern, n) \<Rightarrow>
        (case re_search pattern section_content DOTALL of
           None \<Rightarrow> Inr []
         | Some mt \<Rightarrow>
             bindE (group_strip mt n) (\<lambda>extracted_text. Inr [(name,
                 collapse_ws extracted_text)])))"

definition extract_firefighting_measures :: "string \<Rightarrow> py_exn + string" where
  "extract_firefighting_measures section_content =
     bindE (collect (map (firefighting_section section_content) firefighting_sections)) (\<lambda>extracted_sections.
       (let firefighting_info =
              (if extracted_sections \<noteq> [] then format_entries extracted_sections
               else
                 (case paragraphs_of section_content of
                    [] \<Rightarrow> []
                  | p0 # ps \<Rightarrow>
                      (let start_idx = (if found (Lit ''firefighting'') p0 IGNORECASE then 1 else 0)
                       in join [newline] (take 2 (drop start_idx (p0 # ps))))))
        in Inr (strip (truncate_to 500 (collapse_ws firefighting_info)))))"

subsection \<open>\<^verbatim>\<open>extract_section_based\<close>\<close>

definition section_mapping :: "(string \<times> string list) list" where
  "section_mapping =
     [(''1'', [''Product Name'', ''Supplier Information'']),
      (''2'', [''Hazard Classification'']),
      (''3'', [''Chemical Identification'', ''CAS Number'']),
      (''4'', [''First Aid Measures'']),
      (''5'', [''Firefighting Measures'']),
      (''7'', [''Precautionary Statements'']),
      (''12'', [''Environmental Hazards'']),
      (''15'', [''Regulatory Compliance Information''])]"

definition section_product_patterns :: "pat list" where
  "section_product_patterns =
     [P ((seq [Set [Ch (CHR ''P''), Ch (CHR ''p'')], Lit ''roduct'', plus1 (Set [Spc]),
         Lit ''name'', plus1 (Set [Ch (CHR '':''), Spc]), Grp 1 (lazy Dot), alt [Lit [newline],
         Eol]])),
      P ((seq [Set [Ch (CHR ''P''), Ch (CHR ''p'')], Lit ''roduct'', plus1 (Set [Spc]),
          Lit ''identifier'', plus1 (Set [Ch (CHR '':''), Spc]), Grp 1 (lazy Dot),
          alt [Lit [newline], Eol]]))]"

definition section_cas_patterns :: "pat list" where
  "section_cas_patterns =
     [P ((seq [Lit ''CAS'', alt [seq [star (Set [Spc, Ch (CHR ''-'')]), Lit ''No'',
         opt (Lit ''.'')], seq [star (Set [Ch (CHR ''-''), Spc]), Lit ''Number'']],
         star (Set [Ch (CHR '':''), Spc]), Grp 1 (plus1 (Set [Dig, Ch (CHR ''-'')]))])),
      P ((seq [Lit ''CAS'', star (Set [Ch (CHR '':''), Spc]), Grp 1 (plus1 (Set [Dig,
          Ch (CHR ''-'')]))]))]"

definition section_precautionary_patterns :: "pat list" where
  "section_precautionary_patterns =
     [P ((seq [Set [Ch (CHR ''P''), Ch (CHR ''p'')], Lit ''recautionary'', plus1 (Set [Spc]),
         Set [Ch (CHR ''S''), Ch (CHR ''s'')], Lit ''tatement'', opt (Lit ''s''),
         plus1 (Set [Ch (CHR '':''), Spc]), Grp 1 (lazy Dot), alt [seq [Lit [newline],
         star (Set [Spc]), Set [Rng (CHR ''A'') (CHR ''Z'')]], Lit [newline, newline]]])),
      P ((seq [Lit ''P'', opt (Set [Ch (CHR ''-''), Ch (CHR '' '')]), Lit ''statement'',
          opt (Lit ''s''), plus1 (Set [Ch (CHR '':''), Spc]), Grp 1 (lazy Dot),
          alt [seq [Lit [newline], star (Set [Spc]), Set [Rng (CHR ''A'') (CHR ''Z'')]],
          Lit [newline, newline]]]))]"

definition section_supplier_patterns :: "pat list" where
  "section_supplier_patterns =
     [P ((seq [alt [Lit ''Supplier'', Lit ''Manufacturer'', Lit ''Company''],
         plus1 (Set [Ch (CHR '':''), Spc]), Grp 1 (lazy Dot), alt [seq [Lit [newline],
         star (Set [Spc]), Set [Rng (CHR ''A'') (CHR ''Z'')]], Lit [newline, newline],
         Lit ''Emergency'']])),
      P ((seq [Lit ''Details of the supplier'', plus1 (Set [Ch (CHR '':''), Spc]),
          Grp 1 (lazy Dot), alt [seq [Lit [newline], star (Set [Spc]),
          Set [Rng (CHR ''A'') (CHR ''Z'')]], Lit [newline, newline], Lit ''Emergency'']]))]"

text \<open>The value of one field, from the content of its section.\<close>

definition section_field :: "string \<Rightarrow> string \<Rightarrow> py_exn + string" where
  "section_field field section_content =
     (if field = ''Product Name'' then
        extract_with_patterns section_content section_product_patterns
      else if field = ''CAS Number'' then
        extract_with_patterns section_content section_cas_patterns
      else if field = ''Chemical Identification'' then
        extract_composition_info section_content
      else if field = ''Hazard Classification'' then
        extract_hazard_classification section_content
      else if field = ''First Aid Measures'' then
        extract_first_aid_measures section_content
      else if field = ''Precautionary Statements'' then
        bindE (extract_with_patterns section_content section_precautionary_patterns) (\<lambda>precautions.
          if precautions = [] then extract_precautionary_statements section_content
          else Inr precautions)
      else if field = ''Supplier Information'' then
        bindE (extract_with_patterns section_content section_supplier_patterns) (\<lambda>supplier_info.
          if supplier_info = [] then extract_supplier_info section_content
          else Inr supplier_info)
      else if field = ''Firefighting Measures'' then
        extract_firefighting_measures section_content
      else if field = ''Environmental Hazards'' then
        Inr (clean_section_content section_content)
      else
        Inr (clean_section_content section_content))"

fun section_fields :: "string list \<Rightarrow> string \<Rightarrow> sdict \<Rightarrow> py_exn + sdict" where
  "section_fields [] section_content data = Inr data"
| "section_fields (field # fs) section_content data =
     bindE (section_field field section_content) (\<lambda>v.
       section_fields fs section_content (AList.update field v data))"

fun map_sections :: "(string \<times> string list) list \<Rightarrow> sections \<Rightarrow> sdict \<Rightarrow> py_exn + sdict" where
  "map_sections [] secs data = Inr data"
| "map_sections ((section_num, fs) # rest) secs data =
     (case map_of secs section_num of
        None \<Rightarrow> map_sections rest secs data
      | Some section_data \<Rightarrow>
          bindE (section_fields fs (sec_content section_data) data) (map_sections rest secs))"

definition section_field_mapping :: "(string \<times> string) list" where
  "section_field_mapping =
     [(''Supplier Information'', ''Supplier/Manufacturer''),
      (''Hazard Classification'', ''Hazards''),
      (''Precautionary Statements'', ''Response Statement'')]"

definition extract_section_based :: "string \<Rightarrow> py_exn + sdict" where
  "extract_section_based text =
     bindE (get_sections text) (\<lambda>secs.
     bindE (map_sections section_mapping secs []) (\<lambda>data.
       Inr (fold map_field section_field_mapping data)))"

subsection \<open>\<^verbatim>\<open>extract_sds_data\<close>\<close>

definition required_fields :: "string list" where
  "required_fields =
     [''Number'', ''Product Name'', ''Supplier/Manufacturer'', ''Hazards'', ''Location'',
      ''SDS Available'', ''Issue Date'', ''Health Hazards'', ''Health Category'',
      ''Physical Hazards'', ''Physical Category'', ''Hazardous Substance'', ''Flash Point (Deg C)'',
      ''Dangerous Goods Class'', ''Description'', ''Packing Group'', ''Appearance'', ''Colour'',
          ''Odour'',
      ''First Aid Measures'', ''Firefighting Measures'']"

text \<open>The Automatic merge of one field (lines 36 to 43).\<close>

definition merge_field :: "sdict \<Rightarrow> sdict \<Rightarrow> string \<Rightarrow> sdict \<Rightarrow> sdict" where
  "merge_field pattern_data section_data field data =
     (let pattern_value = get_or_empty pattern_data field;
          section_value = get_or_empty section_data field
      in if length (strip pattern_value) > 3 then AList.update field pattern_value data
         else if length (strip section_value) > 3 then AList.update field section_value data
         else data)"

text \<open>The update of one field in the other two modes (lines 48 to 50 and 55 to 57).\<close>

definition copy_field :: "sdict \<Rightarrow> string \<Rightarrow> sdict \<Rightarrow> sdict" where
  "copy_field source field data =
     (case map_of source field of None \<Rightarrow> data | Some v \<Rightarrow> AList.update field v data)"

text \<open>The clean-up of one value (lines 62 to 66).\<close>

definition clean_value :: "string \<Rightarrow> string" where
  "clean_value v = truncate_to 500 (strip (collapse_ws v))"

definition clean_up :: "sdict \<Rightarrow> sdict" where
  "clean_up data = map (\<lambda>(key, v). (key, clean_value v)) data"

definition empty_record :: sdict where
  "empty_record = map (\<lambda>field. (field, [])) required_fields"

definition extract_sds_data :: "set_order \<Rightarrow> string \<Rightarrow> string \<Rightarrow> py_exn + sdict" where
  "extract_sds_data set_iter text method =
     (if method = ''Automatic'' then
        bindE (extract_pattern_based set_iter text) (\<lambda>pattern_data.
        bindE (extract_section_based text) (\<lambda>section_data.
          Inr (clean_up (fold (merge_field pattern_data section_data) required_fields empty_record))))
      else if method = ''Section-based'' then
        bindE (extract_section_based text) (\<lambda>section_data.
          Inr (clean_up (fold (copy_field section_data) required_fields empty_record)))
      else
        bindE (extract_pattern_based set_iter text) (\<lambda>pattern_data.
          Inr (clean_up (fold (copy_field pattern_data) required_fields empty_record))))"

subsection \<open>Groups that every match captures\<close>

text \<open>
  \<open>covers n r\<close>: by the shape of the pattern, group \<open>n\<close> takes part in every match of
  \<open>r\<close>. \<open>ckeys\<close> are the numbers of the groups captured in a state, and a matcher
  \<open>passes\<close> when it calls its continuation only on states that keep the groups captured
  before. A pattern of a list is safe when reading its group 1 cannot yield \<^verbatim>\<open>None\<close>.
\<close>

primrec covers :: "nat \<Rightarrow> rx \<Rightarrow> bool" where
  "covers n (Lit xs) = False"
| "covers n Dot = False"
| "covers n (Set ks) = False"
| "covers n (NSet ks) = False"
| "covers n (Seq a b) = (covers n a \<or> covers n b)"
| "covers n (Alt a b) = (covers n a \<and> covers n b)"
| "covers n (Rep g lo hi r) = (0 < lo \<and> covers n r)"
| "covers n (Grp j r) = (j = n \<or> covers n r)"
| "covers n (Ahead r) = covers n r"
| "covers n Bol = False"
| "covers n Eol = False"
| "covers n EndZ = False"
| "covers n WordB = False"

definition ckeys :: "mstate \<Rightarrow> nat set" where
  "ckeys st = fst ` set (snd (snd st))"

definition passes :: "(mstate \<Rightarrow> cont \<Rightarrow> mstate option) \<Rightarrow> bool" where
  "passes mr = (\<forall>st k e. mr st k = Some e \<longrightarrow> (\<exists>st'. ckeys st \<subseteq> ckeys st' \<and> k st' = Some e))"

definition safe_pat :: "pat \<Rightarrow> bool" where
  "safe_pat p = (case p of P r \<Rightarrow> has_group 1 r \<longrightarrow> covers 1 r | Company name r \<Rightarrow> True)"

text \<open>The keys of a returned record (none when the call raised).\<close>

definition returned_keys :: "py_exn + sdict \<Rightarrow> string list" where
  "returned_keys x = (case x of Inl e \<Rightarrow> [] | Inr d \<Rightarrow> map fst d)"

section \<open>The external-model extractor (ai_extractor.py)\<close>

text \<open>
  What the module takes from outside is collected in an environment: which provider
  was selected when the module was loaded (\<open>None\<close> when \<^verbatim>\<open>ai_client\<close> is \<^verbatim>\<open>None\<close>),
  the provider itself (the outcome of the \<open>n\<close>-th call made for a text within one
  invocation: the reply text, or \<^verbatim>\<open>str(e)\<close> of the exception raised; the prompt is a
  fixed function of the text), \<^verbatim>\<open>json.loads\<close>, \<^verbatim>\<open>str\<close> on lists and dictionaries,
  text acquisition from a PDF path and \<^verbatim>\<open>os.path.basename\<close>.
  The effects that matter, provider calls and sleeps, are recorded in a trace.
\<close>

datatype service = OpenAI | Anthropic

datatype jval =
    JStr string
  | JNum int
  | JBool bool
  | JNull
  | JArr "jval list"
  | JObj "(string \<times> jval) list"

type_synonym jdict = "(string \<times> jval) list"

datatype json_result = JsonOk jval | JsonDecodeError string | JsonOtherError string

datatype event = ApiCall | Sleep nat

record env =
  ai_service :: "service option"
  provider :: "nat \<Rightarrow> string \<Rightarrow> string + string"
  json_loads :: "string \<Rightarrow> json_result"
  str_container :: "jval \<Rightarrow> string"
  acquire_text :: "string \<Rightarrow> string + string"
  basename :: "string \<Rightarrow> string"

definition max_retries :: nat where
  "max_retries = 10"

definition backoff_time :: nat where
  "backoff_time = 10"

definition error_result :: "string \<Rightarrow> jdict" where
  "error_result msg = [(''error'', JStr msg)]"

text \<open>\<^verbatim>\<open>"429" in str(e) or "too many requests" in str(e).lower()\<close>\<close>

definition is_rate_limit :: "string \<Rightarrow> bool" where
  "is_rate_limit e = (contains ''429'' e \<or> contains ''too many requests'' (lower e))"

text \<open>
  How the retry loop of the Anthropic branch is left: by \<^verbatim>\<open>break\<close> with the reply bound
  to \<^verbatim>\<open>response_text\<close>, by the \<^verbatim>\<open>return\<close> inside the loop, or by its condition becoming
  false, with \<^verbatim>\<open>response_text\<close> never assigned.
\<close>

datatype loop_exit = Got string | Returned jdict | Unbound

function retry_loop :: "env \<Rightarrow> string \<Rightarrow> nat \<Rightarrow> event list \<Rightarrow> event list \<times> loop_exit" where
  "retry_loop e text retry_count tr =
     (if retry_count < max_retries then
        (case provider e retry_count text of
           Inr response_text \<Rightarrow> (tr @ [ApiCall], Got response_text)
         | Inl err \<Rightarrow>
             (if is_rate_limit err then
                retry_loop e text (retry_count + 1)
                  (tr @ [ApiCall, Sleep (backoff_time * (retry_count + 1))])
              else if retry_count + 1 < max_retries then
                retry_loop e text (retry_count + 1) (tr @ [ApiCall, Sleep 2])
              else
                (tr @ [ApiCall],
                 Returned (error_result (''Anthropic API extraction failed after '' @
                   str_nat max_retries @ '' attempts: '' @ err)))))
      else (tr, Unbound))"
  by pat_completeness auto
termination
  by (relation "measure (\<lambda>(e, text, retry_count, tr). max_retries - retry_count)") auto

declare retry_loop.simps [simp del]

text \<open>
  The message of the \<^verbatim>\<open>UnboundLocalError\<close> raised when \<^verbatim>\<open>response_text\<close> is read
  without having been assigned (Python 3.11 and later; earlier versions say
  \<^verbatim>\<open>local variable 'response_text' referenced before assignment\<close>).
\<close>

definition unbound_local_msg :: string where
  "unbound_local_msg =
     ''cannot access local variable '' @ [CHR 0x27] @ ''response_text'' @ [CHR 0x27] @
     '' where it is not associated with a value''"

text \<open>The two patterns of response parsing, both searched with \<^verbatim>\<open>re.DOTALL\<close>.\<close>

definition fenced_json :: rx where
  "fenced_json = seq [Lit ''```json'', star (Set [Spc]), Grp 1 (lazy Dot), star (Set [Spc]), Lit ''```'']"

definition brace_span :: rx where
  "brace_span = Grp 1 (seq [Lit ''{'', star Dot, Lit ''}''])"

text \<open>
  \<^verbatim>\<open>json.loads(match.group(1))\<close>; on a group that took no part in the match
  \<^verbatim>\<open>json.loads(None)\<close> raises a \<^verbatim>\<open>TypeError\<close>, which is not a \<^verbatim>\<open>JSONDecodeError\<close>.
\<close>

definition loads_group :: "env \<Rightarrow> match \<Rightarrow> json_result" where
  "loads_group e mt =
     (case group mt 1 of
        None \<Rightarrow> JsonOtherError ''the JSON object must be str, bytes or bytearray, not NoneType''
      | Some g \<Rightarrow> json_loads e g)"

text \<open>
  Lines 172 to 193: the reply is turned into \<^verbatim>\<open>response_data\<close> (\<open>Inr\<close>), or the function
  returns an error record (\<open>Inl\<close>). \<^verbatim>\<open>response_data\<close> starts as the empty dictionary.
\<close>

definition process_response :: "env \<Rightarrow> string \<Rightarrow> jdict + jval" where
  "process_response e response_text =
     (case re_search fenced_json response_text DOTALL of
        Some json_match \<Rightarrow>
          (case loads_group e json_match of
             JsonOk v \<Rightarrow> Inr v
           | JsonDecodeError msg \<Rightarrow>
               Inl (error_result (''Failed to process Anthropic response: '' @ msg))
           | JsonOtherError msg \<Rightarrow>
               Inl (error_result (''Failed to process Anthropic response: '' @ msg)))
      | None \<Rightarrow>
          (case json_loads e response_text of
             JsonOk v \<Rightarrow> Inr v
           | JsonOtherError msg \<Rightarrow>
               Inl (error_result (''Failed to process Anthropic response: '' @ msg))
           | JsonDecodeError _ \<Rightarrow>
               (case re_search brace_span response_text DOTALL of
                  Some potential_json \<Rightarrow>
                    (case loads_group e potential_json of
                       JsonOk v \<Rightarrow> Inr v
                     | JsonDecodeError _ \<Rightarrow> Inl (error_result ''Failed to parse AI response'')
                     | JsonOtherError msg \<Rightarrow>
                         Inl (error_result (''Failed to process Anthropic response: '' @ msg)))
                | None \<Rightarrow> Inr (JObj []))))"

definition expected_fields :: "string list" where
  "expected_fields =
     [''Product Name'', ''CAS Number'', ''Chemical Identification'',
      ''Health Hazards'', ''Health Category'', ''Physical Hazards'',
      ''Physical Category'', ''Flash Point'', ''Appearance'', ''Odour'',
      ''Colour'', ''Storage Use'', ''Supplier/Manufacturer'',
      ''Dangerous Goods Class'', ''Packing Group'', ''Environmental Hazards'',
      ''First Aid Measures'', ''Firefighting Measures'']"

text \<open>The trigger of the special case for 1-Methyl-2-pyrrolidone in \<^verbatim>\<open>extract_with_ai\<close>.\<close>

definition ai_nmp_trigger :: "string \<Rightarrow> bool" where
  "ai_nmp_trigger text =
     (contains ''1-methyl-2-pyrrolidone'' (lower text) \<or>
      contains ''1-methyl-2-pyrrolidinone'' (lower text) \<or>
      contains ''nmp'' (lower text) \<or>
      contains ''872-50-4'' (lower text))"

text \<open>\<^verbatim>\<open>str(item)\<close>\<close>

definition str_int :: "int \<Rightarrow> string" where
  "str_int i = (if i < 0 then ''-'' @ str_nat (nat (- i)) else str_nat (nat i))"

definition py_str :: "env \<Rightarrow> jval \<Rightarrow> string" where
  "py_str e v =
     (case v of
        JStr s \<Rightarrow> s
      | JNum i \<Rightarrow> str_int i
      | JBool b \<Rightarrow> (if b then ''True'' else ''False'')
      | JNull \<Rightarrow> ''None''
      | JArr xs \<Rightarrow> str_container e v
      | JObj d \<Rightarrow> str_container e v)"

definition has_key :: "'a \<Rightarrow> ('a \<times> 'b) list \<Rightarrow> bool" where
  "has_key k d = (map_of d k \<noteq> None)"

definition fill_missing :: "string list \<Rightarrow> jdict \<Rightarrow> jdict" where
  "fill_missing fs d =
     fold (\<lambda>field d. if has_key field d then d else AList.update field (JStr []) d) fs d"

definition lists_to_strings :: "env \<Rightarrow> jdict \<Rightarrow> jdict" where
  "lists_to_strings e d =
     map (\<lambda>(field, v). (field, case v of JArr xs \<Rightarrow> JStr (join ''; '' (map (py_str e) xs)) | _ \<Rightarrow> v)) d"

text \<open>
  Lines 199 to 225, which run outside every \<^verbatim>\<open>try\<close>. On a dictionary they fill the
  missing fields, apply the special case and flatten lists. A reply that parsed to
  something else makes them raise: \<^verbatim>\<open>field not in response_data\<close> on a number, a
  boolean or \<^verbatim>\<open>None\<close>, the assignment \<^verbatim>\<open>response_data[field] = ""\<close> on a list or a
  string, or, when every field name occurs in it, \<^verbatim>\<open>response_data.items()\<close>.
\<close>

definition post_process :: "env \<Rightarrow> string \<Rightarrow> jval \<Rightarrow> py_exn + jdict" where
  "post_process e text response_data =
     (case response_data of
        JObj d \<Rightarrow>
          (let d1 = fill_missing expected_fields d;
               d2 = (if ai_nmp_trigger text
                     then AList.update ''Odour'' (JStr ''amine'')
                            (AList.update ''Health Hazards'' (JStr nmp_health_hazards) d1)
                     else d1)
           in Inr (lists_to_strings e d2))
      | JArr xs \<Rightarrow>
          (if list_all (\<lambda>field. JStr field \<in> set xs) expected_fields \<and> \<not> ai_nmp_trigger text
           then Inl AttributeError else Inl TypeError)
      | JStr s \<Rightarrow>
          (if list_all (\<lambda>field. contains field s) expected_fields \<and> \<not> ai_nmp_trigger text
           then Inl AttributeError else Inl TypeError)
      | JNum _ \<Rightarrow> Inl TypeError
      | JBool _ \<Rightarrow> Inl TypeError
      | JNull \<Rightarrow> Inl TypeError)"

text \<open>
  \<^verbatim>\<open>extract_with_ai(text, sds_filename, light_mode)\<close>: the trace of its effects and
  either the exception that escapes or the dictionary returned.
\<close>

definition extract_with_ai ::
    "env \<Rightarrow> string \<Rightarrow> string option \<Rightarrow> bool \<Rightarrow> event list \<times> (py_exn + jdict)" where
  "extract_with_ai e text sds_filename light_mode =
     (case ai_service e of
        None \<Rightarrow> ([], Inr (error_result ''No AI API keys available''))
      | Some OpenAI \<Rightarrow>
          (case provider e 0 text of
             Inl err \<Rightarrow> ([ApiCall], Inr (error_result (''AI extraction failed: '' @ err)))
           | Inr response_text \<Rightarrow>
               (case json_loads e response_text of
                  JsonOk v \<Rightarrow> ([ApiCall], post_process e text v)
                | JsonDecodeError msg \<Rightarrow>
                    ([ApiCall], Inr (error_result (''AI extraction failed: '' @ msg)))
                | JsonOtherError msg \<Rightarrow>
                    ([ApiCall], Inr (error_result (''AI extraction failed: '' @ msg)))))
      | Some Anthropic \<Rightarrow>
          (case retry_loop e text 0 [Sleep 3] of
             (tr, Returned d) \<Rightarrow> (tr, Inr d)
           | (tr, Unbound) \<Rightarrow>
               (tr, Inr (error_result (''Failed to process Anthropic response: '' @ unbound_local_msg)))
           | (tr, Got response_text) \<Rightarrow>
               (case process_response e response_text of
                  Inl d \<Rightarrow> (tr, Inr d)
                | Inr v \<Rightarrow> (tr, post_process e text v))))"

definition api_calls :: "event list \<Rightarrow> nat" where
  "api_calls tr = length (filter (\<lambda>ev. ev = ApiCall) tr)"

text \<open>An environment whose provider answers every call with a rate-limit error.\<close>

definition always_429 :: env where
  "always_429 = \<lparr>ai_service = Some Anthropic,
     provider = (\<lambda>n text. Inl ''Error code: 429 - rate_limit_error''),
     json_loads = (\<lambda>s. JsonDecodeError ''Expecting value''),
     str_container = (\<lambda>v. []),
     acquire_text = (\<lambda>p. Inr []),
     basename = (\<lambda>p. p)\<rparr>"

section \<open>Properties of the matcher\<close>

lemma ckeys_simp [simp]: "ckeys (p, s, c) = fst ` set c"
  by (simp add: ckeys_def)

lemma passesD: "passes mr \<Longrightarrow> mr st k = Some e \<Longrightarrow> \<exists>st'. ckeys st \<subseteq> ckeys st' \<and> k st' = Some e"
  unfolding passes_def by blast

lemma rep_passes:
  "passes mr \<Longrightarrow> rep mr g n lo hi st k = Some e \<Longrightarrow>
   \<exists>st'. ckeys st \<subseteq> ckeys st' \<and> k st' = Some e"
proof (induction mr g n lo hi st k rule: rep.induct)
  case (1 mr g n lo hi st k)
  note mr = "1.prems"(1)
  from "1.prems" have "mr st (\<lambda>st'. rep mr g n lo (dec hi) st' k) = Some e" by simp
  from passesD [OF mr this]
  obtain s1 where s1: "ckeys st \<subseteq> ckeys s1" "rep mr g n lo (dec hi) s1 k = Some e"
    by blast
  from "1.IH" [OF mr s1(2)] s1(1) show ?case by blast
next
  case (2 mr g hi st k)
  then have "k st = Some e" by simp
  then show ?case by blast
next
  case (3 mr g n hi st k)
  note mr = "3.prems"(1)
  let ?K = "\<lambda>st'. if length (fst (snd st')) < length (fst (snd st))
                    then rep mr g n 0 (dec hi) st' k else None"
  have more: "mr st ?K = Some e \<Longrightarrow> ?case"
  proof -
    assume a: "mr st ?K = Some e"
    from passesD [OF mr a] obtain s1 where s1: "ckeys st \<subseteq> ckeys s1" "?K s1 = Some e"
      by blast
    then have lt: "length (fst (snd s1)) < length (fst (snd st))"
      and r: "rep mr g n 0 (dec hi) s1 k = Some e"
      by (auto split: if_splits)
    show ?case
    proof (cases "hi = Some 0")
      case True
      with "3.prems" have "k st = Some e" by simp
      then show ?thesis by blast
    next
      case False
      show ?thesis
      proof (cases g)
        case True
        from "3.IH"(1) [OF False True lt mr r] s1(1) show ?thesis by blast
      next
        case g: False
        show ?thesis
        proof (cases "k st")
          case None
          from "3.IH"(2) [OF False g None lt mr r] s1(1) show ?thesis by blast
        next
          case (Some a)
          with "3.prems" False g have "k st = Some e" by simp
          then show ?thesis by blast
        qed
      qed
    qed
  qed
  have stop: "k st = Some e \<Longrightarrow> ?case" by blast
  from "3.prems"(2) more stop show ?case
    by (simp split: if_splits option.splits)
qed

lemma match_lit_passes:
  "(case match_lit f xs p s of None \<Rightarrow> None | Some (p', s') \<Rightarrow> k (p', s', c)) = Some e \<Longrightarrow>
   \<exists>st'. fst ` set c \<subseteq> ckeys st' \<and> k st' = Some e"
  by (auto split: option.splits)

lemma m_passes: "passes (m r f)"
proof (induction r arbitrary: f)
  case (Lit xs)
  show ?case unfolding passes_def
    by (auto split: option.splits prod.splits)
next
  case Dot
  show ?case unfolding passes_def
    by (auto split: list.splits if_splits prod.splits)
next
  case (Set ks)
  show ?case unfolding passes_def
    by (auto split: list.splits if_splits prod.splits)
next
  case (NSet ks)
  show ?case unfolding passes_def
    by (auto split: list.splits if_splits prod.splits)
next
  case (Seq a b)
  show ?case unfolding passes_def
  proof (intro allI impI)
    fix st k e assume "m (Seq a b) f st k = Some e"
    then have "m a f st (\<lambda>st'. m b f st' k) = Some e" by simp
    from passesD [OF Seq.IH(1) this] obtain s1 where
      s1: "ckeys st \<subseteq> ckeys s1" "m b f s1 k = Some e" by blast
    from passesD [OF Seq.IH(2) s1(2)] s1(1)
    show "\<exists>st'. ckeys st \<subseteq> ckeys st' \<and> k st' = Some e" by blast
  qed
next
  case (Alt a b)
  show ?case unfolding passes_def
  proof (intro allI impI)
    fix st k e assume a: "m (Alt a b) f st k = Some e"
    show "\<exists>st'. ckeys st \<subseteq> ckeys st' \<and> k st' = Some e"
    proof (cases "m a f st k")
      case None
      with a have "m b f st k = Some e" by simp
      from passesD [OF Alt.IH(2) this] show ?thesis .
    next
      case (Some x)
      with a have "m a f st k = Some e" by simp
      from passesD [OF Alt.IH(1) this] show ?thesis .
    qed
  qed
next
  case (Rep g lo hi r)
  show ?case unfolding passes_def
    using rep_passes [OF Rep.IH] by simp
next
  case (Grp n r)
  show ?case unfolding passes_def
  proof (intro allI impI)
    fix st k e assume a: "m (Grp n r) f st k = Some e"
    obtain p s c where st: "st = (p, s, c)" by (cases st)
    let ?K = "\<lambda>st'. case st' of (p', s', c') \<Rightarrow> k (p', s', (n, take (length s - length s') s) # c')"
    from a st have "m r f (p, s, c) ?K = Some e" by simp
    from passesD [OF Grp.IH this] obtain s1 where
      s1: "ckeys (p, s, c) \<subseteq> ckeys s1" "?K s1 = Some e" by blast
    obtain p' s' c' where s1e: "s1 = (p', s', c')" by (cases s1)
    from s1 s1e st show "\<exists>st'. ckeys st \<subseteq> ckeys st' \<and> k st' = Some e"
      by (intro exI [of _ "(p', s', (n, take (length s - length s') s) # c')"]) auto
  qed
next
  case (Ahead r)
  show ?case unfolding passes_def
  proof (intro allI impI)
    fix st k e assume a: "m (Ahead r) f st k = Some e"
    obtain p s c where st: "st = (p, s, c)" by (cases st)
    from a st obtain p' s' c' where
      in1: "m r f (p, s, c) Some = Some (p', s', c')" and k: "k (p, s, c') = Some e"
      by (auto split: option.splits)
    from passesD [OF Ahead.IH in1] have "fst ` set c \<subseteq> fst ` set c'" by auto
    with k st show "\<exists>st'. ckeys st \<subseteq> ckeys st' \<and> k st' = Some e"
      by (intro exI [of _ "(p, s, c')"]) auto
  qed
next
  case Bol
  show ?case unfolding passes_def by (auto split: if_splits prod.splits)
next
  case Eol
  show ?case unfolding passes_def by (auto split: if_splits prod.splits)
next
  case EndZ
  show ?case unfolding passes_def by (auto split: if_splits prod.splits)
next
  case WordB
  show ?case unfolding passes_def by (auto split: if_splits prod.splits)
qed

lemma m_covers:
  "covers n r \<Longrightarrow> m r f st k = Some e \<Longrightarrow> \<exists>st'. n \<in> ckeys st' \<and> k st' = Some e"
proof (induction r arbitrary: st k e)
  case (Seq a b)
  from Seq.prems(2) have s: "m a f st (\<lambda>st'. m b f st' k) = Some e" by simp
  from Seq.prems(1) consider "covers n a" | "covers n b" by auto
  then show ?case
  proof cases
    case 1
    from Seq.IH(1) [OF 1 s] obtain s1 where s1: "n \<in> ckeys s1" "m b f s1 k = Some e" by blast
    from passesD [OF m_passes s1(2)] s1(1) show ?thesis by blast
  next
    case 2
    from passesD [OF m_passes s] obtain s1 where "m b f s1 k = Some e" by blast
    from Seq.IH(2) [OF 2 this] show ?thesis .
  qed
next
  case (Alt a b)
  show ?case
  proof (cases "m a f st k")
    case None
    with Alt.prems have "m b f st k = Some e" "covers n b" by simp_all
    with Alt.IH(2) show ?thesis by blast
  next
    case (Some x)
    with Alt.prems have "m a f st k = Some e" "covers n a" by simp_all
    with Alt.IH(1) show ?thesis by blast
  qed
next
  case (Rep g lo hi r)
  then obtain lo' where lo: "lo = Suc lo'" and c: "covers n r" by (cases lo) auto
  let ?fuel = "Suc (length (fst (snd st)))"
  from Rep.prems(2) lo have "m r f st (\<lambda>st'. rep (m r f) g ?fuel lo' (dec hi) st' k) = Some e"
    by simp
  from Rep.IH [OF c this] obtain s1 where
    s1: "n \<in> ckeys s1" "rep (m r f) g ?fuel lo' (dec hi) s1 k = Some e" by blast
  from rep_passes [OF m_passes s1(2)] s1(1) show ?case by blast
next
  case (Grp j r)
  obtain p s c where st: "st = (p, s, c)" by (cases st)
  let ?K = "\<lambda>st'. case st' of (p', s', c') \<Rightarrow> k (p', s', (j, take (length s - length s') s) # c')"
  from Grp.prems(2) st have a: "m r f (p, s, c) ?K = Some e" by simp
  show ?case
  proof (cases "j = n")
    case True
    from passesD [OF m_passes a] obtain s1 where s1: "?K s1 = Some e" by blast
    obtain p' s' c' where "s1 = (p', s', c')" by (cases s1)
    with s1 True show ?thesis
      by (intro exI [of _ "(p', s', (j, take (length s - length s') s) # c')"]) auto
  next
    case False
    with Grp.prems(1) have "covers n r" by simp
    from Grp.IH [OF this a] obtain s1 where s1: "n \<in> ckeys s1" "?K s1 = Some e" by blast
    obtain p' s' c' where "s1 = (p', s', c')" by (cases s1)
    with s1 show ?thesis
      by (intro exI [of _ "(p', s', (j, take (length s - length s') s) # c')"]) auto
  qed
next
  case (Ahead r)
  obtain p s c where st: "st = (p, s, c)" by (cases st)
  from Ahead.prems(2) st obtain p' s' c' where
    in1: "m r f (p, s, c) Some = Some (p', s', c')" and k: "k (p, s, c') = Some e"
    by (auto split: option.splits)
  from Ahead.prems(1) have "covers n r" by simp
  from Ahead.IH [OF this in1] have "n \<in> fst ` set c'" by auto
  with k show ?case by (intro exI [of _ "(p, s, c')"]) auto
qed simp_all

lemma search_from_covers:
  "covers n r \<Longrightarrow> search_from f r p s = Some mt \<Longrightarrow> group mt n \<noteq> None"
proof (induction f r p s rule: search_from.induct)
  case (1 f r p)
  then obtain p' s' c where a: "m r f (p, [], []) Some = Some (p', s', c)" and mt: "m_caps mt = c"
    by (auto split: option.splits)
  from m_covers [OF "1.prems"(1) a] have "n \<in> fst ` set c" by auto
  with mt show ?case by (simp add: group_def map_of_eq_None_iff)
next
  case (2 f r p x xs)
  show ?case
  proof (cases "m r f (p, x # xs, []) Some")
    case None
    with "2.prems" "2.IH" show ?thesis by simp
  next
    case (Some a)
    obtain p' s' c where a: "a = (p', s', c)" by (cases a)
    with Some "2.prems" have mt: "m_caps mt = c" by auto
    from Some a have sa: "m r f (p, x # xs, []) Some = Some (p', s', c)" by simp
    from m_covers [OF "2.prems"(1) sa] have "n \<in> fst ` set c" by auto
    with mt show ?thesis by (simp add: group_def map_of_eq_None_iff)
  qed
qed

lemma re_search_covers:
  "covers n r \<Longrightarrow> re_search r text f = Some mt \<Longrightarrow> \<exists>g. group mt n = Some g"
  using search_from_covers [of n r f None "text" mt] by (auto simp: re_search_def)

lemma bindE_ok: "\<not> isl x \<Longrightarrow> (\<And>v. \<not> isl (g v)) \<Longrightarrow> \<not> isl (bindE x g)"
  by (cases x) (simp_all add: bindE_def)

lemma group_strip_ok:
  "covers n r \<Longrightarrow> re_search r s f = Some mt \<Longrightarrow> \<not> isl (group_strip mt n)"
  using re_search_covers [of n r s f mt] by (auto simp: group_strip_def)

lemma extract_with_patterns_ok:
  "list_all safe_pat ps \<Longrightarrow> \<not> isl (extract_with_patterns s ps)"
proof (induction s ps rule: extract_with_patterns.induct)
  case (1 s)
  show ?case by simp
next
  case (2 s name r patterns)
  then show ?case by (simp split: option.splits)
next
  case (3 s r patterns)
  then show ?case
    by (auto simp: safe_pat_def group_strip_ok split: option.splits)
qed

lemma find_all_covers:
  "covers n r \<Longrightarrow> mt \<in> set (find_all f r p s) \<Longrightarrow> \<exists>g. group mt n = Some g"
proof (induction f r p s rule: find_all.induct)
  case (1 f r p s)
  show ?case
  proof (cases "search_from f r p s")
    case None
    with "1.prems" show ?thesis by (simp add: find_all.simps)
  next
    case (Some m0)
    have hd: "\<exists>g. group m0 n = Some g"
      using search_from_covers [OF "1.prems"(1) Some] by auto
    have eq: "find_all f r p s =
        m0 # (if length (m_end m0) < length (m_start m0) \<and> length (m_start m0) \<le> length s
              then find_all f r (m_last m0) (m_end m0)
              else (case m_start m0 of
                      [] \<Rightarrow> []
                    | x # xs \<Rightarrow> if length xs < length s then find_all f r (Some x) xs else []))"
      by (subst find_all.simps) (simp add: Some)
    from "1.prems"(2) have "mt = m0 \<or>
        (length (m_end m0) < length (m_start m0) \<and> length (m_start m0) \<le> length s \<and>
         mt \<in> set (find_all f r (m_last m0) (m_end m0))) \<or>
        (\<exists>x xs. \<not> (length (m_end m0) < length (m_start m0) \<and> length (m_start m0) \<le> length s) \<and>
         m_start m0 = x # xs \<and> length xs < length s \<and> mt \<in> set (find_all f r (Some x) xs))"
      unfolding eq by (auto split: if_splits list.splits)
    then consider "mt = m0"
      | "length (m_end m0) < length (m_start m0) \<and> length (m_start m0) \<le> length s"
        "mt \<in> set (find_all f r (m_last m0) (m_end m0))"
      | x xs where "\<not> (length (m_end m0) < length (m_start m0) \<and> length (m_start m0) \<le> length s)"
        "m_start m0 = x # xs" "length xs < length s" "mt \<in> set (find_all f r (Some x) xs)"
      by blast
    then show ?thesis
    proof cases
      case 1
      with hd show ?thesis by simp
    next
      case 2
      from "1.IH"(1) [OF Some 2(1) "1.prems"(1) 2(2)] show ?thesis .
    next
      case 3
      from "1.IH"(2) [OF Some 3(1) 3(2) 3(3) "1.prems"(1) 3(4)] show ?thesis .
    qed
  qed
qed


section \<open>The local extractor never raises\<close>

lemma safe_lists:
  "list_all safe_pat health_category_patterns"
  "list_all safe_pat physical_category_patterns"
  "list_all safe_pat hazard_stmt_patterns"
  "list_all safe_pat flash_point_patterns"
  "list_all safe_pat appearance_patterns"
  "list_all safe_pat odor_patterns"
  "list_all safe_pat color_patterns"
  "list_all safe_pat packing_group_patterns"
  "list_all safe_pat dangerous_goods_patterns"
  "list_all safe_pat storage_patterns"
  "list_all safe_pat product_patterns"
  "list_all safe_pat cas_patterns"
  "list_all safe_pat chem_id_patterns"
  "list_all safe_pat precautionary_patterns"
  "list_all safe_pat first_aid_patterns"
  "list_all safe_pat firefighting_patterns"
  "list_all safe_pat supplier_patterns"
  "list_all safe_pat env_patterns"
  "list_all safe_pat reg_patterns"
  "list_all safe_pat composition_patterns"
  "list_all safe_pat classification_patterns"
  "list_all safe_pat section_product_patterns"
  "list_all safe_pat section_cas_patterns"
  "list_all safe_pat section_precautionary_patterns"
  "list_all safe_pat section_supplier_patterns"
  by code_simp+

lemma covers_inline:
  "covers 1 section_2_rx"
  "covers 1 smell_descriptors_rx"
  "covers 1 section_pattern" "covers 2 section_pattern" "covers 3 section_pattern"
  by code_simp+

lemma covers_smell: "covers (Suc 0) smell_descriptors_rx"
  using covers_inline(2) by simp

lemma health_category_ok: "\<not> isl (health_category set_iter s)"
  unfolding health_category_def
  by (rule bindE_ok)
     (auto simp: extract_with_patterns_ok safe_lists Let_def
           dest: re_search_covers [OF covers_inline(1)] split: option.splits)

lemma hazard_statement_ok: "\<not> isl (hazard_statement set_iter s)"
  unfolding hazard_statement_def
  by (rule bindE_ok) (auto simp: extract_with_patterns_ok safe_lists Let_def)

lemma odour_ok: "\<not> isl (odour s)"
proof (cases "is_nmp s")
  case True
  then show ?thesis by (simp add: odour_def)
next
  case False
  show ?thesis
    unfolding odour_def
    by (simp add: False, intro bindE_ok extract_with_patterns_ok safe_lists)
       (auto simp: group_strip_ok [OF covers_smell] split: option.splits list.splits)
qed

lemma extract_pattern_based_ok: "\<not> isl (extract_pattern_based set_iter s)"
  unfolding extract_pattern_based_def
  by (intro bindE_ok health_category_ok hazard_statement_ok odour_ok
        extract_with_patterns_ok safe_lists) simp

lemma isl_bindE: "isl (bindE x g) = (isl x \<or> (\<exists>v. x = Inr v \<and> isl (g v)))"
  by (cases x) (simp_all add: bindE_def)

lemma isl_group_strip: "isl (group_strip mt n) = (group mt n = None)"
  by (simp add: group_strip_def split: option.splits)

lemma group_present:
  "covers n r \<Longrightarrow> re_search r s f = Some mt \<Longrightarrow> group mt n \<noteq> None"
  using re_search_covers [of n r s f mt] by auto

lemma covers_section_rx:
  "covers (Suc 0) storage_rx" "covers (Suc 0) handling_rx" "covers (Suc 0) address_rx"
  "covers (Suc 0) company_rx" "covers (Suc 0) phone_rx"
  "covers (Suc 0) section_pattern" "covers 2 section_pattern" "covers 3 section_pattern"
  by code_simp+

lemma covers_category:
  "covers (Suc 0) (category_line_rx category)" "covers (Suc 0) (category_extended_rx category)"
  by (simp_all add: category_line_rx_def category_extended_rx_def seq_def)

lemma covers_firefighting: "list_all (\<lambda>(name, r, n). covers n r) firefighting_sections"
  by code_simp

lemma collect_ok: "(\<And>x. x \<in> set xs \<Longrightarrow> \<not> isl x) \<Longrightarrow> \<not> isl (collect xs)"
  by (induction xs) (auto simp: isl_bindE)

lemma add_section_ok:
  assumes "\<exists>g. group mt (Suc 0) = Some g" "\<exists>g. group mt 2 = Some g" "\<exists>g. group mt 3 = Some g"
  shows "\<not> isl (add_section mt secs)"
  using assms by (auto simp: add_section_def group_strip_def bindE_def)

lemma add_sections_ok:
  "(\<And>mt. mt \<in> set mts \<Longrightarrow>
      (\<exists>g. group mt (Suc 0) = Some g) \<and> (\<exists>g. group mt 2 = Some g) \<and> (\<exists>g. group mt 3 = Some g)) \<Longrightarrow>
   \<not> isl (add_sections mts secs)"
proof (induction mts arbitrary: secs)
  case Nil
  show ?case by simp
next
  case (Cons mt mts)
  have "\<not> isl (add_section mt secs)"
    using Cons.prems [of mt] by (intro add_section_ok) auto
  moreover have "\<not> isl (add_sections mts s')" for s'
    using Cons.prems by (intro Cons.IH) auto
  ultimately show ?case by (auto simp: isl_bindE)
qed

lemma get_sections_ok: "\<not> isl (get_sections s)"
  unfolding get_sections_def
  by (intro add_sections_ok conjI)
     (auto intro: find_all_covers [OF covers_section_rx(6)] find_all_covers [OF covers_section_rx(7)]
        find_all_covers [OF covers_section_rx(8)])

lemma extract_composition_info_ok: "\<not> isl (extract_composition_info s)"
  unfolding extract_composition_info_def
  by (intro bindE_ok extract_with_patterns_ok safe_lists) (simp add: Let_def)

lemma extract_hazard_classification_ok: "\<not> isl (extract_hazard_classification s)"
  unfolding extract_hazard_classification_def
  by (intro bindE_ok extract_with_patterns_ok safe_lists) (simp add: Let_def)

lemma extract_precautionary_statements_ok: "\<not> isl (extract_precautionary_statements s)"
  unfolding extract_precautionary_statements_def Let_def
  by (auto simp: isl_bindE isl_group_strip group_present [OF covers_section_rx(1)]
        group_present [OF covers_section_rx(2)] split: option.splits)

lemma extract_supplier_info_ok: "\<not> isl (extract_supplier_info s)"
  unfolding extract_supplier_info_def Let_def
  by (auto simp: isl_bindE isl_group_strip group_present [OF covers_section_rx(3)]
        group_present [OF covers_section_rx(4)] group_present [OF covers_section_rx(5)]
        split: option.splits)

lemma first_aid_measure_ok: "\<not> isl (first_aid_measure s category)"
  unfolding first_aid_measure_def
  by (auto simp: isl_bindE isl_group_strip group_present [OF covers_category(1)]
        group_present [OF covers_category(2)] split: option.splits)

lemma extract_first_aid_measures_ok: "\<not> isl (extract_first_aid_measures s)"
  unfolding extract_first_aid_measures_def
  by (intro bindE_ok collect_ok) (auto simp: first_aid_measure_ok Let_def)

lemma firefighting_section_ok:
  assumes "entry \<in> set firefighting_sections"
  shows "\<not> isl (firefighting_section s entry)"
proof -
  obtain name r n where e: "entry = (name, r, n)" by (cases entry)
  from covers_firefighting assms e have c: "covers n r"
    by (auto simp: list_all_iff)
  show ?thesis
    unfolding firefighting_section_def e
    by (auto simp: isl_bindE isl_group_strip group_present [OF c] split: option.splits)
qed

lemma extract_firefighting_measures_ok: "\<not> isl (extract_firefighting_measures s)"
  unfolding extract_firefighting_measures_def
  by (intro bindE_ok collect_ok) (auto simp: firefighting_section_ok Let_def)

lemma section_field_ok: "\<not> isl (section_field field s)"
  unfolding section_field_def
  by (auto simp: isl_bindE extract_with_patterns_ok safe_lists
          extract_composition_info_ok extract_hazard_classification_ok
          extract_first_aid_measures_ok extract_precautionary_statements_ok
          extract_supplier_info_ok extract_firefighting_measures_ok)

lemma section_fields_ok: "\<not> isl (section_fields fs s data)"
  by (induction fs arbitrary: data) (auto simp: isl_bindE section_field_ok)

lemma map_sections_ok: "\<not> isl (map_sections ms secs data)"
proof (induction ms arbitrary: data)
  case Nil
  show ?case by simp
next
  case (Cons a ms)
  obtain num fs where a: "a = (num, fs)" by (cases a)
  show ?case unfolding a
    by (auto simp: isl_bindE section_fields_ok Cons.IH split: option.splits)
qed

lemma extract_section_based_ok: "\<not> isl (extract_section_based s)"
  unfolding extract_section_based_def
  by (auto simp: isl_bindE get_sections_ok map_sections_ok)

lemma extract_sds_data_ok: "\<not> isl (extract_sds_data set_iter s method)"
  unfolding extract_sds_data_def
  by (auto simp: isl_bindE extract_pattern_based_ok extract_section_based_ok)

section \<open>Properties of the external-model extractor\<close>

lemma retry_loop_rate_limited:
  assumes rl: "\<forall>n. \<exists>err. provider e n text = Inl err \<and> is_rate_limit err"
  shows "retry_count \<le> max_retries \<Longrightarrow>
     retry_loop e text retry_count tr =
       (tr @ concat (map (\<lambda>i. [ApiCall, Sleep (backoff_time * (i + 1))]) [retry_count..<max_retries]),
        Unbound)"
proof (induction "max_retries - retry_count" arbitrary: retry_count tr)
  case 0
  then have "\<not> retry_count < max_retries" by simp
  then show ?case by (subst retry_loop.simps) simp
next
  case (Suc d)
  then have lt: "retry_count < max_retries" by simp
  from rl obtain err where err: "provider e retry_count text = Inl err" "is_rate_limit err"
    by blast
  have d: "d = max_retries - (retry_count + 1)" using Suc.hyps(2) by simp
  have le: "retry_count + 1 \<le> max_retries" using lt by simp
  have up: "[retry_count..<max_retries] = retry_count # [retry_count + 1..<max_retries]"
    using lt by (simp add: upt_conv_Cons)
  have step: "retry_loop e text retry_count tr =
      retry_loop e text (retry_count + 1) (tr @ [ApiCall, Sleep (backoff_time * (retry_count + 1))])"
    by (subst retry_loop.simps) (simp add: lt err)
  show ?case
    unfolding step Suc.hyps(1)[OF d le] up by simp
qed

lemma api_calls_append: "api_calls (xs @ ys) = api_calls xs + api_calls ys"
  by (simp add: api_calls_def)

lemma api_calls_rounds:
  "api_calls (concat (map (\<lambda>i. [ApiCall, Sleep (g i)]) xs)) = length xs"
  by (induction xs) (simp_all add: api_calls_def)

lemma exhausted_message_has_no_count:
  "\<not> contains (str_nat max_retries) (''Failed to process Anthropic response: '' @ unbound_local_msg)"
  by code_simp

lemma always_429_is_rate_limit: "is_rate_limit ''Error code: 429 - rate_limit_error''"
  by code_simp

text \<open>
  Claim C5. When every call of the retry-wrapped provider raises an error classified as
  rate-limit, exactly \<open>max_retries\<close> (10) calls are made and no exception escapes, as the
  claim says. But the rate-limit branch of the loop never reaches the \<^verbatim>\<open>return\<close> that
  reports the attempt count: the loop ends with \<^verbatim>\<open>response_text\<close> unassigned, reading it
  raises, and the handler of response processing returns
  \<^verbatim>\<open>Failed to process Anthropic response: ...\<close>, a message without the attempt count.
\<close>

theorem rate_limit_exhaustion:
  assumes "ai_service e = Some Anthropic"
    and "\<forall>n. \<exists>err. provider e n text = Inl err \<and> is_rate_limit err"
  shows "api_calls (fst (extract_with_ai e text sds_filename light_mode)) = max_retries \<and>
         snd (extract_with_ai e text sds_filename light_mode) =
           Inr (error_result (''Failed to process Anthropic response: '' @ unbound_local_msg)) \<and>
         \<not> contains (str_nat max_retries)
             (''Failed to process Anthropic response: '' @ unbound_local_msg)"
proof -
  have loop: "retry_loop e text 0 [Sleep 3] =
      ([Sleep 3] @ concat (map (\<lambda>i. [ApiCall, Sleep (backoff_time * (i + 1))]) [0..<max_retries]),
       Unbound)"
    using retry_loop_rate_limited [OF assms(2), of 0 "[Sleep 3]"] by simp
  have res: "extract_with_ai e text sds_filename light_mode =
      ([Sleep 3] @ concat (map (\<lambda>i. [ApiCall, Sleep (backoff_time * (i + 1))]) [0..<max_retries]),
       Inr (error_result (''Failed to process Anthropic response: '' @ unbound_local_msg)))"
    unfolding extract_with_ai_def assms(1) loop by simp
  have calls: "api_calls (fst (extract_with_ai e text sds_filename light_mode)) = max_retries"
    unfolding res fst_conv api_calls_append api_calls_rounds by (simp add: api_calls_def)
  have val: "snd (extract_with_ai e text sds_filename light_mode) =
      Inr (error_result (''Failed to process Anthropic response: '' @ unbound_local_msg))"
    unfolding res snd_conv ..
  from calls val exhausted_message_has_no_count show ?thesis by blast
qed

theorem rate_limit_exhaustion_witness:
  "api_calls (fst (extract_with_ai always_429 ''x'' None False)) = 10 \<and>
   snd (extract_with_ai always_429 ''x'' None False) =
     Inr (error_result (''Failed to process Anthropic response: '' @ unbound_local_msg))"
  using rate_limit_exhaustion [of always_429 "''x''" None False] always_429_is_rate_limit
  by (simp add: always_429_def max_retries_def)

text \<open>
  Claim C10. The \<^verbatim>\<open>light_mode\<close> parameter of \<^verbatim>\<open>extract_with_ai\<close> is never read: the
  function makes the same provider calls and returns the same result whether it is
  \<^verbatim>\<open>True\<close> or \<^verbatim>\<open>False\<close>.
\<close>

theorem light_mode_ignored:
  "extract_with_ai e text sds_filename True = extract_with_ai e text sds_filename False"
  by (simp add: extract_with_ai_def)
section \<open>Properties of \<^verbatim>\<open>extract_sds_data\<close>\<close>

lemma keys_update_present: "k \<in> fst ` set d \<Longrightarrow> map fst (AList.update k v d) = map fst d"
  by (induction d) auto

lemma keys_merge_field:
  "field \<in> fst ` set data \<Longrightarrow> map fst (merge_field pd sd field data) = map fst data"
  by (simp add: merge_field_def Let_def keys_update_present)

lemma keys_copy_field:
  "field \<in> fst ` set data \<Longrightarrow> map fst (copy_field src field data) = map fst data"
  by (simp add: copy_field_def keys_update_present split: option.splits)

lemma keys_fold:
  assumes "\<And>field data. field \<in> fst ` set data \<Longrightarrow> map fst (g field data) = map fst data"
  shows "set fs \<subseteq> fst ` set data \<Longrightarrow> map fst (fold g fs data) = map fst data"
proof (induction fs arbitrary: data)
  case Nil
  show ?case by simp
next
  case (Cons a fs)
  have a: "map fst (g a data) = map fst data" using Cons.prems by (intro assms) auto
  then have "fst ` set (g a data) = fst ` set data" by (metis list.set_map)
  with Cons.prems have "set fs \<subseteq> fst ` set (g a data)" by auto
  from Cons.IH [OF this] a show ?case by simp
qed

lemma keys_empty_record: "map fst empty_record = required_fields"
  by (simp add: empty_record_def comp_def)

lemma keys_clean_up: "map fst (clean_up d) = map fst d"
  by (induction d) (auto simp: clean_up_def)

lemma extract_sds_data_keys:
  "extract_sds_data set_iter s method = Inr data \<Longrightarrow> map fst data = required_fields"
proof -
  assume a: "extract_sds_data set_iter s method = Inr data"
  have sub: "set required_fields \<subseteq> fst ` set empty_record"
    using keys_empty_record by (metis list.set_map order_refl)
  have m: "map fst (clean_up (fold (merge_field pd sd) required_fields empty_record)) = required_fields" for pd sd
    using keys_fold [of "merge_field pd sd", OF keys_merge_field sub]
    by (simp add: keys_clean_up keys_empty_record)
  have c: "map fst (clean_up (fold (copy_field src) required_fields empty_record)) = required_fields" for src
    using keys_fold [of "copy_field src", OF keys_copy_field sub]
    by (simp add: keys_clean_up keys_empty_record)
  from a show ?thesis
    unfolding extract_sds_data_def
    by (auto simp: bindE_def m c split: if_splits sum.splits)
qed

lemma extract_sds_data_returns:
  "\<exists>data. extract_sds_data set_iter s method = Inr data"
  using extract_sds_data_ok [of set_iter s "method"]
  by (cases "extract_sds_data set_iter s method") auto

text \<open>
  Claim C1, as the code has it. For every text and every method \<^verbatim>\<open>extract_sds_data\<close>
  returns, and the keys of the record are exactly its own \<open>required_fields\<close>, in that
  order; none is ever absent, and every value is a string. These are the columns of
  the register (\<^verbatim>\<open>Number\<close>, \<^verbatim>\<open>Description\<close>, \<^verbatim>\<open>Flash Point (Deg C)\<close>, ...),
  not the field set that the claim lists.
\<close>

theorem canonical_keys:
  "\<exists>data. extract_sds_data set_iter s method = Inr data \<and> map fst data = required_fields"
  using extract_sds_data_returns extract_sds_data_keys by blast

lemma cas_not_required: "''CAS Number'' \<notin> set required_fields"
  by (simp add: required_fields_def)

text \<open>
  Claim C1 as stated fails: \<^verbatim>\<open>CAS Number\<close>, one of the keys the claim lists, is not a
  key of the record returned.
\<close>

theorem cas_number_key_absent:
  "\<not> isl (extract_sds_data remdups ''Product name: Acetone'' ''Automatic'') \<and>
   ''CAS Number'' \<notin> set (returned_keys (extract_sds_data remdups ''Product name: Acetone'' ''Automatic''))"
proof -
  obtain data where d: "extract_sds_data remdups ''Product name: Acetone'' ''Automatic'' = Inr data"
    using extract_sds_data_returns by blast
  from extract_sds_data_keys [OF d] cas_not_required d show ?thesis
    by (simp add: returned_keys_def)
qed


end
